(* ===== verification/Prelude.thy ===== *)
theory Prelude
  imports Main
begin
text \<open>
  Shared vocabulary of the development: Python exceptions as values, the result type
  of a fallible Python step, the Python string operations the code relies on
  (\<open>str.startswith\<close>, \<open>in\<close> on strings, \<open>str.lower\<close>), \<open>load_dotenv\<close> on the process
  environment (shared by the module and the check script), a first-match search used by
  the path matcher, and the generic lemmas on them that the component theories share.
  Python strings are modelled as lists of code points below 256 (Isabelle's \<open>char\<close>).
\<close>

named_theorems pymodel_simps "evaluation rules of the Python model"

subsection \<open>Exceptions\<close>

text \<open>
  A raised Python exception: its class name, \<open>str(err)\<close>, and whether the class derives
  from \<open>Exception\<close> (an \<open>except Exception\<close> clause catches it) or only from
  \<open>BaseException\<close> (\<open>SystemExit\<close>, \<open>KeyboardInterrupt\<close>, \<open>asyncio.CancelledError\<close>).
\<close>

datatype exc = PyExc (exc_type: string) (exc_str: string) (exc_is_Exception: bool)

type_synonym 'a pyres = "exc + 'a"

definition py_error :: "string \<Rightarrow> string \<Rightarrow> exc" where
  "py_error ty msg = PyExc ty msg True"

subsection \<open>String operations\<close>

definition startswith :: "string \<Rightarrow> string \<Rightarrow> bool" where
  "startswith s p \<longleftrightarrow> take (length p) s = p"

fun py_substr :: "string \<Rightarrow> string \<Rightarrow> bool" where
  "py_substr p [] = (p = [])"
| "py_substr p (c # cs) = (startswith (c # cs) p \<or> py_substr p cs)"

text \<open>\<open>str.lower\<close> on the Latin-1 range: ASCII and Latin-1 capitals move down by 32.\<close>

definition py_lower_char :: "char \<Rightarrow> char" where
  "py_lower_char c =
     (let n = of_char c :: nat in
      if (65 \<le> n \<and> n \<le> 90) \<or> (192 \<le> n \<and> n \<le> 222 \<and> n \<noteq> 215) then char_of (n + 32) else c)"

definition py_lower :: "string \<Rightarrow> string" where
  "py_lower s = map py_lower_char s"

subsection \<open>The process environment\<close>

text \<open>
  \<open>load_dotenv()\<close> (python-dotenv, \<open>override=False\<close>): each variable of the \<open>.env\<close>
  file, parsed into a dict, is set unless the environment already has it.
\<close>

definition load_dotenv :: "(string \<times> string) list \<Rightarrow> (string \<times> string) list \<Rightarrow> (string \<times> string) list" where
  "load_dotenv dotenv env =
     fold (\<lambda>(k, v) e. if k \<in> fst ` set e then e else e @ [(k, v)]) dotenv env"

subsection \<open>First match of a search\<close>

text \<open>
  \<open>first_some f xs\<close> is the first \<open>Some\<close> that \<open>f\<close> gives along \<open>xs\<close>: the order
  in which a backtracking regular-expression engine tries its alternatives.
\<close>

fun first_some :: "('a \<Rightarrow> 'b option) \<Rightarrow> 'a list \<Rightarrow> 'b option" where
  "first_some f [] = None"
| "first_some f (x # xs) = (case f x of Some y \<Rightarrow> Some y | None \<Rightarrow> first_some f xs)"

subsection \<open>Dictionaries\<close>

text \<open>
  A Python dict with string keys, in insertion order: an association list whose keys are
  distinct. \<open>d.get(k, default)\<close> is \<open>dict_get\<close>.
\<close>

type_synonym 'v pydict = "(string \<times> 'v) list"

definition dict_get :: "'v pydict \<Rightarrow> string \<Rightarrow> 'v \<Rightarrow> 'v" where
  "dict_get d k dflt = (case map_of d k of Some v \<Rightarrow> v | None \<Rightarrow> dflt)"

subsection \<open>Lemmas on the shared vocabulary\<close>

lemma exc_is_Exception_py_error [simp]: "exc_is_Exception (py_error ty msg)"
  by (simp add: py_error_def)

lemma exc_type_py_error [simp]: "exc_type (py_error ty msg) = ty"
  by (simp add: py_error_def)

lemma exc_str_py_error [simp]: "exc_str (py_error ty msg) = msg"
  by (simp add: py_error_def)

lemma startswith_append [simp]: "startswith (p @ s) p"
  by (simp add: startswith_def)

lemma startswith_Nil [simp]: "startswith s []"
  by (simp add: startswith_def)

lemma startswith_Cons_Cons [simp]:
  "startswith (c # s) (d # p) \<longleftrightarrow> c = d \<and> startswith s p"
  by (auto simp: startswith_def)

lemma startswith_Nil_Cons [simp]: "\<not> startswith [] (d # p)"
  by (simp add: startswith_def)

lemma startswith_conv: "startswith s p \<longleftrightarrow> (\<exists>r. s = p @ r)"
  by (metis append_take_drop_id startswith_append startswith_def)

lemma py_substr_iff: "py_substr p s \<longleftrightarrow> (\<exists>a b. s = a @ p @ b)"
proof (induction s)
  case Nil
  then show ?case by simp
next
  case (Cons c cs)
  have fwd: "\<exists>a b. c # cs = a @ p @ b" if "py_substr p (c # cs)"
  proof (cases "startswith (c # cs) p")
    case True
    then obtain r where "c # cs = p @ r" by (auto simp: startswith_conv)
    then have "c # cs = [] @ p @ r" by simp
    then show ?thesis by blast
  next
    case False
    with that Cons.IH obtain a b where "cs = a @ p @ b" by auto
    then have "c # cs = (c # a) @ p @ b" by simp
    then show ?thesis by blast
  qed
  have bwd: "py_substr p (c # cs)" if "c # cs = a @ p @ b" for a b
  proof (cases a)
    case Nil
    with that have "startswith (c # cs) p" by (simp add: startswith_conv)
    then show ?thesis by simp
  next
    case (Cons a0 a')
    with that Cons.IH show ?thesis by auto
  qed
  from fwd bwd show ?case by blast
qed

lemma first_some_cong [fundef_cong]:
  "xs = ys \<Longrightarrow> (\<And>x. x \<in> set ys \<Longrightarrow> f x = g x) \<Longrightarrow> first_some f xs = first_some g ys"
  by (induction ys arbitrary: xs) (auto split: option.splits)

lemma first_some_None_iff [simp]:
  "first_some f xs = None \<longleftrightarrow> (\<forall>x \<in> set xs. f x = None)"
  by (induction xs) (auto split: option.splits)

lemma first_some_append:
  "first_some f (xs @ ys) = (case first_some f xs of None \<Rightarrow> first_some f ys | Some y \<Rightarrow> Some y)"
  by (induction xs) (auto simp del: first_some_None_iff split: option.splits)

text \<open>When all candidates but one fail, the search returns that one's result.\<close>

lemma first_some_unique:
  assumes "k \<in> set xs" and "\<And>j. j \<in> set xs \<Longrightarrow> j \<noteq> k \<Longrightarrow> f j = None"
  shows "first_some f xs = f k"
  using assms
proof (induction xs)
  case Nil
  then show ?case by simp
next
  case (Cons x xs)
  show ?case
  proof (cases "x = k")
    case True
    have "first_some f xs = None" if "f k = None"
      using Cons.prems(2) that by auto
    with True show ?thesis by (auto split: option.splits)
  next
    case False
    with Cons.prems have "f x = None" and "k \<in> set xs" by auto
    with Cons.IH Cons.prems(2) show ?thesis by simp
  qed
qed

lemma first_some_all_None:
  assumes "\<And>j. j \<in> set xs \<Longrightarrow> f j = None"
  shows "first_some f xs = None"
  using assms by simp

lemma first_some_Some_in:
  "first_some f xs = Some y \<Longrightarrow> \<exists>x \<in> set xs. f x = Some y"
  by (induction xs) (auto split: option.splits)

lemma dict_get_Cons [simp]:
  "dict_get ((k', v) # d) k dflt = (if k' = k then v else dict_get d k dflt)"
  by (simp add: dict_get_def)

lemma dict_get_Nil [simp]: "dict_get [] k dflt = dflt"
  by (simp add: dict_get_def)

lemma rev_upt_Suc0: "rev [0..<Suc n] = n # rev [0..<n]"
  by simp

lemma length_filter_inj_le1:
  "inj_on f (set xs) \<Longrightarrow> distinct xs \<Longrightarrow> length (filter (\<lambda>x. f x = e) xs) \<le> 1"
proof (induction xs)
  case Nil
  then show ?case by simp
next
  case (Cons x xs)
  show ?case
  proof (cases "f x = e")
    case True
    have "filter (\<lambda>y. f y = e) xs = []"
    proof (rule ccontr)
      assume "filter (\<lambda>y. f y = e) xs \<noteq> []"
      then obtain y where y: "y \<in> set xs" "f y = e" by (auto simp: filter_empty_conv)
      have "y = x" using inj_onD [OF Cons.prems(1), of y x] y True by simp
      with y Cons.prems(2) show False by simp
    qed
    with True show ?thesis by simp
  next
    case False
    with Cons show ?thesis by (simp add: inj_on_insert)
  qed
qed

lemma find_unique_elem:
  assumes "x \<in> set xs" "P x" "\<forall>y \<in> set xs. P y \<longrightarrow> y = x"
  shows "find P xs = Some x"
  using assms
proof (induction xs)
  case Nil
  then show ?case by simp
next
  case (Cons y ys)
  show ?case
  proof (cases "P y")
    case True
    with Cons.prems(3) have "y = x" by simp
    with True show ?thesis by simp
  next
    case False
    with Cons.prems have "x \<in> set ys" by auto
    have "\<forall>z \<in> set ys. P z \<longrightarrow> z = x" using Cons.prems(3) by simp
    with \<open>x \<in> set ys\<close> Cons.prems(2) have "find P ys = Some x" by (rule Cons.IH)
    with False show ?thesis by simp
  qed
qed

lemma find_unique_set_eq:
  assumes uniq: "\<forall>x \<in> set xs. \<forall>y \<in> set xs. P x \<longrightarrow> P y \<longrightarrow> x = y" and eq: "set ys = set xs"
  shows "find P ys = find P xs"
proof (cases "\<exists>x \<in> set xs. P x")
  case True
  then obtain x where x: "x \<in> set xs" "P x" by blast
  have all: "\<forall>y \<in> set xs. P y \<longrightarrow> y = x" using uniq x by blast
  have "find P xs = Some x" using x all by (rule find_unique_elem)
  moreover have "find P ys = Some x" using x all eq by (intro find_unique_elem) blast+
  ultimately show ?thesis by simp
next
  case False
  then have "find P xs = None" by (auto simp: find_None_iff)
  moreover have "find P ys = None" using False eq by (auto simp: find_None_iff)
  ultimately show ?thesis by simp
qed

lemma load_dotenv_keeps:
  "map_of env k = Some v \<Longrightarrow> map_of (load_dotenv d env) k = Some v"
proof (induction d arbitrary: env)
  case (Cons kv d)
  then show ?case by (cases kv) (auto simp: load_dotenv_def map_of_append)
qed (simp add: load_dotenv_def)

lemma load_dotenv_lookup:
  "distinct (map fst d) \<Longrightarrow>
   map_of (load_dotenv d env) k = (case map_of env k of Some v \<Rightarrow> Some v | None \<Rightarrow> map_of d k)"
proof (induction d arbitrary: env)
  case Nil then show ?case by (simp add: load_dotenv_def split: option.split)
next
  case (Cons kv d)
  obtain k' v' where kv: "kv = (k', v')" by (cases kv)
  show ?case
  proof (cases "k' \<in> fst ` set env")
    case True
    then show ?thesis using Cons kv
      by (auto simp: load_dotenv_def split: option.split dest: weak_map_of_SomeI)
  next
    case False
    then show ?thesis using Cons kv
      by (auto simp: load_dotenv_def map_of_append split: option.split)
  qed
qed


lemma py_lower_char_idem [simp]: "py_lower_char (py_lower_char c) = py_lower_char c"
  by (auto simp: py_lower_char_def Let_def)

lemma py_lower_idem [simp]: "py_lower (py_lower s) = py_lower s"
  by (simp add: py_lower_def)

lemma first_some_SomeD: "first_some f xs = Some y \<Longrightarrow> \<exists>x \<in> set xs. f x = Some y"
  by (induction xs) (auto split: option.splits)

lemma find_map_eq: "find P (map f xs) = map_option f (find (P \<circ> f) xs)"
  by (induction xs) auto

end
