(* ===== verification/PyValue.thy ===== *)
theory PyValue
  imports Prelude
begin
text \<open>
  The Python values that flow through the adapter: the body an API function returns, the
  configuration dict, and the JSON documents written back to the client. This theory holds
  the value datatype, the Python built-ins the adapter applies to it (\<open>str()\<close>, \<open>repr()\<close>,
  \<open>len()\<close>, \<open>in\<close>, subscription, \<open>dict.get\<close>), and the two JSON serialisers on the
  response path: pygeoapi's \<open>util.to_json\<close> and Starlette's \<open>JSONResponse.render\<close>,
  both \<open>json.dumps\<close> with compact separators, the first with \<open>ensure_ascii=True\<close>
  (the default), the second with \<open>ensure_ascii=False\<close>. These library functions are not
  part of the repository; they are modelled from their documented behaviour.
\<close>

datatype pyval =
    PNone
  | PBool bool
  | PInt int
  | PStr string
  | PList "pyval list"
  | PDict "(string \<times> pyval) list"

fun py_type_name :: "pyval \<Rightarrow> string" where
  "py_type_name PNone = ''NoneType''"
| "py_type_name (PBool _) = ''bool''"
| "py_type_name (PInt _) = ''int''"
| "py_type_name (PStr _) = ''str''"
| "py_type_name (PList _) = ''list''"
| "py_type_name (PDict _) = ''dict''"

definition is_dict :: "pyval \<Rightarrow> bool" where
  "is_dict v = (case v of PDict _ \<Rightarrow> True | _ \<Rightarrow> False)"

subsection \<open>Digits and joins\<close>

definition hex_digit :: "nat \<Rightarrow> char" where
  "hex_digit d = (if d < 10 then char_of (48 + d) else char_of (87 + d))"

definition hex2 :: "nat \<Rightarrow> string" where
  "hex2 n = [hex_digit (n div 16 mod 16), hex_digit (n mod 16)]"

fun nat_digits :: "nat \<Rightarrow> string" where
  "nat_digits n = (if n < 10 then [char_of (48 + n)] else nat_digits (n div 10) @ [char_of (48 + n mod 10)])"

declare nat_digits.simps [simp del]

definition int_repr :: "int \<Rightarrow> string" where
  "int_repr i = (if i < 0 then CHR ''-'' # nat_digits (nat (- i)) else nat_digits (nat i))"

text \<open>\<open>sep.join(xs)\<close>.\<close>

fun py_join :: "string \<Rightarrow> string list \<Rightarrow> string" where
  "py_join sep [] = []"
| "py_join sep [x] = x"
| "py_join sep (x # y # zs) = x @ sep @ py_join sep (y # zs)"

subsection \<open>\<open>repr()\<close> and \<open>str()\<close>\<close>

text \<open>
  \<open>repr\<close> of a string: single quotes unless the string holds a single quote and no double
  quote; backslash, the chosen quote, tab, newline and carriage return escaped; the other
  non-printable code points of the Latin-1 range (below 32, 127 to 160, and 173) as
  \<open>\xhh\<close>.
\<close>

definition repr_quote :: "string \<Rightarrow> char" where
  "repr_quote s = (if CHR 0x27 \<in> set s \<and> CHR 0x22 \<notin> set s then CHR 0x22 else CHR 0x27)"

definition repr_printable :: "nat \<Rightarrow> bool" where
  "repr_printable n \<longleftrightarrow> 32 \<le> n \<and> n \<noteq> 127 \<and> \<not> (128 \<le> n \<and> n \<le> 160) \<and> n \<noteq> 173"

definition repr_char :: "char \<Rightarrow> char \<Rightarrow> string" where
  "repr_char q c =
     (let n = of_char c :: nat in
      if c = CHR 0x5C then [CHR 0x5C, CHR 0x5C]
      else if c = q then [CHR 0x5C, q]
      else if c = CHR 0x09 then [CHR 0x5C, CHR ''t'']
      else if c = CHR 0x0A then [CHR 0x5C, CHR ''n'']
      else if c = CHR 0x0D then [CHR 0x5C, CHR ''r'']
      else if repr_printable n then [c]
      else CHR 0x5C # CHR ''x'' # hex2 n)"

definition str_repr :: "string \<Rightarrow> string" where
  "str_repr s = (let q = repr_quote s in q # concat (map (repr_char q) s) @ [q])"

fun py_repr :: "pyval \<Rightarrow> string" where
  "py_repr PNone = ''None''"
| "py_repr (PBool b) = (if b then ''True'' else ''False'')"
| "py_repr (PInt i) = int_repr i"
| "py_repr (PStr s) = str_repr s"
| "py_repr (PList xs) = CHR ''['' # py_join '', '' (map py_repr xs) @ '']''"
| "py_repr (PDict kvs) =
     CHR ''{'' # py_join '', '' (map (\<lambda>(k, v). str_repr k @ '': '' @ py_repr v) kvs) @ ''}''"

text \<open>\<open>str(x)\<close>: the string itself for a string, \<open>repr\<close> otherwise.\<close>

fun py_str :: "pyval \<Rightarrow> string" where
  "py_str (PStr s) = s"
| "py_str v = py_repr v"

subsection \<open>Built-ins on values\<close>

definition type_error :: "string \<Rightarrow> exc" where
  "type_error msg = py_error ''TypeError'' msg"

text \<open>\<open>len(v)\<close>.\<close>

fun py_len :: "pyval \<Rightarrow> nat pyres" where
  "py_len (PStr s) = Inr (length s)"
| "py_len (PList xs) = Inr (length xs)"
| "py_len (PDict kvs) = Inr (length kvs)"
| "py_len v = Inl (type_error (''object of type '' @ str_repr (py_type_name v) @ '' has no len()''))"

text \<open>\<open>k in v\<close> for a string \<open>k\<close>: key membership in a dict, element in a list,
  substring in a string, \<open>TypeError\<close> otherwise.\<close>

fun py_contains_str :: "pyval \<Rightarrow> string \<Rightarrow> bool pyres" where
  "py_contains_str (PDict kvs) k = Inr (k \<in> fst ` set kvs)"
| "py_contains_str (PList xs) k = Inr (PStr k \<in> set xs)"
| "py_contains_str (PStr s) k = Inr (py_substr k s)"
| "py_contains_str v k =
     Inl (type_error (''argument of type '' @ str_repr (py_type_name v) @ '' is not iterable''))"

text \<open>\<open>v[k]\<close> for a string key.\<close>

fun py_getitem :: "pyval \<Rightarrow> string \<Rightarrow> pyval pyres" where
  "py_getitem (PDict kvs) k =
     (case map_of kvs k of Some x \<Rightarrow> Inr x | None \<Rightarrow> Inl (py_error ''KeyError'' (str_repr k)))"
| "py_getitem (PList xs) k = Inl (type_error ''list indices must be integers or slices, not str'')"
| "py_getitem (PStr s) k = Inl (type_error (''string indices must be integers, not '' @ str_repr ''str''))"
| "py_getitem v k =
     Inl (type_error (str_repr (py_type_name v) @ '' object is not subscriptable''))"

text \<open>\<open>v.get(k, default)\<close>: only dicts have \<open>get\<close>.\<close>

fun py_dict_get :: "pyval \<Rightarrow> string \<Rightarrow> pyval \<Rightarrow> pyval pyres" where
  "py_dict_get (PDict kvs) k dflt = Inr (dict_get kvs k dflt)"
| "py_dict_get v k dflt =
     Inl (py_error ''AttributeError''
            (str_repr (py_type_name v) @ '' object has no attribute '' @ str_repr ''get''))"

subsection \<open>\<open>json.dumps\<close>\<close>

text \<open>
  The string escapes of the \<open>json\<close> encoder: quote, backslash and the control characters
  always; with \<open>ensure_ascii\<close> every code point outside space to tilde as well, written
  \<open>\u00hh\<close>.
\<close>

definition json_escape_char :: "bool \<Rightarrow> char \<Rightarrow> string" where
  "json_escape_char ensure_ascii c =
     (let n = of_char c :: nat in
      if c = CHR 0x22 then [CHR 0x5C, CHR 0x22]
      else if c = CHR 0x5C then [CHR 0x5C, CHR 0x5C]
      else if c = CHR 0x0A then [CHR 0x5C, CHR ''n'']
      else if c = CHR 0x0D then [CHR 0x5C, CHR ''r'']
      else if c = CHR 0x09 then [CHR 0x5C, CHR ''t'']
      else if c = CHR 0x08 then [CHR 0x5C, CHR ''b'']
      else if c = CHR 0x0C then [CHR 0x5C, CHR ''f'']
      else if n < 32 \<or> (ensure_ascii \<and> 127 \<le> n) then CHR 0x5C # ''u00'' @ hex2 n
      else [c])"

definition json_quote :: "bool \<Rightarrow> string \<Rightarrow> string" where
  "json_quote ensure_ascii s = CHR 0x22 # concat (map (json_escape_char ensure_ascii) s) @ [CHR 0x22]"

text \<open>\<open>json.dumps(v, separators=(item_sep, key_sep), ensure_ascii=ea)\<close>, keys in
  insertion order.\<close>

fun json_dumps :: "string \<Rightarrow> string \<Rightarrow> bool \<Rightarrow> pyval \<Rightarrow> string" where
  "json_dumps isep ksep ea PNone = ''null''"
| "json_dumps isep ksep ea (PBool b) = (if b then ''true'' else ''false'')"
| "json_dumps isep ksep ea (PInt i) = int_repr i"
| "json_dumps isep ksep ea (PStr s) = json_quote ea s"
| "json_dumps isep ksep ea (PList xs) =
     CHR ''['' # py_join isep (map (json_dumps isep ksep ea) xs) @ '']''"
| "json_dumps isep ksep ea (PDict kvs) =
     CHR ''{'' # py_join isep (map (\<lambda>(k, v). json_quote ea k @ ksep @ json_dumps isep ksep ea v) kvs)
       @ ''}''"

text \<open>pygeoapi \<open>util.to_json(dict_)\<close> (not pretty): \<open>json.dumps(dict_,
  separators=(',', ':'))\<close>, ASCII-escaped.\<close>

definition to_json :: "pyval \<Rightarrow> string" where
  "to_json v = json_dumps '','' '':'' True v"

text \<open>Starlette \<open>JSONResponse.render(content)\<close>: \<open>json.dumps(content,
  ensure_ascii=False, allow_nan=False, indent=None, separators=(",", ":"))\<close>.\<close>

definition starlette_json :: "pyval \<Rightarrow> string" where
  "starlette_json v = json_dumps '','' '':'' False v"

text \<open>Length in bytes of the UTF-8 encoding of a string of Latin-1 code points.\<close>

definition utf8_len :: "string \<Rightarrow> nat" where
  "utf8_len s = sum_list (map (\<lambda>c. if of_char c < (128::nat) then 1 else 2) s)"

text \<open>A string every code point of which is ASCII.\<close>

definition is_ascii :: "string \<Rightarrow> bool" where
  "is_ascii s \<longleftrightarrow> (\<forall>c \<in> set s. of_char c < (128::nat))"

subsection \<open>Lemmas on values\<close>

lemma is_dict_simps [simp]:
  "is_dict (PDict kvs)" "\<not> is_dict PNone" "\<not> is_dict (PBool b)" "\<not> is_dict (PInt i)"
  "\<not> is_dict (PStr s)" "\<not> is_dict (PList xs)"
  by (simp_all add: is_dict_def)

lemma set_py_join: "set (py_join sep xs) \<subseteq> set sep \<union> \<Union> (set ` set xs)"
  by (induction sep xs rule: py_join.induct) auto

lemma hex_digit_ascii: "d < 16 \<Longrightarrow> of_char (hex_digit d) < (128::nat)"
  by (simp add: hex_digit_def)

lemma hex2_ascii: "c \<in> set (hex2 n) \<Longrightarrow> of_char c < (128::nat)"
  by (auto simp: hex2_def intro: hex_digit_ascii)

lemma nat_digits_ascii: "c \<in> set (nat_digits n) \<Longrightarrow> of_char c < (128::nat)"
proof (induction n rule: nat_digits.induct)
  case (1 n)
  then show ?case by (subst (asm) nat_digits.simps) (auto split: if_splits)
qed

lemma int_repr_ascii: "c \<in> set (int_repr i) \<Longrightarrow> of_char c < (128::nat)"
  by (auto simp: int_repr_def dest: nat_digits_ascii split: if_splits)

lemma json_escape_char_ascii: "d \<in> set (json_escape_char True c) \<Longrightarrow> of_char d < (128::nat)"
  by (auto simp: json_escape_char_def Let_def dest: hex2_ascii split: if_splits)

lemma json_quote_ascii: "d \<in> set (json_quote True s) \<Longrightarrow> of_char d < (128::nat)"
  by (auto simp: json_quote_def dest: json_escape_char_ascii)

lemma is_ascii_py_join:
  "is_ascii sep \<Longrightarrow> (\<forall>x \<in> set xs. is_ascii x) \<Longrightarrow> is_ascii (py_join sep xs)"
  using set_py_join [of sep xs] by (auto simp: is_ascii_def)

lemma json_dumps_ascii:
  assumes sep: "is_ascii isep" "is_ascii ksep"
  shows "is_ascii (json_dumps isep ksep True v)"
proof (induction v)
  case (PList xs)
  then have "\<forall>x \<in> set (map (json_dumps isep ksep True) xs). is_ascii x" by simp
  with sep(1) have "is_ascii (py_join isep (map (json_dumps isep ksep True) xs))"
    by (rule is_ascii_py_join)
  then show ?case by (simp add: is_ascii_def)
next
  case (PDict kvs)
  have "is_ascii (json_quote True k @ ksep @ json_dumps isep ksep True v)" if "(k, v) \<in> set kvs" for k v
  proof -
    from PDict that have "is_ascii (json_dumps isep ksep True v)" by force
    with sep(2) show ?thesis by (auto simp: is_ascii_def dest: json_quote_ascii)
  qed
  then have "\<forall>x \<in> set (map (\<lambda>(k, v). json_quote True k @ ksep @ json_dumps isep ksep True v) kvs). is_ascii x"
    by auto
  with sep(1) have "is_ascii (py_join isep (map (\<lambda>(k, v). json_quote True k @ ksep @ json_dumps isep ksep True v) kvs))"
    by (rule is_ascii_py_join)
  then show ?case by (simp add: is_ascii_def)
qed (auto simp: is_ascii_def dest: int_repr_ascii json_quote_ascii)

lemma json_quote_length: "Suc (Suc (length s)) \<le> length (json_quote ea s)"
proof -
  have one: "1 \<le> length (json_escape_char ea c)" for c
    by (simp add: json_escape_char_def Let_def)
  have "length s \<le> length (concat (map (json_escape_char ea) s))"
  proof (induction s)
    case Nil
    then show ?case by simp
  next
    case (Cons c cs)
    with one [of c] show ?case by simp
  qed
  then show ?thesis by (simp add: json_quote_def)
qed

lemma to_json_ascii: "is_ascii (to_json v)"
  using json_dumps_ascii [of "'',''" "'':''" v] by (simp add: to_json_def is_ascii_def)

lemma json_escape_char_ascii_preserve:
  "of_char c < (128::nat) \<Longrightarrow> d \<in> set (json_escape_char ea c) \<Longrightarrow> of_char d < (128::nat)"
  unfolding json_escape_char_def Let_def
  by (auto dest: hex2_ascii split: if_splits)

lemma json_quote_ascii_preserve: "is_ascii s \<Longrightarrow> is_ascii (json_quote ea s)"
  unfolding is_ascii_def json_quote_def
  by (auto dest: json_escape_char_ascii_preserve)

end
