(* ===== verification/Responses.thy ===== *)
theory Responses
  imports PyValue
begin

text \<open>
  The response objects the adapter builds and \<open>get_response\<close>
  (\<open>src/pygeoapi/fasthtml_app.py\<close>, lines 125 to 170), which chooses one of them from the
  content type the API library set. A Starlette response is modelled by what reaches the
  client: status code, media type, the rendered body (a Python string, sent UTF-8
  encoded) and the raw header list that \<open>Response.init_headers\<close> builds: the given
  headers with lower-cased names, then \<open>content-length\<close> and \<open>content-type\<close> unless
  given, the latter with \<open>; charset=utf-8\<close> appended to a \<open>text/\<close> type that names no
  charset.
\<close>

record response =
  status_code :: int
  media_type :: "string option"
  body :: string
  raw_headers :: "(string \<times> string) list"

definition with_charset :: "string \<Rightarrow> string" where
  "with_charset ct =
     (if startswith ct ''text/'' \<and> \<not> py_substr ''charset='' (py_lower ct)
      then ct @ ''; charset=utf-8'' else ct)"

definition init_headers ::
  "(string \<times> string) list option \<Rightarrow> int \<Rightarrow> string option \<Rightarrow> string \<Rightarrow> (string \<times> string) list" where
  "init_headers headers status mt bdy =
     (let raw = (case headers of None \<Rightarrow> [] | Some hs \<Rightarrow> map (\<lambda>(k, v). (py_lower k, v)) hs);
          keys = map fst raw;
          pop_len = (''content-length'' \<notin> set keys);
          pop_type = (''content-type'' \<notin> set keys);
          len_hdr = (if pop_len \<and> \<not> (status < 200 \<or> status = 204 \<or> status = 304)
                     then [(''content-length'', nat_digits (utf8_len bdy))] else []);
          type_hdr = (case mt of None \<Rightarrow> []
                      | Some ct \<Rightarrow> if pop_type then [(''content-type'', with_charset ct)] else [])
      in raw @ len_hdr @ type_hdr)"

text \<open>\<open>Response(content, status_code, headers, media_type)\<close> with a string content.\<close>

definition Response ::
  "string \<Rightarrow> int \<Rightarrow> (string \<times> string) list option \<Rightarrow> string option \<Rightarrow> response" where
  "Response content status headers mt =
     \<lparr>status_code = status, media_type = mt, body = content,
      raw_headers = init_headers headers status mt content\<rparr>"

text \<open>\<open>JSONResponse(content, status_code, headers)\<close>: media type
  \<open>application/json\<close>, body \<open>json.dumps(content)\<close>.\<close>

definition JSONResponse :: "pyval \<Rightarrow> int \<Rightarrow> (string \<times> string) list option \<Rightarrow> response" where
  "JSONResponse content status headers =
     Response (starlette_json content) status headers (Some ''application/json'')"

text \<open>\<open>PlainTextResponse(content, status_code)\<close>: media type \<open>text/plain\<close>.\<close>

definition PlainTextResponse :: "string \<Rightarrow> int \<Rightarrow> response" where
  "PlainTextResponse content status = Response content status None (Some ''text/plain'')"

definition header_value :: "response \<Rightarrow> string \<Rightarrow> string option" where
  "header_value r name = map_of (raw_headers r) name"

subsection \<open>\<open>get_response\<close>\<close>

definition get_response :: "pyval \<Rightarrow> string \<Rightarrow> int \<Rightarrow> response" where
  "get_response result response_type status =
     (if response_type = ''application/json'' then
        JSONResponse (if is_dict result then PStr (to_json result) else result) status
          (Some [(''Content-Type'', ''application/json'')])
      else if response_type = ''text/plain'' then
        PlainTextResponse (py_str result) status
      else if response_type = ''text/html'' then
        (if is_dict result then JSONResponse result status None
         else Response (py_str result) status None (Some ''text/html''))
      else Response (py_str result) status None (Some response_type))"

subsection \<open>Response headers\<close>

text \<open>
  \<open>MutableHeaders.__setitem__\<close> with the key already lower-cased (\<open>set_key\<close>): the
  first header of that name gets the value and later ones are deleted; without one, the
  header is appended.
\<close>

fun headers_set :: "string \<Rightarrow> string \<Rightarrow> (string \<times> string) list \<Rightarrow> (string \<times> string) list" where
  "headers_set k v [] = [(k, v)]"
| "headers_set k v ((k', v') # hs) =
     (if k' = k then (k, v) # filter (\<lambda>kv. fst kv \<noteq> k) hs else (k', v') # headers_set k v hs)"

subsection \<open>Lemmas on responses\<close>

lemma py_lower_content_type: "py_lower ''Content-Type'' = ''content-type''"
  by code_simp

lemma with_charset_json [simp]: "with_charset ''application/json'' = ''application/json''"
  by (simp add: with_charset_def startswith_def)

lemma status_code_Response [simp]: "status_code (Response c s h mt) = s"
  by (simp add: Response_def)

lemma media_type_Response [simp]: "media_type (Response c s h mt) = mt"
  by (simp add: Response_def)

lemma body_Response [simp]: "body (Response c s h mt) = c"
  by (simp add: Response_def)

lemma content_type_Response:
  "header_value (Response c s None (Some mt)) ''content-type'' = Some (with_charset mt)"
  by (simp add: Response_def header_value_def init_headers_def)

lemma content_type_JSONResponse_default:
  "header_value (JSONResponse v s None) ''content-type'' = Some ''application/json''"
  by (simp add: JSONResponse_def content_type_Response)

lemma content_type_JSONResponse_given:
  "header_value (JSONResponse v s (Some [(''Content-Type'', ''application/json'')])) ''content-type''
     = Some ''application/json''"
  by (simp add: JSONResponse_def Response_def header_value_def init_headers_def py_lower_content_type)

lemma content_length_Response:
  assumes "200 \<le> s" "s \<noteq> 204" "s \<noteq> 304"
  shows "header_value (Response c s None mt) ''content-length'' = Some (nat_digits (utf8_len c))"
  using assms by (simp add: Response_def header_value_def init_headers_def)

lemma content_length_Response_given:
  assumes "200 \<le> s" "s \<noteq> 204" "s \<noteq> 304"
  shows "header_value (Response c s (Some [(''Content-Type'', ''application/json'')]) mt) ''content-length''
     = Some (nat_digits (utf8_len c))"
  using assms by (simp add: Response_def header_value_def init_headers_def py_lower_content_type)

lemma json_dict_body:
  "is_dict r \<Longrightarrow> body (get_response r ''application/json'' s) = json_quote False (to_json r)"
  by (simp add: get_response_def JSONResponse_def starlette_json_def)

text \<open>
  C1. Content negotiation: the content-type header of the response \<open>get_response\<close>
  builds is the content type the API set, with \<open>; charset=utf-8\<close> appended to a
  \<open>text/\<close> type naming no charset, except that a dict result under \<open>text/html\<close>
  is sent as \<open>application/json\<close>. This holds on each of the four branches: JSON, plain
  text, HTML, and the generic response for any other type.
\<close>

theorem get_response_content_type:
  "header_value (get_response r t s) ''content-type''
     = Some (with_charset (if t = ''text/html'' \<and> is_dict r then ''application/json'' else t))"
  by (simp add: get_response_def PlainTextResponse_def content_type_Response
      content_type_JSONResponse_default content_type_JSONResponse_given)

theorem get_response_content_type_witness:
  "header_value (get_response (PStr ''a,b'') ''text/csv'' 200) ''content-type''
     = Some ''text/csv; charset=utf-8''
   \<and> header_value (get_response (PDict []) ''text/html'' 200) ''content-type''
     = Some ''application/json''"
proof -
  have "with_charset ''text/csv'' = ''text/csv; charset=utf-8''" by code_simp
  then show ?thesis
    using get_response_content_type [of "PStr ''a,b''" "''text/csv''" 200]
      get_response_content_type [of "PDict []" "''text/html''" 200]
    by simp
qed

text \<open>
  C9. A dict returned under \<open>application/json\<close> is encoded twice: \<open>get_response\<close>
  serialises it with \<open>to_json\<close> and hands the resulting string to \<open>JSONResponse\<close>,
  which serialises it again, so the body is a JSON string literal holding the document,
  never the JSON object itself.
\<close>

theorem get_response_json_dict_body:
  assumes "t = ''application/json''" and "is_dict r"
  shows "body (get_response r t s) = json_quote False (to_json r)
         \<and> body (get_response r t s) \<noteq> starlette_json r"
  using assms by (auto simp: get_response_def JSONResponse_def starlette_json_def json_quote_def is_dict_def
      split: pyval.splits)

theorem get_response_json_dict_body_witness:
  "body (get_response (PDict [(''id'', PInt 1)]) ''application/json'' 200)
     = [CHR 0x22, CHR ''{'', CHR 0x5C, CHR 0x22, CHR ''i'', CHR ''d'', CHR 0x5C, CHR 0x22,
        CHR '':'', CHR ''1'', CHR ''}'', CHR 0x22]"
proof -
  have "json_quote False (to_json (PDict [(''id'', PInt 1)]))
     = [CHR 0x22, CHR ''{'', CHR 0x5C, CHR 0x22, CHR ''i'', CHR ''d'', CHR 0x5C, CHR 0x22,
        CHR '':'', CHR ''1'', CHR ''}'', CHR 0x22]"
    by code_simp
  then show ?thesis
    using get_response_json_dict_body [of "''application/json''" "PDict [(''id'', PInt 1)]" 200]
    by simp
qed

text \<open>
  C34. The body of a dict sent under \<open>application/json\<close> is pure ASCII: \<open>to_json\<close>
  escapes every code point outside ASCII, and the second encoding adds only ASCII
  escapes and quotes.
\<close>

theorem get_response_json_ascii:
  assumes "is_dict r"
  shows "is_ascii (body (get_response r ''application/json'' s))"
proof -
  have "body (get_response r ''application/json'' s) = json_quote False (to_json r)"
    using assms by (rule json_dict_body)
  then show ?thesis by (simp add: json_quote_ascii_preserve to_json_ascii)
qed

theorem get_response_json_ascii_witness:
  "is_ascii (body (get_response (PDict [(''title'', PStr [CHR 0xE9])]) ''application/json'' 200))"
  using get_response_json_ascii [of "PDict [(''title'', PStr [CHR 0xE9])]" 200] by simp

text \<open>
  C31. Every branch of \<open>get_response\<close> keeps the status code it is given.
\<close>

theorem get_response_status: "status_code (get_response r t s) = s"
  by (simp add: get_response_def JSONResponse_def PlainTextResponse_def)

theorem get_response_status_witness: "status_code (get_response PNone ''text/plain'' 404) = 404"
  using get_response_status [of PNone "''text/plain''" 404] .

text \<open>
  C32. Outside the JSON branches (\<open>application/json\<close>, and a dict under
  \<open>text/html\<close>) the body is \<open>str(result)\<close>: the text itself for a string, its
  \<open>repr\<close> for any other value.
\<close>

theorem get_response_text_body:
  assumes "t \<noteq> ''application/json''" and "\<not> (t = ''text/html'' \<and> is_dict r)"
  shows "body (get_response r t s) = py_str r"
  using assms by (auto simp: get_response_def PlainTextResponse_def)

theorem get_response_text_body_witness:
  "body (get_response (PList [PInt 1, PNone]) ''text/plain'' 200) = ''[1, None]''"
proof -
  have "py_str (PList [PInt 1, PNone]) = ''[1, None]''" by code_simp
  then show ?thesis
    using get_response_text_body [of "''text/plain''" "PList [PInt 1, PNone]" 200] by simp
qed

text \<open>
  C33. A string the API has already serialised is not passed through under
  \<open>application/json\<close>: the body is that string quoted and escaped as a JSON string,
  so it always differs from the string the API returned.
\<close>

theorem get_response_json_str_body:
  "body (get_response (PStr x) ''application/json'' s) = json_quote False x
   \<and> body (get_response (PStr x) ''application/json'' s) \<noteq> x"
proof -
  have "json_quote False x \<noteq> x" using json_quote_length [where ea = False and s = x] by auto
  then show ?thesis by (simp add: get_response_def JSONResponse_def starlette_json_def)
qed

theorem get_response_json_str_body_witness:
  "body (get_response (PStr ''[]'') ''application/json'' 200) \<noteq> ''[]''"
  using get_response_json_str_body [of "''[]''" 200] by (rule conjunct2)

text \<open>For statuses that carry a body the content-length header is the body's UTF-8 length.\<close>

lemma get_response_content_length:
  assumes "200 \<le> s" "s \<noteq> 204" "s \<noteq> 304"
  shows "header_value (get_response r t s) ''content-length''
           = Some (nat_digits (utf8_len (body (get_response r t s))))"
  using assms by (simp add: get_response_def PlainTextResponse_def content_length_Response
      content_length_Response_given JSONResponse_def)

subsection \<open>Lemmas on response headers\<close>

lemma map_of_filter_key:
  "map_of (filter (\<lambda>kv. fst kv \<noteq> k) hs) k' = (if k' = k then None else map_of hs k')"
  by (induction hs) auto

lemma map_of_headers_set [simp]:
  "map_of (headers_set k v hs) k' = (if k' = k then Some v else map_of hs k')"
  by (induction hs) (auto simp: map_of_filter_key)

end
