(* ===== verification/Dispatch.thy ===== *)
theory Dispatch
  imports Responses
begin

text \<open>
  \<open>execute_from_fasthtml\<close> (\<open>src/pygeoapi/fasthtml_app.py\<close>, lines 172 to 201) and the
  route endpoints that call it (lines 203 to 237). The collaborators the code only calls
  are parameters, so every lemma holds for any implementation of them:
  \<^item> \<open>from_starlette\<close>, \<open>APIRequest.from_starlette(request, locales)\<close>, which may raise;
  \<^item> \<open>locales\<close>, the \<open>api_.locales\<close> attribute of the API object;
  \<^item> the API function, \<open>api_function(api_, api_request, *args)\<close>, returning the triple
    \<open>(headers, status_code, content)\<close> or raising.
  An exception is caught by \<open>except Exception\<close> only when its class derives from
  \<open>Exception\<close>; the others propagate out of the handler. The handler's result is the
  response together with what it logged (\<open>LOGGER.exception(err)\<close>).
\<close>

type_synonym api_result = "(string \<times> string) list \<times> int \<times> pyval"

type_synonym outcome = "(response \<times> exc list) pyres"

text \<open>The API functions the routes name (\<open>pygeoapi.api\<close> and \<open>pygeoapi.api.itemtypes\<close>).\<close>

datatype api_function =
    api_landing_page
  | api_openapi
  | api_conformance
  | api_collections
  | get_collection_items
  | get_collection_item

definition error_response :: "exc \<Rightarrow> response" where
  "error_response err = JSONResponse (PDict [(''error'', PStr (exc_str err))]) 500 None"

definition execute_from_fasthtml ::
  "('req \<Rightarrow> 'loc \<Rightarrow> 'areq pyres) \<Rightarrow> ('api \<Rightarrow> 'loc)
   \<Rightarrow> ('api \<Rightarrow> 'areq \<Rightarrow> string list \<Rightarrow> api_result pyres)
   \<Rightarrow> 'api \<Rightarrow> 'req \<Rightarrow> string list \<Rightarrow> outcome" where
  "execute_from_fasthtml from_starlette locales api_fn api request args =
     (let attempt =
        (case from_starlette request (locales api) of
           Inl err \<Rightarrow> Inl err
         | Inr api_request \<Rightarrow>
             (case api_fn api api_request args of
                Inl err \<Rightarrow> Inl err
              | Inr (headers, status, content) \<Rightarrow>
                  Inr (get_response content (dict_get headers ''Content-Type'' ''application/json'')
                         status)))
      in case attempt of
           Inr resp \<Rightarrow> Inr (resp, [])
         | Inl err \<Rightarrow>
             if exc_is_Exception err then Inr (error_response err, [err]) else Inl err)"

subsection \<open>Route endpoints\<close>

text \<open>
  The route functions of lines 203 to 247, by their Python names, and what each passes on:
  the API function it calls and the names of its path parameters, in the order they are
  passed as \<open>*args\<close>. \<open>static_files\<close> calls no API function.
\<close>

datatype endpoint =
    landing_page
  | openapi_spec
  | conformance
  | collections
  | collection_by_id
  | collection_items
  | collection_item_by_id
  | static_files

fun endpoint_api :: "endpoint \<Rightarrow> api_function option" where
  "endpoint_api landing_page = Some api_landing_page"
| "endpoint_api openapi_spec = Some api_openapi"
| "endpoint_api conformance = Some api_conformance"
| "endpoint_api collections = Some api_collections"
| "endpoint_api collection_by_id = Some api_collections"
| "endpoint_api collection_items = Some get_collection_items"
| "endpoint_api collection_item_by_id = Some get_collection_item"
| "endpoint_api static_files = None"

fun endpoint_params :: "endpoint \<Rightarrow> string list" where
  "endpoint_params collection_by_id = [''collection_id'']"
| "endpoint_params collection_items = [''collection_id'']"
| "endpoint_params collection_item_by_id = [''collection_id'', ''item_id'']"
| "endpoint_params static_files = [''filepath'']"
| "endpoint_params _ = []"

fun endpoint_name :: "endpoint \<Rightarrow> string" where
  "endpoint_name landing_page = ''landing_page''"
| "endpoint_name openapi_spec = ''openapi_spec''"
| "endpoint_name conformance = ''conformance''"
| "endpoint_name collections = ''collections''"
| "endpoint_name collection_by_id = ''collection_by_id''"
| "endpoint_name collection_items = ''collection_items''"
| "endpoint_name collection_item_by_id = ''collection_item_by_id''"
| "endpoint_name static_files = ''static_files''"

text \<open>The message of the \<open>TypeError\<close> Python raises for missing positional arguments.\<close>

definition missing_args_error :: "string \<Rightarrow> string list \<Rightarrow> exc" where
  "missing_args_error fname ms =
     type_error (fname @ ''() missing '' @ nat_digits (length ms) @ '' required positional argument''
       @ (if length ms = 1 then [] else ''s'') @ '': ''
       @ (case ms of
            [a, b] \<Rightarrow> str_repr a @ '' and '' @ str_repr b
          | _ \<Rightarrow> (if length ms \<le> 1 then py_join '', '' (map str_repr ms)
                 else py_join '', '' (map str_repr (butlast ms)) @ '', and '' @ str_repr (last ms))))"

text \<open>
  Calling an API endpoint with its path parameters (a dict from parameter name to
  value, as the framework passes them by name): \<open>await execute_from_fasthtml(api_fn,
  request, *params)\<close>. A parameter the dict lacks is a \<open>TypeError\<close> of the call, as
  Python raises for a missing positional argument, before the body runs.
\<close>

definition call_api_endpoint ::
  "('req \<Rightarrow> 'loc \<Rightarrow> 'areq pyres) \<Rightarrow> ('api \<Rightarrow> 'loc)
   \<Rightarrow> (api_function \<Rightarrow> 'api \<Rightarrow> 'areq \<Rightarrow> string list \<Rightarrow> api_result pyres)
   \<Rightarrow> 'api \<Rightarrow> endpoint \<Rightarrow> api_function \<Rightarrow> 'req \<Rightarrow> (string \<times> string) list \<Rightarrow> outcome" where
  "call_api_endpoint from_starlette locales api_call api ep fn request params =
     (let missing = filter (\<lambda>n. map_of params n = None) (endpoint_params ep) in
      if missing = []
      then execute_from_fasthtml from_starlette locales (api_call fn) api request
             (map (\<lambda>n. the (map_of params n)) (endpoint_params ep))
      else Inl (missing_args_error (endpoint_name ep) missing))"

subsection \<open>Lemmas on dispatch\<close>

lemma execute_from_fasthtml_adapter_error:
  "from_starlette request (locales api) = Inl err \<Longrightarrow>
   execute_from_fasthtml from_starlette locales api_fn api request args
     = (if exc_is_Exception err then Inr (error_response err, [err]) else Inl err)"
  by (simp add: execute_from_fasthtml_def)

lemma execute_from_fasthtml_api_error:
  "from_starlette request (locales api) = Inr areq \<Longrightarrow> api_fn api areq args = Inl err \<Longrightarrow>
   execute_from_fasthtml from_starlette locales api_fn api request args
     = (if exc_is_Exception err then Inr (error_response err, [err]) else Inl err)"
  by (simp add: execute_from_fasthtml_def)

lemma error_response_fields:
  "status_code (error_response err) = 500
   \<and> header_value (error_response err) ''content-type'' = Some ''application/json''
   \<and> body (error_response err)
       = ''{'' @ json_quote False ''error'' @ '':'' @ json_quote False (exc_str err) @ ''}''"
proof -
  have "header_value (error_response err) ''content-type'' = Some ''application/json''"
    by (simp add: error_response_def content_type_JSONResponse_default)
  moreover have "status_code (error_response err) = 500"
    by (simp add: error_response_def JSONResponse_def)
  moreover have "body (error_response err)
       = ''{'' @ json_quote False ''error'' @ '':'' @ json_quote False (exc_str err) @ ''}''"
    by (simp add: error_response_def JSONResponse_def starlette_json_def)
  ultimately show ?thesis by blast
qed

lemma execute_from_fasthtml_Inl:
  "execute_from_fasthtml from_starlette locales api_fn api request args = Inl err \<Longrightarrow>
   \<not> exc_is_Exception err"
  by (auto simp: execute_from_fasthtml_def split: sum.splits prod.splits if_splits)

text \<open>
  C2. An exception of class \<open>Exception\<close> raised while the request is adapted or while
  the API function runs is caught: the handler answers 500 with the JSON body
  \<open>{"error": str(err)}\<close> and logs the exception.
\<close>

theorem execute_exception_response:
  assumes "exc_is_Exception err"
    and "from_starlette request (locales api) = Inl err
         \<or> (from_starlette request (locales api) = Inr areq \<and> api_fn api areq args = Inl err)"
  shows "execute_from_fasthtml from_starlette locales api_fn api request args
           = Inr (error_response err, [err])
         \<and> status_code (error_response err) = 500
         \<and> header_value (error_response err) ''content-type'' = Some ''application/json''
         \<and> body (error_response err)
             = ''{'' @ json_quote False ''error'' @ '':'' @ json_quote False (exc_str err) @ ''}''"
  using assms error_response_fields [of err]
  by (auto simp: execute_from_fasthtml_adapter_error execute_from_fasthtml_api_error)

theorem execute_exception_response_witness:
  "execute_from_fasthtml (\<lambda>(_::unit) (_::unit). Inl (py_error ''ValueError'' ''bad bbox'') :: unit pyres)
      (\<lambda>_::unit. ()) (\<lambda>_ _ _. Inr ([], 200, PNone)) () () []
     = Inr (error_response (py_error ''ValueError'' ''bad bbox''), [py_error ''ValueError'' ''bad bbox''])
   \<and> status_code (error_response (py_error ''ValueError'' ''bad bbox'')) = 500"
  using execute_exception_response [of "py_error ''ValueError'' ''bad bbox''"
      "\<lambda>(_::unit) (_::unit). Inl (py_error ''ValueError'' ''bad bbox'') :: unit pyres" "()"
      "\<lambda>_::unit. ()" "()" "()" "\<lambda>_ _ _. Inr ([], 200, PNone)" "[]"]
  by simp

text \<open>
  C10. When the request adapts and the API function returns \<open>(headers, status,
  content)\<close>, the handler answers \<open>get_response(content, headers.get('Content-Type',
  'application/json'), status)\<close> and logs nothing.
\<close>

theorem execute_success_response:
  assumes "from_starlette request (locales api) = Inr areq"
    and "api_fn api areq args = Inr (headers, status, content)"
  shows "execute_from_fasthtml from_starlette locales api_fn api request args
           = Inr (get_response content (dict_get headers ''Content-Type'' ''application/json'') status, [])"
  using assms by (simp add: execute_from_fasthtml_def)

theorem execute_success_response_witness:
  "execute_from_fasthtml (\<lambda>(_::unit) (_::unit). Inr () :: unit pyres) (\<lambda>_::unit. ())
      (\<lambda>_ _ _. Inr ([(''X-Powered-By'', ''pygeoapi'')], 200, PStr ''ok'')) () () []
     = Inr (get_response (PStr ''ok'') ''application/json'' 200, [])"
  using execute_success_response [of "\<lambda>(_::unit) (_::unit). Inr () :: unit pyres" "()"
      "\<lambda>_::unit. ()" "()" "()" "\<lambda>_ _ _. Inr ([(''X-Powered-By'', ''pygeoapi'')], 200, PStr ''ok'')"
      "[]" "[(''X-Powered-By'', ''pygeoapi'')]" 200 "PStr ''ok''"]
  by simp

text \<open>
  C20. An exception that does not derive from \<open>Exception\<close> (a cancelled request's
  \<open>asyncio.CancelledError\<close>, \<open>KeyboardInterrupt\<close>, \<open>SystemExit\<close>) is not caught by
  the handler: it propagates unchanged and nothing is logged.
\<close>

theorem execute_base_exception_propagates:
  assumes "\<not> exc_is_Exception err"
    and "from_starlette request (locales api) = Inl err
         \<or> (from_starlette request (locales api) = Inr areq \<and> api_fn api areq args = Inl err)"
  shows "execute_from_fasthtml from_starlette locales api_fn api request args = Inl err"
  using assms by (auto simp: execute_from_fasthtml_adapter_error execute_from_fasthtml_api_error)

theorem execute_base_exception_propagates_witness:
  "execute_from_fasthtml (\<lambda>(_::unit) (_::unit). Inr () :: unit pyres) (\<lambda>_::unit. ())
      (\<lambda>_ _ _. Inl (PyExc ''CancelledError'' [] False)) () () []
     = Inl (PyExc ''CancelledError'' [] False)"
  using execute_base_exception_propagates [of "PyExc ''CancelledError'' [] False"
      "\<lambda>(_::unit) (_::unit). Inr () :: unit pyres" "()" "\<lambda>_::unit. ()" "()" "()"
      "\<lambda>_ _ _. Inl (PyExc ''CancelledError'' [] False)" "[]"]
  by simp

end
