(* ===== verification/Routing.thy ===== *)
theory Routing
  imports Dispatch "HOL-Library.Multiset"
begin

text \<open>
  URL routing. The route table is built by the route decorators of
  \<open>src/pygeoapi/fasthtml_app.py\<close> (lines 203 to 247). When FastHTML's components are
  missing, the fallback decorator \<open>RT\<close> of lines 102 to 106 appends a Starlette
  \<open>Route(path, func, methods=["GET", "POST"])\<close> to \<open>APP.router.routes\<close> for each of them,
  in the order of the file. Starlette (a library the code only calls) compiles each path
  to a regular expression (\<open>compile_path\<close>: literal text, and \<open>{name}\<close> or
  \<open>{name:convertor}\<close> parameters), matches a request path with \<open>re.match\<close> against
  \<open>^...$\<close>, and dispatches to the first route whose path and method match; a route whose
  path matches but not its method answers 405, and with no match at all the router
  tries the path with its trailing slash toggled and redirects, or answers 404.

  The regular expression is modelled by a matcher over a token list: a literal character,
  or a parameter with its convertor's character class. Parameters match greedily with
  backtracking, longest candidate first, as Python's \<open>re\<close> does; and, as in Python,
  \<open>$\<close> matches at the end of the string or just before a final newline.
\<close>

datatype ptok = PLit char | PVar string string

subsection \<open>Path compilation\<close>

definition is_ident_start :: "char \<Rightarrow> bool" where
  "is_ident_start c \<longleftrightarrow>
     (let n = of_char c :: nat in (65 \<le> n \<and> n \<le> 90) \<or> (97 \<le> n \<and> n \<le> 122) \<or> n = 95)"

definition is_ident_char :: "char \<Rightarrow> bool" where
  "is_ident_char c \<longleftrightarrow> is_ident_start c \<or> (let n = of_char c :: nat in 48 \<le> n \<and> n \<le> 57)"

text \<open>
  \<open>PARAM_REGEX = "{([a-zA-Z_][a-zA-Z0-9_]*)(:[a-zA-Z_][a-zA-Z0-9_]*)?}"\<close>, read after
  an opening brace: the name, the convertor (\<open>str\<close> when absent) and how many characters
  the match consumed after the brace.
\<close>

definition read_ident :: "string \<Rightarrow> string option" where
  "read_ident s =
     (let w = takeWhile is_ident_char s in
      if w \<noteq> [] \<and> is_ident_start (hd w) then Some w else None)"

definition parse_param :: "string \<Rightarrow> (string \<times> string \<times> nat) option" where
  "parse_param s =
     (case read_ident s of
        None \<Rightarrow> None
      | Some name \<Rightarrow>
          (case drop (length name) s of
             c # rest \<Rightarrow>
               if c = CHR ''}'' then Some (name, ''str'', Suc (length name))
               else if c = CHR '':'' then
                 (case read_ident rest of
                    None \<Rightarrow> None
                  | Some conv \<Rightarrow>
                      (case drop (length conv) rest of
                         d # _ \<Rightarrow> if d = CHR ''}'' then Some (name, conv, length name + length conv + 2)
                                  else None
                       | [] \<Rightarrow> None))
               else None
           | [] \<Rightarrow> None))"

datatype pseg = SLit char | SParam string string

fun path_segments :: "string \<Rightarrow> pseg list" where
  "path_segments [] = []"
| "path_segments (c # cs) =
     (if c = CHR ''{'' then
        (case parse_param cs of
           Some (name, conv, k) \<Rightarrow> SParam name conv # path_segments (drop k cs)
         | None \<Rightarrow> SLit c # path_segments cs)
      else SLit c # path_segments cs)"

definition convertor_types :: "string list" where
  "convertor_types = [''str'', ''path'', ''int'', ''float'', ''uuid'']"

fun seg_tok :: "pseg \<Rightarrow> ptok" where
  "seg_tok (SLit c) = PLit c"
| "seg_tok (SParam n cv) = PVar n cv"

fun seg_params :: "pseg list \<Rightarrow> (string \<times> string) list" where
  "seg_params [] = []"
| "seg_params (SLit _ # ss) = seg_params ss"
| "seg_params (SParam n cv # ss) = (n, cv) # seg_params ss"

text \<open>
  \<open>compile_path\<close>: an unknown convertor fails the assertion of \<open>compile_path\<close>, a
  parameter name used twice raises \<open>ValueError\<close>.
\<close>

definition compile_path :: "string \<Rightarrow> ptok list pyres" where
  "compile_path path =
     (let segs = path_segments path; ps = seg_params segs in
      case filter (\<lambda>(n, cv). cv \<notin> set convertor_types) ps of
        (n, cv) # _ \<Rightarrow> Inl (py_error ''AssertionError'' (''Unknown path convertor '' @ str_repr cv))
      | [] \<Rightarrow>
          if distinct (map fst ps) then Inr (map seg_tok segs)
          else Inl (py_error ''ValueError'' (''Duplicated param name in path '' @ path)))"

subsection \<open>Matching\<close>

definition is_digit :: "char \<Rightarrow> bool" where
  "is_digit c \<longleftrightarrow> (let n = of_char c :: nat in 48 \<le> n \<and> n \<le> 57)"

definition is_lower_hex :: "char \<Rightarrow> bool" where
  "is_lower_hex c \<longleftrightarrow> is_digit c \<or> (let n = of_char c :: nat in 97 \<le> n \<and> n \<le> 102)"

text \<open>
  The convertors' regular expressions: \<open>str\<close> is \<open>[^/]+\<close>, \<open>path\<close> is \<open>.*\<close> (any
  character but a newline), \<open>int\<close> is \<open>[0-9]+\<close>, \<open>float\<close> is
  \<open>[0-9]+(\.[0-9]+)?\<close>, \<open>uuid\<close> the 8-4-4-4-12 lower-case hex pattern.
  \<open>static\<close> is the convertor FastHTML registers when it is imported
  (\<open>reg_re_param("static", ...)\<close>): an alternation of file extensions.
\<close>

definition conv_matches :: "string \<Rightarrow> string \<Rightarrow> bool" where
  "conv_matches cv s \<longleftrightarrow>
     (if cv = ''str'' then s \<noteq> [] \<and> CHR ''/'' \<notin> set s
      else if cv = ''path'' then CHR 0x0A \<notin> set s
      else if cv = ''int'' then s \<noteq> [] \<and> (\<forall>c \<in> set s. is_digit c)
      else if cv = ''float'' then
        (let ip = takeWhile is_digit s; fp = drop (length ip) s in
         ip \<noteq> [] \<and> (fp = [] \<or> (hd fp = CHR ''.'' \<and> tl fp \<noteq> [] \<and> (\<forall>c \<in> set (tl fp). is_digit c))))
      else if cv = ''uuid'' then
        length s = 36 \<and> (\<forall>i < 36. if i \<in> {8, 13, 18, 23} then s ! i = CHR ''-'' else is_lower_hex (s ! i))
      else if cv = ''static'' then
        s \<in> set [''ico'', ''gif'', ''jpg'', ''jpeg'', ''webm'', ''css'', ''js'', ''woff'', ''png'', ''svg'', ''mp4'',
                  ''webp'', ''ttf'', ''otf'', ''eot'', ''woff2'', ''txt'', ''html'', ''map'']
      else False)"

fun match_toks :: "ptok list \<Rightarrow> string \<Rightarrow> (string \<times> string) list option" where
  "match_toks [] s = (if s = [] \<or> s = [CHR 0x0A] then Some [] else None)"
| "match_toks (PLit c # ts) s =
     (case s of [] \<Rightarrow> None | d # s' \<Rightarrow> if d = c then match_toks ts s' else None)"
| "match_toks (PVar n cv # ts) s =
     first_some
       (\<lambda>k. if conv_matches cv (take k s)
            then map_option (\<lambda>ps. (n, take k s) # ps) (match_toks ts (drop k s)) else None)
       (rev [0..<Suc (length s)])"

subsection \<open>Routes and the fallback decorator\<close>

record 'e route =
  route_path :: string
  route_endpoint :: 'e
  route_methods :: "string list"
  route_toks :: "ptok list"

text \<open>
  \<open>Route(path, endpoint, methods)\<close>: the path must start with a slash; \<open>HEAD\<close> is
  added to a route that allows \<open>GET\<close>.
\<close>

definition make_route :: "string \<Rightarrow> 'e \<Rightarrow> string list \<Rightarrow> 'e route pyres" where
  "make_route path ep methods =
     (if \<not> startswith path ''/'' then Inl (py_error ''AssertionError'' (''Routed paths must start with '' @ str_repr ''/''))
      else case compile_path path of
        Inl e \<Rightarrow> Inl e
      | Inr toks \<Rightarrow>
          Inr \<lparr>route_path = path, route_endpoint = ep,
               route_methods = remdups (methods @ (if ''GET'' \<in> set methods then [''HEAD''] else [])),
               route_toks = toks\<rparr>)"

text \<open>The fallback \<open>RT(path)\<close> decorator applied to \<open>func\<close>.\<close>

definition RT :: "endpoint route list \<Rightarrow> string \<Rightarrow> endpoint \<Rightarrow> endpoint route list pyres" where
  "RT routes path ep =
     (case make_route path ep [''GET'', ''POST''] of Inl e \<Rightarrow> Inl e | Inr r \<Rightarrow> Inr (routes @ [r]))"

text \<open>The route declarations of the module, in order.\<close>

definition route_decls :: "(string \<times> endpoint) list" where
  "route_decls =
     [(''/'', landing_page),
      (''/openapi'', openapi_spec),
      (''/conformance'', conformance),
      (''/collections'', collections),
      (''/collections/{collection_id}'', collection_by_id),
      (''/collections/{collection_id}/items'', collection_items),
      (''/collections/{collection_id}/items/{item_id}'', collection_item_by_id),
      (''/static/{filepath:path}'', static_files)]"

fun register_routes :: "endpoint route list \<Rightarrow> (string \<times> endpoint) list \<Rightarrow> endpoint route list pyres" where
  "register_routes routes [] = Inr routes"
| "register_routes routes ((p, ep) # ds) =
     (case RT routes p ep of Inl e \<Rightarrow> Inl e | Inr routes' \<Rightarrow> register_routes routes' ds)"

subsection \<open>The router\<close>

datatype 'e route_decision =
    Dispatch 'e "(string \<times> string) list"
  | MethodNotAllowed "string list"
  | Redirect string
  | NotFound

definition route_matches :: "'e route \<Rightarrow> string \<Rightarrow> (string \<times> string) list option" where
  "route_matches r path = match_toks (route_toks r) path"

definition rstrip_slash :: "string \<Rightarrow> string" where
  "rstrip_slash s = rev (dropWhile (\<lambda>c. c = CHR ''/'') (rev s))"

definition toggle_slash :: "string \<Rightarrow> string" where
  "toggle_slash path = (if path \<noteq> [] \<and> last path = CHR ''/'' then rstrip_slash path else path @ ''/'')"

text \<open>
  \<open>Router.app\<close>: the first full match (path and method) is dispatched; otherwise the first
  partial match (path only) answers 405 with its methods; otherwise, for a path other than
  \<open>/\<close>, a match of the path with its trailing slash toggled is redirected; otherwise 404.
\<close>

definition router :: "'e route list \<Rightarrow> string \<Rightarrow> string \<Rightarrow> 'e route_decision" where
  "router routes method path =
     (case find (\<lambda>r. route_matches r path \<noteq> None \<and> method \<in> set (route_methods r)) routes of
        Some r \<Rightarrow> Dispatch (route_endpoint r) (the (route_matches r path))
      | None \<Rightarrow>
          (case find (\<lambda>r. route_matches r path \<noteq> None) routes of
             Some r \<Rightarrow> MethodNotAllowed (route_methods r)
           | None \<Rightarrow>
               if path \<noteq> ''/'' \<and> (\<exists>r \<in> set routes. route_matches r (toggle_slash path) \<noteq> None)
               then Redirect (toggle_slash path) else NotFound))"

subsection \<open>The routing table as a specification\<close>

text \<open>
  What the route table promises, stated on the structure of the path instead of through
  compiled regular expressions: which endpoint a path reaches and with which parameters.
  A trailing newline is accepted where \<open>$\<close> allows it.
\<close>

definition collection_spec :: "string \<Rightarrow> (endpoint \<times> (string \<times> string) list) option" where
  "collection_spec rest =
     (let k = length (takeWhile (\<lambda>c. c \<noteq> CHR ''/'') rest); c = take k rest; after = drop (Suc k) rest in
      if k = 0 then None
      else if k = length rest then Some (collection_by_id, [(''collection_id'', c)])
      else if after = ''items'' \<or> after = ''items'' @ [CHR 0x0A] then Some (collection_items, [(''collection_id'', c)])
      else if startswith after ''items/'' \<and> drop 6 after \<noteq> [] \<and> CHR ''/'' \<notin> set (drop 6 after)
      then Some (collection_item_by_id, [(''collection_id'', c), (''item_id'', drop 6 after)])
      else None)"

definition static_spec :: "string \<Rightarrow> (endpoint \<times> (string \<times> string) list) option" where
  "static_spec f =
     (if CHR 0x0A \<notin> set f then Some (static_files, [(''filepath'', f)])
      else if f \<noteq> [] \<and> last f = CHR 0x0A \<and> CHR 0x0A \<notin> set (butlast f)
      then Some (static_files, [(''filepath'', butlast f)])
      else None)"

definition route_spec :: "string \<Rightarrow> (endpoint \<times> (string \<times> string) list) option" where
  "route_spec p =
     (if p = ''/'' \<or> p = ''/'' @ [CHR 0x0A] then Some (landing_page, [])
      else if p = ''/openapi'' \<or> p = ''/openapi'' @ [CHR 0x0A] then Some (openapi_spec, [])
      else if p = ''/conformance'' \<or> p = ''/conformance'' @ [CHR 0x0A] then Some (conformance, [])
      else if p = ''/collections'' \<or> p = ''/collections'' @ [CHR 0x0A] then Some (collections, [])
      else if startswith p ''/collections/'' then collection_spec (drop 13 p)
      else if startswith p ''/static/'' then static_spec (drop 8 p)
      else None)"

definition spec_for :: "endpoint \<Rightarrow> (endpoint \<times> (string \<times> string) list) option \<Rightarrow> (string \<times> string) list option" where
  "spec_for ep x = (case x of Some (e, ps) \<Rightarrow> if e = ep then Some ps else None | None \<Rightarrow> None)"

text \<open>A route as the fallback decorator registers it.\<close>

definition app_route :: "string \<Rightarrow> 'e \<Rightarrow> ptok list \<Rightarrow> 'e route" where
  "app_route p ep toks = \<lparr>route_path = p, route_endpoint = ep, route_methods = [''GET'', ''POST'', ''HEAD''],
     route_toks = toks\<rparr>"

subsection \<open>The application's route table\<close>

text \<open>
  The handler of a route of the application: FastHTML's own static-file route, or a route
  function of the module. \<open>fast_app\<close> (line 90) calls \<open>static_route_exts\<close>, which
  registers \<open>GET /{fname:path}.{ext:static}\<close> before any route of the module; its handler
  \<open>get(fname, ext)\<close> answers \<open>FileResponse(f'{static_path}/{fname}.{ext}')\<close> with
  \<open>static_path='.'\<close>. Its tokens are those \<open>compile_path\<close> gives once FastHTML has
  registered the \<open>static\<close> convertor.
\<close>

datatype app_endpoint = FastHTMLStaticExt | ModuleRoute endpoint

definition fasthtml_static_route :: "app_endpoint route" where
  "fasthtml_static_route =
     \<lparr>route_path = ''/{fname:path}.{ext:static}'', route_endpoint = FastHTMLStaticExt,
      route_methods = [''GET'', ''HEAD''],
      route_toks = [PLit CHR ''/'', PVar ''fname'' ''path'', PLit CHR ''.'', PVar ''ext'' ''static'']\<rparr>"

definition map_route :: "('a \<Rightarrow> 'b) \<Rightarrow> 'a route \<Rightarrow> 'b route" where
  "map_route f r =
     \<lparr>route_path = route_path r, route_endpoint = f (route_endpoint r), route_methods = route_methods r,
      route_toks = route_toks r\<rparr>"

subsection \<open>Lemmas on matching and routing\<close>

lemma route_matches_map_route [simp]: "route_matches (map_route f r) p = route_matches r p"
  by (simp add: route_matches_def map_route_def)

lemma route_methods_map_route [simp]: "route_methods (map_route f r) = route_methods r"
  by (simp add: map_route_def)

lemma route_endpoint_map_route [simp]: "route_endpoint (map_route f r) = f (route_endpoint r)"
  by (simp add: map_route_def)

lemma router_map_route:
  "router (map (map_route f) rs) m p = map_route_decision f (router rs m p)"
  by (simp add: router_def find_map_eq comp_def split: option.split)

lemma router_Cons:
  "router (r # rs) m p =
     (if route_matches r p \<noteq> None \<and> m \<in> set (route_methods r)
      then Dispatch (route_endpoint r) (the (route_matches r p))
      else case router rs m p of
             Dispatch e ps \<Rightarrow> Dispatch e ps
           | MethodNotAllowed ms \<Rightarrow> if route_matches r p \<noteq> None then MethodNotAllowed (route_methods r) else MethodNotAllowed ms
           | Redirect q \<Rightarrow> if route_matches r p \<noteq> None then MethodNotAllowed (route_methods r) else Redirect q
           | NotFound \<Rightarrow>
               if route_matches r p \<noteq> None then MethodNotAllowed (route_methods r)
               else if p \<noteq> ''/'' \<and> route_matches r (toggle_slash p) \<noteq> None then Redirect (toggle_slash p)
               else NotFound)"
  by (auto simp: router_def split: option.splits route_decision.splits)

lemma fasthtml_static_match:
  assumes "route_matches fasthtml_static_route p = Some ps" and "CHR 0x0A \<notin> set p"
  shows "''./'' @ the (map_of ps ''fname'') @ ''.'' @ the (map_of ps ''ext'') = ''.'' @ p"
proof -
  from assms(1) obtain s where p: "p = CHR ''/'' # s"
    by (cases p) (auto simp: route_matches_def fasthtml_static_route_def split: if_splits)
  from assms(1) have "first_some (\<lambda>k. if conv_matches ''path'' (take k s)
              then map_option (\<lambda>ps. (''fname'', take k s) # ps) (match_toks [PLit CHR ''.'', PVar ''ext'' ''static''] (drop k s))
              else None) (rev [0..<Suc (length s)]) = Some ps"
    unfolding p by (simp add: route_matches_def fasthtml_static_route_def del: upt_Suc)
  then obtain k where k: "k \<in> set (rev [0..<Suc (length s)])"
    and mk: "(if conv_matches ''path'' (take k s)
              then map_option (\<lambda>ps. (''fname'', take k s) # ps) (match_toks [PLit CHR ''.'', PVar ''ext'' ''static''] (drop k s))
              else None) = Some ps"
    by (blast dest: first_some_SomeD)
  then obtain ps' where ps: "ps = (''fname'', take k s) # ps'"
    and m2: "match_toks [PLit CHR ''.'', PVar ''ext'' ''static''] (drop k s) = Some ps'"
    by (auto split: if_splits)
  from m2 obtain t where t: "drop k s = CHR ''.'' # t"
    and m3: "match_toks [PVar ''ext'' ''static''] t = Some ps'"
    by (cases "drop k s") (auto split: if_splits)
  from m3 have "first_some (\<lambda>j. if conv_matches ''static'' (take j t)
          then map_option (\<lambda>ps. (''ext'', take j t) # ps) (match_toks [] (drop j t)) else None)
          (rev [0..<Suc (length t)]) = Some ps'"
    by (simp del: upt_Suc)
  then obtain j where
    mj: "(if conv_matches ''static'' (take j t)
          then map_option (\<lambda>ps. (''ext'', take j t) # ps) (match_toks [] (drop j t)) else None) = Some ps'"
    by (blast dest: first_some_SomeD)
  then have ps': "ps' = [(''ext'', take j t)]" and dj: "drop j t = [] \<or> drop j t = [CHR 0x0A]"
    by (auto split: if_splits)
  have "CHR 0x0A \<notin> set (drop j t)"
    using assms(2) unfolding p by (metis in_set_dropD list.set_intros(2) t)
  with dj have "drop j t = []" by auto
  then have "take j t = t" by simp
  moreover have "s = take k s @ CHR ''.'' # t" using t by (metis append_take_drop_id)
  ultimately show ?thesis using ps ps' p by simp
qed

lemma match_toks_lits:
  "match_toks (map PLit w @ ts) s = (if startswith s w then match_toks ts (drop (length w) s) else None)"
proof (induction w arbitrary: s)
  case Nil
  then show ?case by simp
next
  case (Cons c w)
  then show ?case by (cases s) auto
qed

lemma conv_matches_str: "conv_matches ''str'' s \<longleftrightarrow> s \<noteq> [] \<and> CHR ''/'' \<notin> set s"
  by (simp add: conv_matches_def)

lemma conv_matches_path: "conv_matches ''path'' s \<longleftrightarrow> CHR 0x0A \<notin> set s"
  by (simp add: conv_matches_def)

lemma match_toks_str_end:
  "match_toks [PVar n ''str''] s = (if s \<noteq> [] \<and> CHR ''/'' \<notin> set s then Some [(n, s)] else None)"
proof (cases "s \<noteq> [] \<and> CHR ''/'' \<notin> set s")
  case True
  then show ?thesis
    by (simp add: conv_matches_str rev_upt_Suc0 del: upt_Suc)
next
  case False
  have "(if conv_matches ''str'' (take k s)
         then map_option (\<lambda>ps. (n, take k s) # ps) (match_toks [] (drop k s)) else None) = None" for k
  proof (cases "conv_matches ''str'' (take k s) \<and> (drop k s = [] \<or> drop k s = [CHR 0x0A])")
    case True
    have sets: "set s = set (take k s) \<union> set (drop k s)"
      by (metis set_append append_take_drop_id)
    from True have "take k s \<noteq> []" and "CHR ''/'' \<notin> set (take k s)"
      by (auto simp: conv_matches_str)
    with True sets have "s \<noteq> [] \<and> CHR ''/'' \<notin> set s" by auto
    with False show ?thesis by simp
  next
    case False
    then show ?thesis by auto
  qed
  then have "match_toks [PVar n ''str''] s = None" by (simp del: upt_Suc)
  with False show ?thesis by auto
qed

lemma match_toks_str_slash:
  "match_toks (PVar n ''str'' # PLit CHR ''/'' # ts) s =
     (let k = length (takeWhile (\<lambda>c. c \<noteq> CHR ''/'') s) in
      if 0 < k \<and> k < length s
      then map_option (\<lambda>ps. (n, take k s) # ps) (match_toks ts (drop (Suc k) s)) else None)"
proof -
  define k where "k = length (takeWhile (\<lambda>c. c \<noteq> CHR ''/'') s)"
  define f where "f = (\<lambda>j. if conv_matches ''str'' (take j s)
       then map_option (\<lambda>ps. (n, take j s) # ps) (match_toks (PLit CHR ''/'' # ts) (drop j s)) else None)"
  have k_le: "k \<le> length s" by (simp add: k_def length_takeWhile_le)
  have before: "s ! j \<noteq> CHR ''/''" if "j < k" for j
    using that nth_mem [of j "takeWhile (\<lambda>c. c \<noteq> CHR ''/'') s"]
    by (auto simp: k_def takeWhile_nth dest: set_takeWhileD)
  have at_k: "s ! k = CHR ''/''" if "k < length s"
    using that nth_length_takeWhile [of "\<lambda>c. c \<noteq> CHR ''/''" s] by (simp add: k_def)
  have others: "f j = None" if "j \<in> set (rev [0..<Suc (length s)])" and "j \<noteq> k" for j
  proof (cases "j < k")
    case True
    with k_le that have "j < length s" by auto
    then have "drop j s = s ! j # drop (Suc j) s" by (rule Cons_nth_drop_Suc [symmetric])
    with before [OF True] show ?thesis by (simp add: f_def)
  next
    case False
    with that have "k < j" and "j \<le> length s" by auto
    then have "k < length s" by simp
    have "take j s ! k = CHR ''/''" using \<open>k < j\<close> at_k [OF \<open>k < length s\<close>] by simp
    moreover have "k < length (take j s)" using \<open>k < j\<close> \<open>k < length s\<close> by simp
    ultimately have "CHR ''/'' \<in> set (take j s)" by (metis nth_mem)
    then show ?thesis by (simp add: f_def conv_matches_str)
  qed
  have "k \<in> set (rev [0..<Suc (length s)])" using k_le by (simp del: upt_Suc)
  then have "first_some f (rev [0..<Suc (length s)]) = f k"
    using others by (rule first_some_unique)
  moreover have "f k = (if 0 < k \<and> k < length s
      then map_option (\<lambda>ps. (n, take k s) # ps) (match_toks ts (drop (Suc k) s)) else None)"
  proof (cases "0 < k \<and> k < length s")
    case True
    have tk: "take k s = takeWhile (\<lambda>c. c \<noteq> CHR ''/'') s"
      unfolding k_def by (rule takeWhile_eq_take [symmetric])
    then have "CHR ''/'' \<notin> set (take k s)" by (auto dest: set_takeWhileD)
    with True have conv: "conv_matches ''str'' (take k s)" by (auto simp: conv_matches_str)
    from True have "drop k s = s ! k # drop (Suc k) s" by (simp add: Cons_nth_drop_Suc)
    with at_k True have "drop k s = CHR ''/'' # drop (Suc k) s" by simp
    with conv True show ?thesis by (simp add: f_def)
  next
    case False
    then consider "k = 0" | "k = length s" using k_le by linarith
    then show ?thesis
    proof cases
      case 1
      then show ?thesis by (simp add: f_def conv_matches_str)
    next
      case 2
      then show ?thesis using False by (simp add: f_def)
    qed
  qed
  ultimately show ?thesis by (simp add: f_def k_def Let_def del: upt_Suc)
qed

lemma match_toks_path_end:
  "match_toks [PVar n ''path''] s =
     (if CHR 0x0A \<notin> set s then Some [(n, s)]
      else if s \<noteq> [] \<and> last s = CHR 0x0A \<and> CHR 0x0A \<notin> set (butlast s) then Some [(n, butlast s)]
      else None)"
proof (cases "CHR 0x0A \<in> set s")
  case False
  then show ?thesis by (simp add: conv_matches_path rev_upt_Suc0 del: upt_Suc)
next
  case True
  define f where "f = (\<lambda>j. if conv_matches ''path'' (take j s)
       then map_option (\<lambda>ps. (n, take j s) # ps) (match_toks [] (drop j s)) else None)"
  from True have ne: "s \<noteq> []" by auto
  have others: "f j = None" if "j \<in> set (rev [0..<Suc (length s)])" and "j \<noteq> length s - 1" for j
  proof (cases "j = length s")
    case True
    with \<open>CHR 0x0A \<in> set s\<close> show ?thesis by (simp add: f_def conv_matches_path)
  next
    case False
    with that have "j + 2 \<le> length s" by auto
    then have len: "2 \<le> length (drop j s)" by simp
    have "drop j s \<noteq> [] \<and> drop j s \<noteq> [CHR 0x0A]"
    proof
      show "drop j s \<noteq> []" using len by auto
      show "drop j s \<noteq> [CHR 0x0A]"
      proof
        assume "drop j s = [CHR 0x0A]"
        then have "length (drop j s) = 1" by simp
        with len show False by simp
      qed
    qed
    then show ?thesis by (simp add: f_def)
  qed
  have "length s - 1 \<in> set (rev [0..<Suc (length s)])" by (simp del: upt_Suc)
  then have "first_some f (rev [0..<Suc (length s)]) = f (length s - 1)"
    using others by (rule first_some_unique)
  moreover have "take (length s - 1) s = butlast s" by (simp add: butlast_conv_take)
  moreover have "drop (length s - 1) s = [last s]"
  proof -
    have "s = butlast s @ [last s]" using ne by simp
    then show ?thesis by (metis append_eq_conv_conj length_butlast)
  qed
  ultimately show ?thesis
    using True ne by (auto simp: f_def conv_matches_path simp del: upt_Suc)
qed

lemma match_toks_lits_end:
  "match_toks (map PLit w) s = (if s = w \<or> s = w @ [CHR 0x0A] then Some [] else None)"
  using match_toks_lits [of w "[]" s] by (auto simp: startswith_conv)

lemma register_app_routes:
  "register_routes [] route_decls = Inr
     [app_route ''/'' landing_page (map PLit ''/''),
      app_route ''/openapi'' openapi_spec (map PLit ''/openapi''),
      app_route ''/conformance'' conformance (map PLit ''/conformance''),
      app_route ''/collections'' collections (map PLit ''/collections''),
      app_route ''/collections/{collection_id}'' collection_by_id
        (map PLit ''/collections/'' @ [PVar ''collection_id'' ''str'']),
      app_route ''/collections/{collection_id}/items'' collection_items
        (map PLit ''/collections/'' @ PVar ''collection_id'' ''str'' # PLit CHR ''/'' # map PLit ''items''),
      app_route ''/collections/{collection_id}/items/{item_id}'' collection_item_by_id
        (map PLit ''/collections/'' @ PVar ''collection_id'' ''str'' # PLit CHR ''/''
         # map PLit ''items/'' @ [PVar ''item_id'' ''str'']),
      app_route ''/static/{filepath:path}'' static_files
        (map PLit ''/static/'' @ [PVar ''filepath'' ''path''])]"
  unfolding app_route_def by code_simp

lemma takeWhile_not_slash_full:
  "length (takeWhile (\<lambda>c. c \<noteq> CHR ''/'') s) = length s \<longleftrightarrow> CHR ''/'' \<notin> set s"
  by (induction s) auto

lemma collection_spec_for:
  fixes rest :: string
  defines "k \<equiv> length (takeWhile (\<lambda>c. c \<noteq> CHR ''/'') rest)"
  defines "after \<equiv> drop (Suc k) rest"
  shows "spec_for collection_by_id (collection_spec rest)
           = (if k \<noteq> 0 \<and> k = length rest then Some [(''collection_id'', take k rest)] else None)"
    and "spec_for collection_items (collection_spec rest)
           = (if k \<noteq> 0 \<and> k \<noteq> length rest \<and> (after = ''items'' \<or> after = ''items'' @ [CHR 0x0A])
              then Some [(''collection_id'', take k rest)] else None)"
    and "spec_for collection_item_by_id (collection_spec rest)
           = (if k \<noteq> 0 \<and> k \<noteq> length rest \<and> \<not> (after = ''items'' \<or> after = ''items'' @ [CHR 0x0A])
                 \<and> startswith after ''items/'' \<and> drop 6 after \<noteq> [] \<and> CHR ''/'' \<notin> set (drop 6 after)
              then Some [(''collection_id'', take k rest), (''item_id'', drop 6 after)] else None)"
  unfolding spec_for_def collection_spec_def Let_def k_def [symmetric] after_def [symmetric]
  by simp_all

lemma collection_by_id_spec:
  "match_toks [PVar ''collection_id'' ''str''] rest = spec_for collection_by_id (collection_spec rest)"
proof -
  define k where "k = length (takeWhile (\<lambda>c. c \<noteq> CHR ''/'') rest)"
  have full: "k = length rest \<longleftrightarrow> CHR ''/'' \<notin> set rest"
    unfolding k_def by (rule takeWhile_not_slash_full)
  have "(k \<noteq> 0 \<and> k = length rest) \<longleftrightarrow> (rest \<noteq> [] \<and> CHR ''/'' \<notin> set rest)"
    using full by auto
  moreover have "k = length rest \<Longrightarrow> take k rest = rest" by simp
  ultimately show ?thesis
    unfolding match_toks_str_end collection_spec_for(1) k_def [symmetric] by auto
qed

lemma collection_items_spec:
  "match_toks (PVar ''collection_id'' ''str'' # PLit CHR ''/'' # map PLit ''items'') rest
     = spec_for collection_items (collection_spec rest)"
proof -
  define k where "k = length (takeWhile (\<lambda>c. c \<noteq> CHR ''/'') rest)"
  have "k \<le> length rest" unfolding k_def by (rule length_takeWhile_le)
  then show ?thesis
    unfolding match_toks_str_slash match_toks_lits_end collection_spec_for(2) k_def [symmetric] Let_def
    by auto
qed

lemma startswith_items_slash: "startswith a ''items/'' \<Longrightarrow> \<not> (a = ''items'' \<or> a = ''items'' @ [CHR 0x0A])"
  by auto

lemma collection_item_spec:
  "match_toks (PVar ''collection_id'' ''str'' # PLit CHR ''/'' # map PLit ''items/'' @ [PVar ''item_id'' ''str'']) rest
     = spec_for collection_item_by_id (collection_spec rest)"
proof -
  define k where "k = length (takeWhile (\<lambda>c. c \<noteq> CHR ''/'') rest)"
  have "k \<le> length rest" unfolding k_def by (rule length_takeWhile_le)
  then show ?thesis
    unfolding match_toks_str_slash match_toks_lits match_toks_str_end collection_spec_for(3)
      k_def [symmetric] Let_def
    using startswith_items_slash by (auto simp: numeral_eq_Suc)
qed

lemma collection_spec_endpoint:
  "collection_spec r = Some (e, ps) \<Longrightarrow> e \<in> {collection_by_id, collection_items, collection_item_by_id}"
  unfolding collection_spec_def Let_def by (auto split: if_splits)

lemma spec_for_collection_other:
  "e \<notin> {collection_by_id, collection_items, collection_item_by_id} \<Longrightarrow> spec_for e (collection_spec r) = None"
  by (cases "collection_spec r") (auto simp: spec_for_def dest: collection_spec_endpoint)

lemma spec_for_static_other: "e \<noteq> static_files \<Longrightarrow> spec_for e (static_spec f) = None"
  by (simp add: spec_for_def static_spec_def)

lemma spec_for_if: "spec_for e (if c then x else y) = (if c then spec_for e x else spec_for e y)"
  by simp

lemma spec_for_Some: "spec_for e (Some (e', ps)) = (if e' = e then Some ps else None)"
  by (simp add: spec_for_def)

lemma spec_for_None: "spec_for e None = None"
  by (simp add: spec_for_def)

lemmas route_spec_simps = route_spec_def spec_for_if spec_for_Some spec_for_None

lemma static_route_spec:
  "match_toks [PVar ''filepath'' ''path''] f = spec_for static_files (static_spec f)"
  unfolding match_toks_path_end by (simp add: spec_for_def static_spec_def)

lemma landing_route_spec:
  "match_toks (map PLit ''/'') p = spec_for landing_page (route_spec p)"
  unfolding match_toks_lits_end
  by (auto simp: route_spec_simps spec_for_collection_other spec_for_static_other)

lemma openapi_route_spec:
  "match_toks (map PLit ''/openapi'') p = spec_for openapi_spec (route_spec p)"
  unfolding match_toks_lits_end
  by (auto simp: route_spec_simps spec_for_collection_other spec_for_static_other)

lemma conformance_route_spec:
  "match_toks (map PLit ''/conformance'') p = spec_for conformance (route_spec p)"
  unfolding match_toks_lits_end
  by (auto simp: route_spec_simps spec_for_collection_other spec_for_static_other)

lemma collections_route_spec:
  "match_toks (map PLit ''/collections'') p = spec_for collections (route_spec p)"
  unfolding match_toks_lits_end
  by (auto simp: route_spec_simps spec_for_collection_other spec_for_static_other)

lemma route_spec_collections_prefix: "route_spec (''/collections/'' @ r) = collection_spec r"
  by (simp add: route_spec_def)

lemma route_spec_static_prefix: "route_spec (''/static/'' @ f) = static_spec f"
  by (simp add: route_spec_def)

lemma spec_for_route_spec_collection_outside:
  assumes "\<not> startswith p ''/collections/''"
    and "e \<in> {collection_by_id, collection_items, collection_item_by_id}"
  shows "spec_for e (route_spec p) = None"
  using assms by (auto simp: route_spec_simps spec_for_static_other)

lemma spec_for_route_spec_static_outside:
  assumes "\<not> startswith p ''/static/''"
  shows "spec_for static_files (route_spec p) = None"
  using assms by (auto simp: route_spec_simps spec_for_collection_other)

lemma collection_by_id_route_spec:
  "match_toks (map PLit ''/collections/'' @ [PVar ''collection_id'' ''str'']) p
     = spec_for collection_by_id (route_spec p)"
proof (cases "startswith p ''/collections/''")
  case True
  then obtain r where p: "p = ''/collections/'' @ r" by (auto simp: startswith_conv)
  show ?thesis
    unfolding p match_toks_lits collection_by_id_spec route_spec_collections_prefix by simp
next
  case False
  then show ?thesis
    unfolding match_toks_lits by (simp add: spec_for_route_spec_collection_outside)
qed

lemma collection_items_route_spec:
  "match_toks (map PLit ''/collections/'' @ PVar ''collection_id'' ''str'' # PLit CHR ''/'' # map PLit ''items'') p
     = spec_for collection_items (route_spec p)"
proof (cases "startswith p ''/collections/''")
  case True
  then obtain r where p: "p = ''/collections/'' @ r" by (auto simp: startswith_conv)
  show ?thesis
    unfolding p match_toks_lits collection_items_spec route_spec_collections_prefix by simp
next
  case False
  then show ?thesis
    unfolding match_toks_lits by (simp add: spec_for_route_spec_collection_outside)
qed

lemma collection_item_route_spec:
  "match_toks (map PLit ''/collections/'' @ PVar ''collection_id'' ''str'' # PLit CHR ''/''
      # map PLit ''items/'' @ [PVar ''item_id'' ''str'']) p
     = spec_for collection_item_by_id (route_spec p)"
proof (cases "startswith p ''/collections/''")
  case True
  then obtain r where p: "p = ''/collections/'' @ r" by (auto simp: startswith_conv)
  show ?thesis
    unfolding p match_toks_lits collection_item_spec route_spec_collections_prefix by simp
next
  case False
  then show ?thesis
    unfolding match_toks_lits by (simp add: spec_for_route_spec_collection_outside)
qed

lemma static_files_route_spec:
  "match_toks (map PLit ''/static/'' @ [PVar ''filepath'' ''path'']) p
     = spec_for static_files (route_spec p)"
proof (cases "startswith p ''/static/''")
  case True
  then obtain f where p: "p = ''/static/'' @ f" by (auto simp: startswith_conv)
  show ?thesis
    unfolding p match_toks_lits static_route_spec route_spec_static_prefix by simp
next
  case False
  then show ?thesis
    unfolding match_toks_lits by (simp add: spec_for_route_spec_static_outside)
qed

lemma route_matches_app_route: "route_matches (app_route p ep toks) path = match_toks toks path"
  by (simp add: route_matches_def app_route_def)

lemma route_endpoint_app_route: "route_endpoint (app_route p ep toks) = ep"
  by (simp add: app_route_def)

lemma route_methods_app_route: "route_methods (app_route p ep toks) = [''GET'', ''POST'', ''HEAD'']"
  by (simp add: app_route_def)

lemma app_routes_eq:
  "register_routes [] route_decls = Inr rs \<Longrightarrow> rs = [app_route ''/'' landing_page (map PLit ''/''),
      app_route ''/openapi'' openapi_spec (map PLit ''/openapi''),
      app_route ''/conformance'' conformance (map PLit ''/conformance''),
      app_route ''/collections'' collections (map PLit ''/collections''),
      app_route ''/collections/{collection_id}'' collection_by_id
        (map PLit ''/collections/'' @ [PVar ''collection_id'' ''str'']),
      app_route ''/collections/{collection_id}/items'' collection_items
        (map PLit ''/collections/'' @ PVar ''collection_id'' ''str'' # PLit CHR ''/'' # map PLit ''items''),
      app_route ''/collections/{collection_id}/items/{item_id}'' collection_item_by_id
        (map PLit ''/collections/'' @ PVar ''collection_id'' ''str'' # PLit CHR ''/''
         # map PLit ''items/'' @ [PVar ''item_id'' ''str'']),
      app_route ''/static/{filepath:path}'' static_files
        (map PLit ''/static/'' @ [PVar ''filepath'' ''path''])]"
  using register_app_routes by simp

lemma app_routes_match:
  assumes "register_routes [] route_decls = Inr rs" and "r \<in> set rs"
  shows "route_matches r p = spec_for (route_endpoint r) (route_spec p)"
proof -
  have rs: "rs = [app_route ''/'' landing_page (map PLit ''/''),
      app_route ''/openapi'' openapi_spec (map PLit ''/openapi''),
      app_route ''/conformance'' conformance (map PLit ''/conformance''),
      app_route ''/collections'' collections (map PLit ''/collections''),
      app_route ''/collections/{collection_id}'' collection_by_id
        (map PLit ''/collections/'' @ [PVar ''collection_id'' ''str'']),
      app_route ''/collections/{collection_id}/items'' collection_items
        (map PLit ''/collections/'' @ PVar ''collection_id'' ''str'' # PLit CHR ''/'' # map PLit ''items''),
      app_route ''/collections/{collection_id}/items/{item_id}'' collection_item_by_id
        (map PLit ''/collections/'' @ PVar ''collection_id'' ''str'' # PLit CHR ''/''
         # map PLit ''items/'' @ [PVar ''item_id'' ''str'']),
      app_route ''/static/{filepath:path}'' static_files
        (map PLit ''/static/'' @ [PVar ''filepath'' ''path''])]"
    using assms(1) by (rule app_routes_eq)
  from assms(2) have "r \<in> set [app_route ''/'' landing_page (map PLit ''/''),
      app_route ''/openapi'' openapi_spec (map PLit ''/openapi''),
      app_route ''/conformance'' conformance (map PLit ''/conformance''),
      app_route ''/collections'' collections (map PLit ''/collections''),
      app_route ''/collections/{collection_id}'' collection_by_id
        (map PLit ''/collections/'' @ [PVar ''collection_id'' ''str'']),
      app_route ''/collections/{collection_id}/items'' collection_items
        (map PLit ''/collections/'' @ PVar ''collection_id'' ''str'' # PLit CHR ''/'' # map PLit ''items''),
      app_route ''/collections/{collection_id}/items/{item_id}'' collection_item_by_id
        (map PLit ''/collections/'' @ PVar ''collection_id'' ''str'' # PLit CHR ''/''
         # map PLit ''items/'' @ [PVar ''item_id'' ''str'']),
      app_route ''/static/{filepath:path}'' static_files
        (map PLit ''/static/'' @ [PVar ''filepath'' ''path''])]"
    by (simp only: rs)
  then show ?thesis
    unfolding set_simps insert_iff empty_iff
    by (elim disjE FalseE; simp only: route_matches_app_route route_endpoint_app_route
        landing_route_spec openapi_route_spec conformance_route_spec collections_route_spec
        collection_by_id_route_spec collection_items_route_spec collection_item_route_spec
        static_files_route_spec)
qed

lemma app_routes_endpoints:
  "register_routes [] route_decls = Inr rs \<Longrightarrow>
   map route_endpoint rs = [landing_page, openapi_spec, conformance, collections, collection_by_id,
     collection_items, collection_item_by_id, static_files]"
  by (drule app_routes_eq) (simp add: route_endpoint_app_route)

lemma app_routes_methods:
  "register_routes [] route_decls = Inr rs \<Longrightarrow> r \<in> set rs \<Longrightarrow>
   route_methods r = [''GET'', ''POST'', ''HEAD'']"
  by (drule app_routes_eq) (auto simp: route_methods_app_route)

lemma app_routes_inj:
  assumes "register_routes [] route_decls = Inr rs"
  shows "inj_on route_endpoint (set rs)" and "distinct rs"
proof -
  have "distinct (map route_endpoint rs)" using app_routes_endpoints [OF assms] by simp
  then show "inj_on route_endpoint (set rs)" and "distinct rs" by (simp_all add: distinct_map)
qed

lemma route_matches_ne_None:
  "register_routes [] route_decls = Inr rs \<Longrightarrow> r \<in> set rs \<Longrightarrow>
   route_matches r p \<noteq> None \<longleftrightarrow> (\<exists>ps. route_spec p = Some (route_endpoint r, ps))"
  by (auto simp: app_routes_match spec_for_def split: option.splits)

text \<open>
  C3. The registered route table is unambiguous: whatever the request path, at most one
  of the eight routes the decorators register matches it, so no declared path is
  shadowed by another.
\<close>

theorem route_table_unambiguous:
  assumes "register_routes [] route_decls = Inr rs"
  shows "length (filter (\<lambda>r. route_matches r p \<noteq> None) rs) \<le> 1"
proof (cases "route_spec p")
  case None
  then have "filter (\<lambda>r. route_matches r p \<noteq> None) rs = []"
    using route_matches_ne_None [OF assms] by (auto simp: filter_empty_conv)
  then show ?thesis by simp
next
  case (Some a)
  obtain e ps where a: "a = (e, ps)" by (cases a)
  have "filter (\<lambda>r. route_matches r p \<noteq> None) rs = filter (\<lambda>r. route_endpoint r = e) rs"
  proof (rule filter_cong)
    fix r assume "r \<in> set rs"
    then show "(route_matches r p \<noteq> None) = (route_endpoint r = e)"
      using route_matches_ne_None [OF assms] Some a by auto
  qed (rule refl)
  moreover have "length (filter (\<lambda>r. route_endpoint r = e) rs) \<le> 1"
    using app_routes_inj [OF assms] by (rule length_filter_inj_le1)
  ultimately show ?thesis by simp
qed

theorem route_table_unambiguous_witness:
  "\<exists>rs. register_routes [] route_decls = Inr rs
     \<and> length (filter (\<lambda>r. route_matches r ''/collections/lakes'' \<noteq> None) rs) \<le> 1"
  using route_table_unambiguous [OF register_app_routes, of "''/collections/lakes''"] register_app_routes
  by blast

lemma app_routes_match_unique:
  assumes "register_routes [] route_decls = Inr rs"
  shows "\<forall>r \<in> set rs. \<forall>r' \<in> set rs. route_matches r p \<noteq> None \<longrightarrow> route_matches r' p \<noteq> None \<longrightarrow> r = r'"
proof (intro ballI impI)
  fix r r' assume r: "r \<in> set rs" and r': "r' \<in> set rs"
    and m: "route_matches r p \<noteq> None" and m': "route_matches r' p \<noteq> None"
  from m r obtain ps where "route_spec p = Some (route_endpoint r, ps)"
    using route_matches_ne_None [OF assms] by blast
  moreover from m' r' obtain ps' where "route_spec p = Some (route_endpoint r', ps')"
    using route_matches_ne_None [OF assms] by blast
  ultimately have "route_endpoint r = route_endpoint r'" by simp
  with r r' show "r = r'" using app_routes_inj(1) [OF assms] by (auto dest: inj_onD)
qed

lemma app_route_for_endpoint:
  assumes "register_routes [] route_decls = Inr rs"
  obtains r where "r \<in> set rs" and "route_endpoint r = ep"
proof -
  have "ep \<in> set (map route_endpoint rs)"
    using app_routes_endpoints [OF assms] by (cases ep) simp_all
  then show ?thesis using that by auto
qed

lemma router_app_matched:
  assumes rs: "register_routes [] route_decls = Inr rs" and spec: "route_spec p = Some (ep, ps)"
  shows "router rs m p = (if m \<in> set [''GET'', ''POST'', ''HEAD''] then Dispatch ep ps
                          else MethodNotAllowed [''GET'', ''POST'', ''HEAD''])"
proof -
  obtain r0 where r0: "r0 \<in> set rs" "route_endpoint r0 = ep" using app_route_for_endpoint [OF rs] .
  have m0: "route_matches r0 p = Some ps"
    using app_routes_match [OF rs r0(1)] spec r0(2) by (simp add: spec_for_def)
  have only: "\<forall>r \<in> set rs. route_matches r p \<noteq> None \<longrightarrow> r = r0"
    using app_routes_match_unique [OF rs] r0(1) m0 by blast
  have meth: "route_methods r0 = [''GET'', ''POST'', ''HEAD'']" using app_routes_methods [OF rs r0(1)] .
  show ?thesis
  proof (cases "m \<in> set [''GET'', ''POST'', ''HEAD'']")
    case True
    have "find (\<lambda>r. route_matches r p \<noteq> None \<and> m \<in> set (route_methods r)) rs = Some r0"
    proof (rule find_unique_elem)
      show "r0 \<in> set rs" by (rule r0(1))
      show "route_matches r0 p \<noteq> None \<and> m \<in> set (route_methods r0)" using m0 meth True by simp
      show "\<forall>y \<in> set rs. route_matches y p \<noteq> None \<and> m \<in> set (route_methods y) \<longrightarrow> y = r0"
        using only by blast
    qed
    with True m0 r0(2) show ?thesis by (simp add: router_def)
  next
    case False
    have "find (\<lambda>r. route_matches r p \<noteq> None \<and> m \<in> set (route_methods r)) rs = None"
    proof -
      have "\<not> (route_matches r p \<noteq> None \<and> m \<in> set (route_methods r))" if "r \<in> set rs" for r
      proof
        assume "route_matches r p \<noteq> None \<and> m \<in> set (route_methods r)"
        moreover have "r = r0" if "route_matches r p \<noteq> None" using only \<open>r \<in> set rs\<close> that by blast
        ultimately show False using meth False by auto
      qed
      then show ?thesis by (auto simp: find_None_iff)
    qed
    moreover have "find (\<lambda>r. route_matches r p \<noteq> None) rs = Some r0"
    proof (rule find_unique_elem)
      show "r0 \<in> set rs" by (rule r0(1))
      show "route_matches r0 p \<noteq> None" using m0 by simp
      show "\<forall>y \<in> set rs. route_matches y p \<noteq> None \<longrightarrow> y = r0" by (rule only)
    qed
    ultimately show ?thesis using False meth by (simp add: router_def)
  qed
qed


lemma route_spec_item:
  assumes "c \<noteq> []" "CHR ''/'' \<notin> set c" "i \<noteq> []" "CHR ''/'' \<notin> set i"
  shows "route_spec (''/collections/'' @ c @ ''/items/'' @ i)
           = Some (collection_item_by_id, [(''collection_id'', c), (''item_id'', i)])"
proof -
  have tw: "takeWhile (\<lambda>ch. ch \<noteq> CHR ''/'') (c @ ''/items/'' @ i) = c"
    using assms(2) by (subst takeWhile_append2) auto
  show ?thesis
    using assms unfolding route_spec_collections_prefix collection_spec_def Let_def tw
    by (simp add: startswith_def)
qed



text \<open>
  C12. A path the specification assigns to an endpoint is dispatched to it by the router,
  with the specified path parameters, for the methods the fallback decorator registers
  (\<open>GET\<close>, \<open>POST\<close> and the \<open>HEAD\<close> Starlette adds); any other method on that path
  is answered 405 with those methods.
\<close>

theorem router_dispatch_spec:
  assumes "register_routes [] route_decls = Inr rs" and "route_spec p = Some (ep, ps)"
  shows "router rs m p = (if m \<in> set [''GET'', ''POST'', ''HEAD''] then Dispatch ep ps
                          else MethodNotAllowed [''GET'', ''POST'', ''HEAD''])"
  using assms by (rule router_app_matched)

theorem router_dispatch_spec_witness:
  "\<exists>rs. register_routes [] route_decls = Inr rs
     \<and> router rs ''PUT'' ''/conformance'' = MethodNotAllowed [''GET'', ''POST'', ''HEAD'']"
proof -
  have "route_spec ''/conformance'' = Some (conformance, [])" by (simp add: route_spec_def)
  from router_dispatch_spec [OF register_app_routes this, of "''PUT''"] register_app_routes
  show ?thesis by auto
qed



text \<open>
  C21. An item URL \<open>/collections/{collection_id}/items/{item_id}\<close> with non-empty,
  slash-free segments is dispatched to \<open>collection_item_by_id\<close> with both segments as its
  parameters.
\<close>

theorem router_item_route:
  assumes "register_routes [] route_decls = Inr rs"
    and "c \<noteq> []" "CHR ''/'' \<notin> set c" "i \<noteq> []" "CHR ''/'' \<notin> set i"
  shows "router rs ''GET'' (''/collections/'' @ c @ ''/items/'' @ i)
           = Dispatch collection_item_by_id [(''collection_id'', c), (''item_id'', i)]"
  using router_app_matched [OF assms(1) route_spec_item [OF assms(2-5)]] by simp

theorem router_item_route_witness:
  "\<exists>rs. register_routes [] route_decls = Inr rs
     \<and> router rs ''GET'' (''/collections/'' @ ''lakes'' @ ''/items/'' @ ''7'')
         = Dispatch collection_item_by_id [(''collection_id'', ''lakes''), (''item_id'', ''7'')]"
  using router_item_route [OF register_app_routes, of "''lakes''" "''7''"] register_app_routes
  by auto

end
