(* ===== verification/StaticFiles.thy ===== *)
theory StaticFiles
  imports Responses
begin

text \<open>
  The static-file route \<open>static_files(filepath)\<close> (\<open>src/pygeoapi/fasthtml_app.py\<close>,
  lines 239 to 247), the computation of \<open>STATIC_FOLDER\<close> (lines 117 to 120) and the
  path operations they rely on. The handler joins \<open>STATIC_FOLDER\<close> with the
  \<open>filepath\<close> taken from the URL by \<open>os.path.join\<close> and hands the result to
  Starlette's \<open>FileResponse\<close>; only an \<open>ImportError\<close> is caught. POSIX path semantics
  are modelled from \<open>posixpath\<close>: \<open>join\<close> and \<open>normpath\<close>, the lexical resolution
  of \<open>.\<close> and \<open>..\<close> that the operating system applies when the file is opened
  (symbolic links aside). The lemmas show the normal form \<open>normpath\<close> keeps and its
  idempotence; the properties show which files the handler can reach.
\<close>

subsection \<open>POSIX paths\<close>

text \<open>\<open>posixpath.join(a, b)\<close>: an absolute \<open>b\<close> replaces \<open>a\<close>.\<close>

definition path_join :: "string \<Rightarrow> string \<Rightarrow> string" where
  "path_join a b =
     (if startswith b ''/'' then b
      else if a = [] \<or> last a = CHR ''/'' then a @ b
      else a @ ''/'' @ b)"

text \<open>\<open>str.split('/')\<close>.\<close>

fun split_slash :: "string \<Rightarrow> string list" where
  "split_slash [] = [[]]"
| "split_slash (c # cs) =
     (if c = CHR ''/'' then [] # split_slash cs
      else (case split_slash cs of w # ws \<Rightarrow> (c # w) # ws | [] \<Rightarrow> [[c]]))"

text \<open>The component loop of \<open>posixpath.normpath\<close>.\<close>

fun norm_comps :: "bool \<Rightarrow> string list \<Rightarrow> string list \<Rightarrow> string list" where
  "norm_comps initial acc [] = acc"
| "norm_comps initial acc (w # ws) =
     (if w = [] \<or> w = ''.'' then norm_comps initial acc ws
      else if w \<noteq> ''..'' \<or> (\<not> initial \<and> acc = []) \<or> (acc \<noteq> [] \<and> last acc = ''..'')
      then norm_comps initial (acc @ [w]) ws
      else if acc \<noteq> [] then norm_comps initial (butlast acc) ws
      else norm_comps initial acc ws)"

text \<open>
  The number of leading slashes \<open>normpath\<close> keeps: POSIX allows two leading slashes a
  meaning of their own, three or more count as one.
\<close>

definition lead_slashes :: "string \<Rightarrow> nat" where
  "lead_slashes p =
     (if startswith p ''/'' then (if startswith p ''//'' \<and> \<not> startswith p ''///'' then 2 else 1)
      else 0)"

definition normpath :: "string \<Rightarrow> string" where
  "normpath p =
     (if p = [] then ''.''
      else
        (let initial_slashes = lead_slashes p;
             comps = norm_comps (0 < initial_slashes) [] (split_slash p);
             q = replicate initial_slashes (CHR ''/'') @ py_join ''/'' comps
         in if q = [] then ''.'' else q))"

subsection \<open>The handler\<close>

datatype static_result = FileResponse string | StaticResponse response

text \<open>
  \<open>os.path.join(STATIC_FOLDER, filepath)\<close> with a configured folder that need not be a
  string: \<open>os.fspath\<close> rejects anything else with a \<open>TypeError\<close>.
\<close>

definition os_path_join :: "pyval \<Rightarrow> string \<Rightarrow> string pyres" where
  "os_path_join folder fp =
     (case folder of
        PStr a \<Rightarrow> Inr (path_join a fp)
      | v \<Rightarrow> Inl (type_error (''expected str, bytes or os.PathLike object, not '' @ py_type_name v)))"

text \<open>
  \<open>static_files(filepath)\<close>: \<open>import_ok\<close> says whether \<open>from starlette.responses import
  FileResponse\<close> succeeds; only its \<open>ImportError\<close> is turned into the 404 response.
\<close>

definition static_files_handler :: "bool \<Rightarrow> pyval \<Rightarrow> string \<Rightarrow> static_result pyres" where
  "static_files_handler import_ok static_folder filepath =
     (if \<not> import_ok then Inr (StaticResponse (Response ''Static files not available'' 404 None None))
      else case os_path_join static_folder filepath of
             Inl e \<Rightarrow> Inl e
           | Inr p \<Rightarrow> Inr (FileResponse p))"

subsection \<open>The normal form of a path\<close>

text \<open>
  The components \<open>normpath\<close> keeps: none empty or \<open>.\<close>, the \<open>..\<close> components
  only in front (a \<open>..\<close> after a name cancels it), and none at all in an absolute path.
\<close>

definition plain_comp :: "string \<Rightarrow> bool" where
  "plain_comp w \<longleftrightarrow> w \<noteq> [] \<and> w \<noteq> ''.''"

fun dotdot_prefix :: "string list \<Rightarrow> bool" where
  "dotdot_prefix [] = True"
| "dotdot_prefix (w # ws) = (if w = ''..'' then dotdot_prefix ws else ''..'' \<notin> set ws)"

definition norm_wf :: "bool \<Rightarrow> string list \<Rightarrow> bool" where
  "norm_wf initial cs \<longleftrightarrow>
     (\<forall>w \<in> set cs. plain_comp w) \<and> dotdot_prefix cs \<and> (initial \<longrightarrow> ''..'' \<notin> set cs)"

text \<open>
  The file a path names, as the list of directory entries the kernel walks from the root
  (absolute) or from the working directory (relative), \<open>..\<close> resolved lexically.
\<close>

definition resolved_comps :: "string \<Rightarrow> string list" where
  "resolved_comps p = norm_comps (startswith p ''/'') [] (split_slash p)"

subsection \<open>The static folder\<close>

text \<open>
  Lines 117 to 120: \<open>STATIC_FOLDER = 'static'\<close>, replaced by
  \<open>CONFIG['server']['templates'].get('static', 'static')\<close> when the server section has
  a \<open>templates\<close> key. The configuration is a parsed YAML document.
\<close>

definition static_folder_of :: "pyval \<Rightarrow> pyval pyres" where
  "static_folder_of config =
     (case py_getitem config ''server'' of
        Inl e \<Rightarrow> Inl e
      | Inr server \<Rightarrow>
          (case py_contains_str server ''templates'' of
             Inl e \<Rightarrow> Inl e
           | Inr False \<Rightarrow> Inr (PStr ''static'')
           | Inr True \<Rightarrow>
               (case py_getitem server ''templates'' of
                  Inl e \<Rightarrow> Inl e
                | Inr templates \<Rightarrow> py_dict_get templates ''static'' (PStr ''static''))))"

subsection \<open>Lemmas on paths\<close>

lemma split_slash_ne [simp]: "split_slash s \<noteq> []"
  by (induction s) (auto split: list.split)

lemma split_slash_append_slash:
  "split_slash (a @ CHR ''/'' # b) = split_slash a @ split_slash b"
proof (induction a)
  case Nil then show ?case by simp
next
  case (Cons c a)
  then show ?case by (cases "split_slash a") (auto split: list.split)
qed

lemma split_slash_dotdot [simp]: "split_slash (''../'' @ s) = ''..'' # split_slash s"
  using split_slash_append_slash [of "''..''" s] by simp

lemma split_slash_updirs:
  "split_slash (concat (replicate n ''../'') @ f) = replicate n ''..'' @ split_slash f"
  by (induction n) auto

lemma split_slash_replicate:
  "split_slash (replicate k (CHR ''/'') @ s) = replicate k [] @ split_slash s"
  by (induction k) auto

lemma split_slash_no_slash: "w \<in> set (split_slash s) \<Longrightarrow> CHR ''/'' \<notin> set w"
  by (induction s arbitrary: w) (auto split: list.splits if_splits)

lemma split_slash_single: "CHR ''/'' \<notin> set w \<Longrightarrow> split_slash w = [w]"
  by (induction w) auto

lemma split_slash_py_join:
  "cs \<noteq> [] \<Longrightarrow> \<forall>w \<in> set cs. CHR ''/'' \<notin> set w \<Longrightarrow> split_slash (py_join ''/'' cs) = cs"
  by (induction "''/''" cs rule: py_join.induct) (auto simp: split_slash_single split_slash_append_slash)

lemma norm_comps_append:
  "norm_comps i acc (xs @ ys) = norm_comps i (norm_comps i acc xs) ys"
  by (induction xs arbitrary: acc) auto

lemma norm_comps_replicate: "norm_comps i acc (replicate k []) = acc"
  by (induction k) auto

lemma norm_comps_no_dotdot:
  "''..'' \<notin> set ws \<Longrightarrow> norm_comps i acc ws = acc @ filter plain_comp ws"
  by (induction ws arbitrary: acc) (auto simp: plain_comp_def)

lemma set_norm_comps: "set (norm_comps i acc ws) \<subseteq> set acc \<union> set ws"
proof (induction ws arbitrary: acc)
  case (Cons w ws)
  have "set (butlast acc) \<subseteq> set acc" by (auto dest: in_set_butlastD)
  then show ?case
    using Cons.IH [of acc] Cons.IH [of "acc @ [w]"] Cons.IH [of "butlast acc"] by auto
qed simp

text \<open>Going up \<open>n\<close> directories from \<open>n\<close> or more names drops the last \<open>n\<close> of them.\<close>

lemma norm_comps_pop:
  "''..'' \<notin> set acc \<Longrightarrow> n \<le> length acc \<Longrightarrow>
   norm_comps False acc (replicate n ''..'' @ ws) = norm_comps False (take (length acc - n) acc) ws"
proof (induction n arbitrary: acc)
  case 0 then show ?case by simp
next
  case (Suc n)
  then have ne: "acc \<noteq> []" by auto
  then have nl: "last acc \<noteq> ''..''" using Suc.prems(1) by (metis last_in_set)
  have "''..'' \<notin> set (butlast acc)" using Suc.prems by (auto dest: in_set_butlastD)
  then have "norm_comps False (butlast acc) (replicate n ''..'' @ ws)
               = norm_comps False (take (length acc - Suc n) acc) ws"
    using Suc by (simp add: butlast_conv_take)
  then show ?case using ne nl by simp
qed

lemma dotdot_prefix_snoc:
  "dotdot_prefix (xs @ [w]) \<longleftrightarrow> dotdot_prefix xs \<and> (w = ''..'' \<longrightarrow> (\<forall>x \<in> set xs. x = ''..''))"
  by (induction xs) auto

lemma dotdot_prefix_butlast: "dotdot_prefix xs \<Longrightarrow> dotdot_prefix (butlast xs)"
  by (induction xs) (auto dest: in_set_butlastD)

lemma dotdot_prefix_last:
  "dotdot_prefix xs \<Longrightarrow> xs \<noteq> [] \<Longrightarrow> last xs = ''..'' \<Longrightarrow> \<forall>x \<in> set xs. x = ''..''"
  by (induction xs) (auto split: if_splits dest: last_in_set)

lemma dotdot_prefix_before:
  "dotdot_prefix (xs @ ''..'' # ys) \<Longrightarrow> \<forall>x \<in> set xs. x = ''..''"
  by (induction xs) (auto split: if_splits)

text \<open>A list already in normal form is left as it is.\<close>

lemma norm_comps_fix:
  "norm_wf i (acc @ cs) \<Longrightarrow> norm_comps i acc cs = acc @ cs"
proof (induction cs arbitrary: acc)
  case Nil then show ?case by simp
next
  case (Cons w cs)
  have plain: "w \<noteq> [] \<and> w \<noteq> ''.''" using Cons.prems by (simp add: norm_wf_def plain_comp_def)
  have "w \<noteq> ''..'' \<or> (\<not> i \<and> acc = []) \<or> (acc \<noteq> [] \<and> last acc = ''..'')"
  proof (cases "w = ''..''")
    case True
    with Cons.prems have "\<forall>x \<in> set acc. x = ''..''" "\<not> i"
      by (auto simp: norm_wf_def dest: dotdot_prefix_before)
    then show ?thesis by (auto dest: last_in_set)
  qed simp
  with plain Cons show ?case by simp
qed

lemma py_join_first:
  "w # cs' = cs \<Longrightarrow> w = c # w' \<Longrightarrow> \<exists>s. py_join sep cs = c # s"
  by (cases cs'; auto)

lemma lead_slashes_render:
  assumes "k \<le> 2" and "k = 0 \<longrightarrow> cs \<noteq> []"
    and "cs \<noteq> [] \<Longrightarrow> hd cs \<noteq> [] \<and> hd (hd cs) \<noteq> CHR ''/''"
  shows "lead_slashes (replicate k (CHR ''/'') @ py_join ''/'' cs) = k"
proof -
  have "cs = [] \<or> (\<exists>c s. py_join ''/'' cs = c # s \<and> c \<noteq> CHR ''/'')"
  proof (cases cs)
    case (Cons w cs')
    with assms(3) obtain c w' where "w = c # w'" "c \<noteq> CHR ''/''" by (cases w) auto
    with Cons show ?thesis using py_join_first [of w cs' cs c w' "''/''"] by auto
  qed simp
  moreover have "k = 0 \<or> k = 1 \<or> k = 2" using assms(1) by auto
  ultimately show ?thesis using assms(2)
    by (auto simp: lead_slashes_def numeral_2_eq_2 startswith_def)
qed

lemma startswith_slash_append:
  "a \<noteq> [] \<Longrightarrow> startswith (a @ s) ''/'' = startswith a ''/''"
  by (cases a) auto

text \<open>Joining a relative path appends its components to the folder's.\<close>

lemma path_join_relative:
  assumes "a \<noteq> []" and "\<not> startswith b ''/''"
  shows "startswith (path_join a b) ''/'' = startswith a ''/''"
    and "norm_comps i acc (split_slash (path_join a b))
           = norm_comps i (norm_comps i acc (split_slash a)) (split_slash b)"
proof -
  show "startswith (path_join a b) ''/'' = startswith a ''/''"
    using assms by (auto simp: path_join_def startswith_slash_append)
  show "norm_comps i acc (split_slash (path_join a b))
           = norm_comps i (norm_comps i acc (split_slash a)) (split_slash b)"
  proof (cases "last a = CHR ''/''")
    case True
    then have a: "a = butlast a @ [CHR ''/'']" using assms(1) by (metis append_butlast_last_id)
    have "split_slash a = split_slash (butlast a) @ [[]]"
      by (subst a) (simp add: split_slash_append_slash)
    moreover have "path_join a b = butlast a @ CHR ''/'' # b"
      using assms True by (subst a) (simp add: path_join_def)
    ultimately show ?thesis by (simp add: split_slash_append_slash norm_comps_append)
  next
    case False
    then show ?thesis
      using assms by (simp add: path_join_def split_slash_append_slash norm_comps_append)
  qed
qed

lemma static_files_handler_file:
  "static_files_handler True (PStr d) fp = Inr (FileResponse (path_join d fp))"
  by (simp add: static_files_handler_def os_path_join_def)

lemma norm_wf_Nil [simp]: "norm_wf i []"
  by (simp add: norm_wf_def)

lemma norm_wf_snoc_name:
  assumes "norm_wf i acc" and "plain_comp w" and "w \<noteq> ''..'' \<or> (acc = [] \<and> \<not> i)"
  shows "norm_wf i (acc @ [w])"
  using assms by (auto simp: norm_wf_def dotdot_prefix_snoc)

lemma norm_wf_snoc_dotdot:
  assumes "norm_wf i acc" and "plain_comp w" and "acc \<noteq> []" and "last acc = ''..''"
  shows "norm_wf i (acc @ [w])"
proof -
  have dd: "dotdot_prefix acc" and pl: "\<forall>x \<in> set acc. plain_comp x"
    using assms(1) by (simp_all add: norm_wf_def)
  have "''..'' \<in> set acc" using assms(3,4) by (metis last_in_set)
  then have ni: "\<not> i" using assms(1) by (auto simp: norm_wf_def)
  have "\<forall>x \<in> set acc. x = ''..''" using dd assms(3,4) by (rule dotdot_prefix_last)
  then have "dotdot_prefix (acc @ [w])" using dd by (subst dotdot_prefix_snoc) blast
  then show ?thesis using pl assms(2) ni by (simp add: norm_wf_def)
qed

lemma norm_wf_butlast: "norm_wf i acc \<Longrightarrow> norm_wf i (butlast acc)"
  by (auto simp: norm_wf_def dotdot_prefix_butlast dest: in_set_butlastD)

lemma norm_comps_preserves_wf:
  "norm_wf i acc \<Longrightarrow> norm_wf i (norm_comps i acc ws)"
proof (induction ws arbitrary: acc)
  case Nil then show ?case by simp
next
  case (Cons w ws)
  show ?case
  proof (cases "plain_comp w")
    case False then show ?thesis using Cons by (simp add: plain_comp_def)
  next
    case True
    show ?thesis
    proof (cases "w \<noteq> ''..'' \<or> (\<not> i \<and> acc = []) \<or> (acc \<noteq> [] \<and> last acc = ''..'')")
      case c: True
      have "norm_wf i (acc @ [w])"
        using c norm_wf_snoc_name [OF Cons.prems True] norm_wf_snoc_dotdot [OF Cons.prems True]
        by blast
      then show ?thesis using True c by (simp add: plain_comp_def Cons.IH)
    next
      case c: False
      then have "norm_comps i acc (w # ws) = norm_comps i (butlast acc) ws"
        using True by (auto simp: plain_comp_def)
      then show ?thesis using Cons.IH [OF norm_wf_butlast [OF Cons.prems]] by simp
    qed
  qed
qed

text \<open>
  \<open>normpath\<close> is idempotent: a normalised path normalises to itself. The proof rests on
  the normal form that \<open>norm_comps_preserves_wf\<close> maintains.
\<close>

lemma normpath_idem: "normpath (normpath p) = normpath p"
proof (cases "p = []")
  case True then show ?thesis by (simp add: normpath_def lead_slashes_def startswith_def)
next
  case False
  define k where "k = lead_slashes p"
  define cs where "cs = norm_comps (0 < k) [] (split_slash p)"
  define q where "q = replicate k (CHR ''/'') @ py_join ''/'' cs"
  have np: "normpath p = (if q = [] then ''.'' else q)"
    using False unfolding normpath_def Let_def k_def [symmetric] cs_def [symmetric] q_def [symmetric]
    by simp
  have wf: "norm_wf (0 < k) cs"
    unfolding cs_def by (simp add: norm_comps_preserves_wf)
  have sl: "\<forall>w \<in> set cs. CHR ''/'' \<notin> set w"
    using set_norm_comps [of "0 < k" "[]" "split_slash p"] split_slash_no_slash
    unfolding cs_def by auto
  show ?thesis
  proof (cases "q = []")
    case True
    have "normpath ''.'' = ''.''" by (simp add: normpath_def lead_slashes_def startswith_def)
    then show ?thesis using np True by simp
  next
    case qne: False
    have k2: "k \<le> 2" by (simp add: k_def lead_slashes_def)
    have hd: "hd cs \<noteq> [] \<and> hd (hd cs) \<noteq> CHR ''/''" if "cs \<noteq> []"
      using that wf sl by (cases cs; cases "hd cs") (auto simp: norm_wf_def plain_comp_def)
    have "k = 0 \<longrightarrow> cs \<noteq> []" using qne by (auto simp: q_def)
    then have lq: "lead_slashes q = k"
      unfolding q_def using k2 hd by (intro lead_slashes_render) auto
    have "split_slash q = replicate k [] @ (if cs = [] then [[]] else cs)"
      using sl by (simp add: q_def split_slash_replicate split_slash_py_join)
    then have "norm_comps (0 < k) [] (split_slash q) = cs"
      using wf norm_comps_fix [of "0 < k" "[]" cs]
      by (simp add: norm_comps_append norm_comps_replicate)
    then have "normpath q = q"
      using qne lq unfolding normpath_def Let_def by (simp add: q_def)
    then show ?thesis using np qne by simp
  qed
qed

section \<open>Properties of the static-file route\<close>

text \<open>
  C4. An absolute \<open>filepath\<close> escapes the static folder: \<open>os.path.join\<close> discards the
  folder, so \<open>static_files\<close> serves the absolute path itself (the router hands the
  handler \<open>/etc/passwd\<close> for the request path \<open>/static//etc/passwd\<close>).
\<close>

theorem static_files_absolute:
  "startswith fp ''/'' \<Longrightarrow> static_files_handler True (PStr d) fp = Inr (FileResponse fp)"
  by (simp add: static_files_handler_file path_join_def)

theorem static_files_absolute_witness:
  "static_files_handler True (PStr ''static'') ''/etc/passwd'' = Inr (FileResponse ''/etc/passwd'')"
  by (rule static_files_absolute) (simp add: startswith_def)

text \<open>
  C14. Containment: for a relative \<open>filepath\<close> without a \<open>..\<close> component, the served file
  lies under the static folder: the resolved components of the served path are those of
  the folder followed by the file's own.
\<close>

theorem static_files_contained:
  assumes "static_files_handler True (PStr d) fp = Inr (FileResponse p)"
    and "d \<noteq> []" and "\<not> startswith fp ''/''" and "''..'' \<notin> set (split_slash fp)"
  shows "startswith p ''/'' = startswith d ''/''
         \<and> resolved_comps p = resolved_comps d @ filter plain_comp (split_slash fp)"
proof -
  have p: "p = path_join d fp" using assms(1) by (simp add: static_files_handler_file)
  show ?thesis
    using assms(2-4) unfolding p resolved_comps_def
    by (simp add: path_join_relative norm_comps_no_dotdot)
qed

theorem static_files_contained_witness:
  "startswith ''static/css/site.css'' ''/'' = startswith ''static'' ''/''
   \<and> resolved_comps ''static/css/site.css''
       = resolved_comps ''static'' @ filter plain_comp (split_slash ''css/site.css'')"
  by (rule static_files_contained [where fp = "''css/site.css''"])
     (simp_all add: static_files_handler_file path_join_def startswith_def)

text \<open>
  C8. Traversal: \<open>..\<close> components are not filtered, so from a relative folder whose
  resolved path has \<open>n\<close> components, the prefix \<open>../\<close> repeated \<open>n\<close> times reaches every
  relative path \<open>f\<close> of the working directory.
\<close>

theorem static_files_dotdot_escape:
  assumes "d \<noteq> []" and "\<not> startswith d ''/''" and "''..'' \<notin> set (split_slash d)"
    and "\<not> startswith f ''/''" and "''..'' \<notin> set (split_slash f)"
  shows "\<exists>p. static_files_handler True (PStr d)
                (concat (replicate (length (resolved_comps d)) ''../'') @ f) = Inr (FileResponse p)
             \<and> resolved_comps p = resolved_comps f"
proof -
  define n where "n = length (resolved_comps d)"
  define fp where "fp = concat (replicate n ''../'') @ f"
  have rel: "\<not> startswith fp ''/''"
    using assms(4) by (cases n) (auto simp: fp_def)
  have rd: "resolved_comps d = filter plain_comp (split_slash d)"
    using assms(2,3) by (simp add: resolved_comps_def norm_comps_no_dotdot)
  have "''..'' \<notin> set (resolved_comps d)" using rd assms(3) by (auto simp: plain_comp_def)
  moreover have "resolved_comps (path_join d fp)
      = norm_comps False (resolved_comps d) (replicate n ''..'' @ split_slash f)"
    using assms(1,2) rel
    by (simp add: resolved_comps_def path_join_relative fp_def split_slash_updirs)
  ultimately have "resolved_comps (path_join d fp) = resolved_comps f"
    using assms(4) by (simp add: norm_comps_pop n_def resolved_comps_def)
  then show ?thesis by (simp add: static_files_handler_file fp_def n_def)
qed

theorem static_files_dotdot_escape_witness:
  "\<exists>p. static_files_handler True (PStr ''static'')
         (concat (replicate (length (resolved_comps ''static'')) ''../'') @ ''secret.txt'')
         = Inr (FileResponse p)
       \<and> resolved_comps p = resolved_comps ''secret.txt''"
  by (rule static_files_dotdot_escape) (simp_all add: startswith_def)

text \<open>
  C24. The static folder: \<open>'static'\<close> when the server section has no \<open>templates\<close>
  key, and the \<open>static\<close> entry of the templates mapping (default \<open>'static'\<close>) when it
  has one.
\<close>

theorem static_folder_of_server:
  assumes "map_of cfg ''server'' = Some (PDict srv)"
  shows "(''templates'' \<notin> fst ` set srv \<longrightarrow> static_folder_of (PDict cfg) = Inr (PStr ''static''))
         \<and> (map_of srv ''templates'' = Some (PDict t)
            \<longrightarrow> static_folder_of (PDict cfg) = Inr (dict_get t ''static'' (PStr ''static'')))"
proof (intro conjI impI)
  assume "''templates'' \<notin> fst ` set srv"
  then show "static_folder_of (PDict cfg) = Inr (PStr ''static'')"
    using assms by (simp add: static_folder_of_def)
next
  assume t: "map_of srv ''templates'' = Some (PDict t)"
  then have "''templates'' \<in> fst ` set srv" by (force dest: map_of_SomeD)
  then show "static_folder_of (PDict cfg) = Inr (dict_get t ''static'' (PStr ''static''))"
    using assms t by (simp add: static_folder_of_def)
qed

theorem static_folder_of_server_witness:
  "static_folder_of (PDict [(''server'', PDict [(''url'', PStr ''x'')])]) = Inr (PStr ''static'')
   \<and> static_folder_of (PDict [(''server'', PDict [(''templates'', PDict [(''static'', PStr ''assets'')])])])
       = Inr (PStr ''assets'')"
proof -
  have "(''templates'' \<notin> fst ` set [(''url'', PStr ''x'')]
          \<longrightarrow> static_folder_of (PDict [(''server'', PDict [(''url'', PStr ''x'')])]) = Inr (PStr ''static''))
        \<and> (map_of [(''url'', PStr ''x'')] ''templates'' = Some (PDict [])
          \<longrightarrow> static_folder_of (PDict [(''server'', PDict [(''url'', PStr ''x'')])])
               = Inr (dict_get [] ''static'' (PStr ''static'')))"
    by (rule static_folder_of_server) simp
  moreover have "(''templates'' \<notin> fst ` set [(''templates'', PDict [(''static'', PStr ''assets'')])]
          \<longrightarrow> static_folder_of (PDict [(''server'', PDict [(''templates'', PDict [(''static'', PStr ''assets'')])])])
               = Inr (PStr ''static''))
        \<and> (map_of [(''templates'', PDict [(''static'', PStr ''assets'')])] ''templates''
             = Some (PDict [(''static'', PStr ''assets'')])
          \<longrightarrow> static_folder_of (PDict [(''server'', PDict [(''templates'', PDict [(''static'', PStr ''assets'')])])])
               = Inr (dict_get [(''static'', PStr ''assets'')] ''static'' (PStr ''static'')))"
    by (rule static_folder_of_server) simp
  ultimately show ?thesis by simp
qed

end
