(* ===== verification/AppInit.thy ===== *)
theory AppInit
  imports Routing StaticFiles
begin

text \<open>
  Module initialisation of \<open>src/pygeoapi/fasthtml_app.py\<close> (lines 37 to 123, and the
  route decorators of lines 203 to 247 that run at import time). The module body is a
  list of statements executed in order over the module's globals; a statement either
  updates them or raises, and the first exception ends the import. What the code only
  calls is a parameter of the environment: whether the optional packages import,
  \<open>get_config\<close> (which reads the environment), \<open>get_oas\<close>, the \<open>API\<close> constructor and
  \<open>get_api_rules\<close>. The process environment \<open>os.environ\<close> is part of the state,
  since \<open>load_dotenv\<close> changes it before \<open>get_config\<close> reads it.
\<close>

subsection \<open>Environment and state\<close>

datatype app_kind = FastHTMLApp | StarletteApp

text \<open>The keyword arguments of \<open>APP.add_middleware(CORSMiddleware, ...)\<close>.\<close>

record cors_config =
  allow_origins :: "string list"
  allow_credentials :: bool
  allow_methods :: "string list"
  allow_headers :: "string list"

definition app_cors :: cors_config where
  "app_cors = \<lparr>allow_origins = [''*''], allow_credentials = True, allow_methods = [''*''],
               allow_headers = [''*'']\<rparr>"

record ('api, 'rules) init_env =
  dotenv_installed :: bool
  dotenv_file :: "(string \<times> string) list"
  fasthtml_installed :: bool
  pygeoapi_installed :: bool
  fasthtml_names_defined :: bool
  get_config :: "(string \<times> string) list \<Rightarrow> pyval pyres"
  get_oas :: "pyval \<Rightarrow> pyval pyres"
  api_ctor :: "pyval \<Rightarrow> pyval \<Rightarrow> 'api pyres"
  get_api_rules :: "pyval \<Rightarrow> 'rules pyres"

text \<open>
  The module's globals (\<open>None\<close> while unbound; \<open>api_obj\<close> is \<open>api_\<close>), the process environment, what was
  printed and logged, the application object's route list and middleware, and the
  arguments of every call of the \<open>API\<close> constructor, in order.
\<close>

record ('api, 'rules) module_state =
  environ :: "(string \<times> string) list"
  stdout :: "string list"
  log_errors :: "string list"
  CONFIG :: "pyval option"
  OPENAPI :: "pyval option"
  api_obj :: "'api option"
  API_RULES :: "'rules option"
  APP :: "app_kind option"
  app_routes :: "endpoint route list"
  app_middleware :: "cors_config list"
  STATIC_FOLDER :: "pyval option"
  api_constructions :: "(pyval \<times> pyval) list"

definition initial_state :: "(string \<times> string) list \<Rightarrow> ('api, 'rules) module_state" where
  "initial_state env =
     \<lparr>environ = env, stdout = [], log_errors = [], CONFIG = None, OPENAPI = None, api_obj = None,
      API_RULES = None, APP = None, app_routes = [], app_middleware = [], STATIC_FOLDER = None,
      api_constructions = []\<rparr>"

text \<open>Reading a global: \<open>NameError\<close> while it is unbound.\<close>

definition name_error :: "string \<Rightarrow> exc" where
  "name_error n = py_error ''NameError'' (''name '' @ str_repr n @ '' is not defined'')"

definition system_exit :: "int \<Rightarrow> exc" where
  "system_exit code = PyExc ''SystemExit'' (int_repr code) False"

subsection \<open>The statements of the module body\<close>

datatype init_stmt =
    LoadDotenv
  | ImportFastHTML
  | ImportPygeoapi
  | LoadConfig
  | CreateAPI
  | LoadApiRules
  | CreateApp
  | AddCORS
  | SetStaticFolder
  | RebuildAPI
  | RegisterRoutes

type_synonym ('api, 'rules) step_result = "exc option \<times> ('api, 'rules) module_state"

text \<open>
  Lines 76 to 83: \<open>OPENAPI = get_oas(CONFIG); api_ = API(CONFIG, OPENAPI)\<close>; an
  \<open>Exception\<close> from either call is logged and \<open>api_ = API(CONFIG, {})\<close> is built
  instead, with \<open>OPENAPI\<close> bound only when \<open>get_oas\<close> returned.
\<close>

definition create_api ::
  "('api, 'rules) init_env \<Rightarrow> pyval \<Rightarrow> ('api, 'rules) module_state \<Rightarrow> ('api, 'rules) step_result" where
  "create_api E c s =
     (let fallback = (\<lambda>e s'.
          if \<not> exc_is_Exception e then (Some e, s')
          else
            (let s'' = s'\<lparr>log_errors := log_errors s' @ [''Failed to load OpenAPI document: '' @ exc_str e],
                          api_constructions := api_constructions s' @ [(c, PDict [])]\<rparr> in
             case api_ctor E c (PDict []) of
               Inl e' \<Rightarrow> (Some e', s'')
             | Inr a \<Rightarrow> (None, s''\<lparr>api_obj := Some a\<rparr>)))
      in case get_oas E c of
           Inl e \<Rightarrow> fallback e s
         | Inr oas \<Rightarrow>
             (let s' = s\<lparr>OPENAPI := Some oas, api_constructions := api_constructions s @ [(c, oas)]\<rparr> in
              case api_ctor E c oas of
                Inl e \<Rightarrow> fallback e s'
              | Inr a \<Rightarrow> (None, s'\<lparr>api_obj := Some a\<rparr>)))"

fun init_step ::
  "('api, 'rules) init_env \<Rightarrow> ('api, 'rules) module_state \<Rightarrow> init_stmt \<Rightarrow> ('api, 'rules) step_result" where
  "init_step E s LoadDotenv =
     (if dotenv_installed E
      then (None, s\<lparr>environ := load_dotenv (dotenv_file E) (environ s),
                    stdout := stdout s @ [''Loaded environment variables from .env file'']\<rparr>)
      else (None, s\<lparr>stdout := stdout s @ [''python-dotenv not installed. Using system environment variables only.'']\<rparr>))"
| "init_step E s ImportFastHTML =
     (if fasthtml_installed E then (None, s)
      else (Some (system_exit 1),
            s\<lparr>stdout := stdout s @ [''FastHTML not installed. Install with: pip install python-fasthtml'']\<rparr>))"
| "init_step E s ImportPygeoapi =
     (if pygeoapi_installed E then (None, s)
      else (Some (py_error ''ModuleNotFoundError'' (''No module named '' @ str_repr ''pygeoapi'')), s))"
| "init_step E s LoadConfig =
     (case get_config E (environ s) of
        Inl e \<Rightarrow> (Some e, s)
      | Inr c \<Rightarrow> (None, s\<lparr>CONFIG := Some c\<rparr>))"
| "init_step E s CreateAPI =
     (case CONFIG s of
        None \<Rightarrow> (Some (name_error ''CONFIG''), s)
      | Some c \<Rightarrow> create_api E c s)"
| "init_step E s LoadApiRules =
     (case CONFIG s of
        None \<Rightarrow> (Some (name_error ''CONFIG''), s)
      | Some c \<Rightarrow>
          (case get_api_rules E c of
             Inl e \<Rightarrow> (Some e, s)
           | Inr r \<Rightarrow> (None, s\<lparr>API_RULES := Some r\<rparr>)))"
| "init_step E s CreateApp =
     (None, s\<lparr>APP := Some (if fasthtml_names_defined E then FastHTMLApp else StarletteApp)\<rparr>)"
| "init_step E s AddCORS =
     (case APP s of
        None \<Rightarrow> (Some (name_error ''APP''), s)
      | Some _ \<Rightarrow> (None, s\<lparr>app_middleware := app_middleware s @ [app_cors]\<rparr>))"
| "init_step E s SetStaticFolder =
     (case CONFIG s of
        None \<Rightarrow> (Some (name_error ''CONFIG''), s)
      | Some c \<Rightarrow>
          (case static_folder_of c of
             Inl e \<Rightarrow> (Some e, s)
           | Inr f \<Rightarrow> (None, s\<lparr>STATIC_FOLDER := Some f\<rparr>)))"
| "init_step E s RebuildAPI =
     (case CONFIG s of
        None \<Rightarrow> (Some (name_error ''CONFIG''), s)
      | Some c \<Rightarrow>
          (case OPENAPI s of
             None \<Rightarrow> (Some (name_error ''OPENAPI''), s)
           | Some oas \<Rightarrow>
               (let s' = s\<lparr>api_constructions := api_constructions s @ [(c, oas)]\<rparr> in
                case api_ctor E c oas of
                  Inl e \<Rightarrow> (Some e, s')
                | Inr a \<Rightarrow> (None, s'\<lparr>api_obj := Some a\<rparr>))))"
| "init_step E s RegisterRoutes =
     (case APP s of
        None \<Rightarrow> (Some (name_error ''RT''), s)
      | Some _ \<Rightarrow>
          (case register_routes (app_routes s) route_decls of
             Inl e \<Rightarrow> (Some e, s)
           | Inr rs \<Rightarrow> (None, s\<lparr>app_routes := rs\<rparr>)))"

text \<open>The module body in the order of the file.\<close>

definition module_body :: "init_stmt list" where
  "module_body =
     [LoadDotenv, ImportFastHTML, ImportPygeoapi, LoadConfig, CreateAPI, LoadApiRules, CreateApp,
      AddCORS, SetStaticFolder, RebuildAPI, RegisterRoutes]"

fun run_init ::
  "('api, 'rules) init_env \<Rightarrow> ('api, 'rules) module_state \<Rightarrow> init_stmt list \<Rightarrow> ('api, 'rules) step_result" where
  "run_init E s [] = (None, s)"
| "run_init E s (c # cs) =
     (case init_step E s c of
        (None, s') \<Rightarrow> run_init E s' cs
      | (Some e, s') \<Rightarrow> (Some e, s'))"

definition import_module ::
  "('api, 'rules) init_env \<Rightarrow> (string \<times> string) list \<Rightarrow> ('api, 'rules) step_result" where
  "import_module E env = run_init E (initial_state env) module_body"

subsection \<open>Lemmas on the run\<close>


text \<open>A run in which every collaborator returns, for the witnesses.\<close>

abbreviation demo_env :: "(nat, nat) init_env" where
  "demo_env \<equiv>
     \<lparr>dotenv_installed = True, dotenv_file = [(''PYGEOAPI_CONFIG'', ''pygeoapi-config.yml'')],
      fasthtml_installed = True, pygeoapi_installed = True, fasthtml_names_defined = True,
      get_config = (\<lambda>env. Inr (PDict [(''server'', PDict [])])), get_oas = (\<lambda>c. Inr (PDict [])),
      api_ctor = (\<lambda>c d. Inr 1), get_api_rules = (\<lambda>c. Inr 0)\<rparr>"

lemmas import_simps = import_module_def module_body_def initial_state_def create_api_def Let_def register_app_routes

lemma init_step_environ:
  "map_of (environ s) k = Some v \<Longrightarrow> map_of (environ (snd (init_step E s c))) k = Some v"
  by (cases c) (auto simp: create_api_def Let_def load_dotenv_keeps split: sum.split option.split app_kind.split)

lemma run_init_environ:
  "map_of (environ s) k = Some v \<Longrightarrow> map_of (environ (snd (run_init E s cs))) k = Some v"
proof (induction cs arbitrary: s)
  case (Cons c cs)
  then show ?case
    using init_step_environ [OF Cons.prems, of E c]
    by (auto split: prod.split option.split)
qed simp

lemma import_success_middleware:
  "import_module E env = (None, s) \<Longrightarrow> app_middleware s = [app_cors]"
  by (auto simp: import_simps split: if_splits sum.splits option.splits app_kind.splits)

section \<open>Properties of the module initialisation\<close>

text \<open>
  C27. Environment variables already set are never changed by the import: \<open>load_dotenv\<close> does not override, and no other statement writes \<open>os.environ\<close>. The invariant holds after every statement of the run.
\<close>

theorem import_keeps_environ:
  "map_of env k = Some v \<Longrightarrow> map_of (environ (snd (import_module E env))) k = Some v"
  unfolding import_module_def by (rule run_init_environ) (simp add: initial_state_def)

theorem import_keeps_environ_witness:
  "map_of (environ (snd (import_module demo_env [(''PYGEOAPI_CONFIG'', ''/srv/config.yml'')])))
     ''PYGEOAPI_CONFIG'' = Some ''/srv/config.yml''"
  by (rule import_keeps_environ) simp

text \<open>
  C13. A successful import has bound \<open>OPENAPI\<close> from \<open>get_oas\<close> and built \<open>api_\<close> with it: the fallback of lines 80 to 83 never leads to a loaded module, because line 123 reads \<open>OPENAPI\<close> again (\<open>NameError\<close> when \<open>get_oas\<close> failed) and repeats the failed constructor call.
\<close>

theorem import_success_uses_openapi:
  assumes "import_module E env = (None, s)"
  shows "\<exists>c oas a. CONFIG s = Some c \<and> get_oas E c = Inr oas \<and> OPENAPI s = Some oas
           \<and> api_ctor E c oas = Inr a \<and> api_obj s = Some a"
  using assms
  by (auto simp: import_simps split: if_splits sum.splits option.splits app_kind.splits)

theorem import_success_uses_openapi_witness:
  "\<exists>s. import_module demo_env [] = (None, s)
     \<and> (\<exists>c oas a. CONFIG s = Some c \<and> get_oas demo_env c = Inr oas \<and> OPENAPI s = Some oas
           \<and> api_ctor demo_env c oas = Inr a \<and> api_obj s = Some a)"
proof -
  have "\<exists>s. import_module demo_env [] = (None, s)"
    by (simp add: import_simps static_folder_of_def)
  then obtain s where s: "import_module demo_env [] = (None, s)" by blast
  show ?thesis using s import_success_uses_openapi [OF s] by blast
qed

text \<open>
  C29. A successful import calls the \<open>API\<close> constructor twice with the same arguments (lines 79 and 123).
\<close>

theorem import_constructs_api_twice:
  assumes "import_module E env = (None, s)"
  shows "\<exists>c oas. api_constructions s = [(c, oas), (c, oas)]"
  using assms
  by (auto simp: import_simps split: if_splits sum.splits option.splits app_kind.splits)

theorem import_constructs_api_twice_witness:
  "\<exists>s. import_module demo_env [] = (None, s) \<and> (\<exists>c oas. api_constructions s = [(c, oas), (c, oas)])"
proof -
  have "\<exists>s. import_module demo_env [] = (None, s)"
    by (simp add: import_simps static_folder_of_def)
  then obtain s where s: "import_module demo_env [] = (None, s)" by blast
  show ?thesis using s import_constructs_api_twice [OF s] by blast
qed

text \<open>
  C15. When the packages import and every collaborator returns, the import succeeds, with the globals bound to the collaborators' results, the CORS middleware added once, and the module's route table registered (by \<open>fast_app\<close>'s decorator or by the fallback \<open>RT\<close>).
\<close>

theorem import_module_succeeds:
  assumes "fasthtml_installed E" and "pygeoapi_installed E"
    and "get_config E (if dotenv_installed E then load_dotenv (dotenv_file E) env else env) = Inr c"
    and "get_oas E c = Inr oas" and "api_ctor E c oas = Inr a" and "get_api_rules E c = Inr r"
    and "static_folder_of c = Inr f"
  shows "\<exists>s. import_module E env = (None, s) \<and> CONFIG s = Some c \<and> OPENAPI s = Some oas
           \<and> api_obj s = Some a \<and> API_RULES s = Some r \<and> STATIC_FOLDER s = Some f
           \<and> app_middleware s = [app_cors]
           \<and> APP s = Some (if fasthtml_names_defined E then FastHTMLApp else StarletteApp)
           \<and> register_routes [] route_decls = Inr (app_routes s)"
  using assms by (cases "dotenv_installed E") (simp_all add: import_simps register_app_routes)

theorem import_module_succeeds_witness:
  "\<exists>s. import_module demo_env [] = (None, s) \<and> CONFIG s = Some (PDict [(''server'', PDict [])])
     \<and> OPENAPI s = Some (PDict []) \<and> api_obj s = Some 1 \<and> API_RULES s = Some 0
     \<and> STATIC_FOLDER s = Some (PStr ''static'') \<and> app_middleware s = [app_cors]
     \<and> APP s = Some (if fasthtml_names_defined demo_env then FastHTMLApp else StarletteApp)
     \<and> register_routes [] route_decls = Inr (app_routes s)"
  by (rule import_module_succeeds) (simp_all add: static_folder_of_def)

text \<open>
  C26. Without FastHTML the import prints the installation hint and raises \<open>SystemExit(1)\<close>, which no \<open>except Exception\<close> clause catches.
\<close>

theorem import_without_fasthtml_exits:
  assumes "\<not> fasthtml_installed E"
  shows "fst (import_module E env) = Some (system_exit 1)
         \<and> \<not> exc_is_Exception (system_exit 1)
         \<and> last (stdout (snd (import_module E env)))
             = ''FastHTML not installed. Install with: pip install python-fasthtml''"
  using assms by (simp add: import_simps system_exit_def)

theorem import_without_fasthtml_exits_witness:
  "fst (import_module (demo_env\<lparr>fasthtml_installed := False\<rparr>) []) = Some (system_exit 1)
   \<and> \<not> exc_is_Exception (system_exit 1)
   \<and> last (stdout (snd (import_module (demo_env\<lparr>fasthtml_installed := False\<rparr>) [])))
       = ''FastHTML not installed. Install with: pip install python-fasthtml''"
  by (rule import_without_fasthtml_exits) simp

text \<open>
  C28. Line 40: after \<open>load_dotenv()\<close> a variable has its value from the process environment when set there, and from the \<open>.env\<close> file otherwise; \<open>get_config\<close> reads this environment.
\<close>

theorem import_environ_dotenv:
  assumes "dotenv_installed E" and "distinct (map fst (dotenv_file E))"
  shows "map_of (environ (snd (run_init E (initial_state env) [LoadDotenv]))) k
           = (case map_of env k of Some v \<Rightarrow> Some v | None \<Rightarrow> map_of (dotenv_file E) k)"
  using assms by (simp add: initial_state_def load_dotenv_lookup)

theorem import_environ_dotenv_witness:
  "map_of (environ (snd (run_init demo_env (initial_state [(''PYGEOAPI_HOME'', ''/srv'')]) [LoadDotenv])))
     ''PYGEOAPI_CONFIG''
   = (case map_of [(''PYGEOAPI_HOME'', ''/srv'')] ''PYGEOAPI_CONFIG'' of
        Some v \<Rightarrow> Some v | None \<Rightarrow> map_of (dotenv_file demo_env) ''PYGEOAPI_CONFIG'')"
  by (rule import_environ_dotenv) simp_all




end
