(* ===== verification/Serve.thy ===== *)
theory Serve
  imports AppInit
begin

text \<open>
  Serving one request once the module is loaded: the router of the application picks a
  route, the framework calls the route function, and an exception the function raises is
  turned into a response by Starlette's error middleware. The two application kinds of
  \<open>src/pygeoapi/fasthtml_app.py\<close> (lines 87 to 106) call the route functions differently:
  \<^item> FastHTML passes each path parameter to the parameter of the same name;
  \<^item> a Starlette \<open>Route\<close> registered by the fallback decorator \<open>RT\<close> calls
    \<open>func(request)\<close> with the request as the only argument.
  With FastHTML the table starts with FastHTML's own static-extension route
  (\<open>app_table\<close>), which takes the \<open>GET\<close> and \<open>HEAD\<close> requests for paths ending in
  a static file extension before any route of the module.
  The CORS middleware added at lines 109 to 115 sits between the error middleware and the
  router; it is the theory \<open>Cors\<close>. The Starlette parts (error middleware, 404, 405
  and redirect responses) are modelled from Starlette's documented behaviour. The lemmas
  say when a request reaches a module route through the application's table.
\<close>

datatype http_result = HttpResponse response | HttpFile string

subsection \<open>Starlette's responses for routing failures and errors\<close>

definition not_found_response :: response where
  "not_found_response = PlainTextResponse ''Not Found'' 404"

definition method_not_allowed_response :: "string list \<Rightarrow> response" where
  "method_not_allowed_response ms =
     Response ''Method Not Allowed'' 405 (Some [(''Allow'', py_join '', '' ms)]) (Some ''text/plain'')"

definition redirect_response :: "string \<Rightarrow> response" where
  "redirect_response url = Response [] 307 (Some [(''location'', url)]) None"

text \<open>
  \<open>ServerErrorMiddleware\<close> with \<open>debug=True\<close> answers an \<open>Exception\<close> escaping the
  application with status 500 and the traceback as plain text; the model keeps the
  traceback's last line, \<open>Type: message\<close>. Other exceptions propagate to the server.
\<close>

definition server_error_response :: "exc \<Rightarrow> response" where
  "server_error_response e = PlainTextResponse (exc_type e @ '': '' @ exc_str e) 500"

subsection \<open>Calling a route function\<close>

text \<open>
  \<open>static_files(request)\<close> in the fallback mode: the request object is bound to
  \<open>filepath\<close>, and \<open>os.path.join\<close> rejects it (a non-string folder is rejected first).
\<close>

definition static_files_on_request :: "bool \<Rightarrow> pyval \<Rightarrow> static_result pyres" where
  "static_files_on_request import_ok static_folder =
     (if \<not> import_ok then Inr (StaticResponse (Response ''Static files not available'' 404 None None))
      else case static_folder of
             PStr _ \<Rightarrow> Inl (type_error (''join() argument must be str, bytes, or os.PathLike object, not ''
                                         @ str_repr ''Request''))
           | v \<Rightarrow> Inl (type_error (''expected str, bytes or os.PathLike object, not '' @ py_type_name v)))"

definition static_result_http :: "static_result \<Rightarrow> http_result" where
  "static_result_http r = (case r of FileResponse p \<Rightarrow> HttpFile p | StaticResponse resp \<Rightarrow> HttpResponse resp)"

text \<open>
  The framework's call of the route function of endpoint \<open>ep\<close> with the path parameters
  the router extracted.
\<close>

definition invoke_endpoint ::
  "app_kind \<Rightarrow> ('req \<Rightarrow> 'loc \<Rightarrow> 'areq pyres) \<Rightarrow> ('api \<Rightarrow> 'loc)
   \<Rightarrow> (api_function \<Rightarrow> 'api \<Rightarrow> 'areq \<Rightarrow> string list \<Rightarrow> api_result pyres) \<Rightarrow> 'api
   \<Rightarrow> bool \<Rightarrow> pyval \<Rightarrow> endpoint \<Rightarrow> 'req \<Rightarrow> (string \<times> string) list \<Rightarrow> http_result pyres" where
  "invoke_endpoint kind from_starlette locales api_call api import_ok static_folder ep request params =
     (case endpoint_api ep of
        Some fn \<Rightarrow>
          (case call_api_endpoint from_starlette locales api_call api ep fn request
                  (if kind = FastHTMLApp then params else []) of
             Inl e \<Rightarrow> Inl e
           | Inr (resp, _) \<Rightarrow> Inr (HttpResponse resp))
      | None \<Rightarrow>
          (case (if kind = FastHTMLApp then
                   (case map_of params ''filepath'' of
                      Some fp \<Rightarrow> static_files_handler import_ok static_folder fp
                    | None \<Rightarrow> Inl (missing_args_error (endpoint_name ep) [''filepath'']))
                 else static_files_on_request import_ok static_folder) of
             Inl e \<Rightarrow> Inl e
           | Inr r \<Rightarrow> Inr (static_result_http r)))"

subsection \<open>Serving a request\<close>

text \<open>
  The route table of \<open>APP\<close>: FastHTML's \<open>fast_app\<close> (line 90) starts it with its
  static-extension route, a plain \<open>Starlette\<close> (line 99) with no route; the module's
  route decorators append theirs after it.
\<close>

definition app_table :: "app_kind \<Rightarrow> endpoint route list \<Rightarrow> app_endpoint route list" where
  "app_table kind routes =
     (if kind = FastHTMLApp then [fasthtml_static_route] else []) @ map (map_route ModuleRoute) routes"

text \<open>
  The application below the user middleware: Starlette's router over that table and its
  \<open>ExceptionMiddleware\<close>, which turns the router's 404 and 405 into responses. FastHTML
  calls its static handler \<open>get(fname, ext)\<close> with the parameters by name. An exception
  of the route function escapes as \<open>Inl\<close>.
\<close>

definition route_request ::
  "app_kind \<Rightarrow> endpoint route list \<Rightarrow> ('req \<Rightarrow> 'loc \<Rightarrow> 'areq pyres) \<Rightarrow> ('api \<Rightarrow> 'loc)
   \<Rightarrow> (api_function \<Rightarrow> 'api \<Rightarrow> 'areq \<Rightarrow> string list \<Rightarrow> api_result pyres) \<Rightarrow> 'api
   \<Rightarrow> bool \<Rightarrow> pyval \<Rightarrow> string \<Rightarrow> string \<Rightarrow> 'req \<Rightarrow> http_result pyres" where
  "route_request kind routes from_starlette locales api_call api import_ok static_folder method path request =
     (case router (app_table kind routes) method path of
        Dispatch (ModuleRoute ep) params \<Rightarrow>
          invoke_endpoint kind from_starlette locales api_call api import_ok static_folder ep request params
      | Dispatch FastHTMLStaticExt params \<Rightarrow>
          Inr (HttpFile (''./'' @ the (map_of params ''fname'') @ ''.'' @ the (map_of params ''ext'')))
      | MethodNotAllowed ms \<Rightarrow> Inr (HttpResponse (method_not_allowed_response ms))
      | Redirect p \<Rightarrow> Inr (HttpResponse (redirect_response p))
      | NotFound \<Rightarrow> Inr (HttpResponse not_found_response))"

text \<open>\<open>ServerErrorMiddleware\<close>, the outermost layer: an \<open>Exception\<close> becomes the 500 response.\<close>

definition server_errors :: "(response \<Rightarrow> 'a) \<Rightarrow> 'a pyres \<Rightarrow> 'a pyres" where
  "server_errors answer r =
     (case r of
        Inr x \<Rightarrow> Inr x
      | Inl e \<Rightarrow> if exc_is_Exception e then Inr (answer (server_error_response e)) else Inl e)"

definition serve ::
  "app_kind \<Rightarrow> endpoint route list \<Rightarrow> ('req \<Rightarrow> 'loc \<Rightarrow> 'areq pyres) \<Rightarrow> ('api \<Rightarrow> 'loc)
   \<Rightarrow> (api_function \<Rightarrow> 'api \<Rightarrow> 'areq \<Rightarrow> string list \<Rightarrow> api_result pyres) \<Rightarrow> 'api
   \<Rightarrow> bool \<Rightarrow> pyval \<Rightarrow> string \<Rightarrow> string \<Rightarrow> 'req \<Rightarrow> http_result pyres" where
  "serve kind routes from_starlette locales api_call api import_ok static_folder method path request =
     server_errors HttpResponse
       (route_request kind routes from_starlette locales api_call api import_ok static_folder
          method path request)"

subsection \<open>Lemmas on serving\<close>

lemma map_the_map_of:
  "distinct (map fst ps) \<Longrightarrow> map (\<lambda>n. the (map_of ps n)) (map fst ps) = map snd ps"
proof (induction ps)
  case (Cons kv ps)
  have "map (\<lambda>n. the (map_of (kv # ps) n)) (map fst ps) = map (\<lambda>n. the (map_of ps n)) (map fst ps)"
    using Cons.prems by (cases kv) auto
  with Cons show ?case by (cases kv) simp
qed simp

lemma route_spec_params:
  "route_spec p = Some (ep, ps) \<Longrightarrow> map fst ps = endpoint_params ep \<and> distinct (map fst ps)"
  by (auto simp: route_spec_def collection_spec_def static_spec_def Let_def split: if_splits)

lemma call_api_endpoint_all:
  "map fst ps = endpoint_params ep \<Longrightarrow> distinct (map fst ps) \<Longrightarrow>
   call_api_endpoint fs loc call api ep fn req ps = execute_from_fasthtml fs loc (call fn) api req (map snd ps)"
proof -
  assume k: "map fst ps = endpoint_params ep" and d: "distinct (map fst ps)"
  have "filter (\<lambda>n. map_of ps n = None) (endpoint_params ep) = []"
    unfolding k [symmetric] by (auto simp: filter_empty_conv dest: weak_map_of_SomeI)
  moreover have "map (\<lambda>n. the (map_of ps n)) (endpoint_params ep) = map snd ps"
    unfolding k [symmetric] using d by (rule map_the_map_of)
  ultimately show ?thesis by (simp add: call_api_endpoint_def)
qed

lemma call_api_endpoint_none:
  "endpoint_params ep \<noteq> [] \<Longrightarrow>
   call_api_endpoint fs loc call api ep fn req [] = Inl (missing_args_error (endpoint_name ep) (endpoint_params ep))"
  by (simp add: call_api_endpoint_def)

lemma app_table_module_dispatch:
  assumes "router rs m p = Dispatch ep ps"
    and "kind = FastHTMLApp \<Longrightarrow> route_matches fasthtml_static_route p = None \<or> m \<notin> set [''GET'', ''HEAD'']"
  shows "router (app_table kind rs) m p = Dispatch (ModuleRoute ep) ps"
  using assms by (cases kind) (auto simp: app_table_def router_Cons router_map_route fasthtml_static_route_def)

lemma app_table_static_dispatch:
  assumes "route_matches fasthtml_static_route p = Some ps" and "m \<in> set [''GET'', ''HEAD'']"
  shows "router (app_table FastHTMLApp rs) m p = Dispatch FastHTMLStaticExt ps"
  using assms by (simp add: app_table_def router_Cons fasthtml_static_route_def)

lemma serve_dispatch:
  "router rs m p = Dispatch ep ps \<Longrightarrow>
   (kind = FastHTMLApp \<Longrightarrow> route_matches fasthtml_static_route p = None \<or> m \<notin> set [''GET'', ''HEAD'']) \<Longrightarrow>
   serve kind rs fs loc call api ok folder m p req
     = (case invoke_endpoint kind fs loc call api ok folder ep req ps of
          Inr r \<Rightarrow> Inr r
        | Inl e \<Rightarrow> if exc_is_Exception e then Inr (HttpResponse (server_error_response e)) else Inl e)"
  by (simp add: serve_def route_request_def server_errors_def app_table_module_dispatch)

lemma app_router_dispatch:
  "register_routes [] route_decls = Inr rs \<Longrightarrow> route_spec p = Some (ep, ps) \<Longrightarrow>
   m \<in> set [''GET'', ''POST'', ''HEAD''] \<Longrightarrow> router rs m p = Dispatch ep ps"
  by (simp add: router_app_matched)


end
