(* ===== verification/Cors.thy ===== *)
theory Cors
  imports Serve "HOL-Library.AList" "HOL-Library.List_Lexorder" "HOL-Library.Char_ord"
begin

text \<open>
  The CORS middleware of \<open>src/pygeoapi/fasthtml_app.py\<close> (lines 108 to 115), between
  Starlette's \<open>ServerErrorMiddleware\<close> (outside) and the router (inside). The
  configuration is \<open>app_cors\<close> of \<open>AppInit\<close>; what \<open>CORSMiddleware\<close> does with it is
  modelled from Starlette: a request without \<open>Origin\<close> passes through; an
  \<open>OPTIONS\<close> request with \<open>Access-Control-Request-Method\<close> is a preflight and is
  answered by the middleware itself; any other request goes to the application and the
  middleware adds the simple CORS headers to its response. An exception of the
  application passes through the middleware untouched. Request header names are the
  lower-case names of the ASGI scope.
\<close>

subsection \<open>The middleware's state\<close>

text \<open>\<open>py_split\<close> is \<open>str.split(sep)\<close>; \<open>py_strip\<close> is \<open>str.strip()\<close> with the whitespace of the Latin-1 range.\<close>

fun py_split :: "char \<Rightarrow> string \<Rightarrow> string list" where
  "py_split d [] = [[]]"
| "py_split d (c # cs) =
     (if c = d then [] # py_split d cs
      else (case py_split d cs of w # ws \<Rightarrow> (c # w) # ws | [] \<Rightarrow> [[c]]))"

definition py_isspace :: "char \<Rightarrow> bool" where
  "py_isspace c \<longleftrightarrow>
     (let n = of_char c :: nat in (9 \<le> n \<and> n \<le> 13) \<or> (28 \<le> n \<and> n \<le> 32) \<or> n = 133 \<or> n = 160)"

definition py_strip :: "string \<Rightarrow> string" where
  "py_strip s = rev (dropWhile py_isspace (rev (dropWhile py_isspace s)))"

definition ALL_METHODS :: "string list" where
  "ALL_METHODS = [''DELETE'', ''GET'', ''HEAD'', ''OPTIONS'', ''PATCH'', ''POST'', ''PUT'']"

definition SAFELISTED_HEADERS :: "string list" where
  "SAFELISTED_HEADERS = [''Accept'', ''Accept-Language'', ''Content-Language'', ''Content-Type'']"

text \<open>The attributes \<open>CORSMiddleware.__init__\<close> sets (no origin regex, no exposed headers).\<close>

record cors_mw =
  mw_allow_origins :: "string list"
  mw_allow_methods :: "string list"
  mw_allow_headers :: "string list"
  mw_allow_all_origins :: bool
  mw_allow_all_headers :: bool
  mw_explicit_origin :: bool
  mw_simple_headers :: "(string \<times> string) list"
  mw_preflight_headers :: "(string \<times> string) list"

text \<open>
  \<open>CORSMiddleware.__init__\<close>: \<open>*\<close> among the methods means every method; the allowed
  headers are the sorted union with the safelisted ones, kept lower-cased; the preflight
  headers are a dict built in the order of the code (\<open>max_age\<close> is the default 600).
\<close>

definition cors_init :: "cors_config \<Rightarrow> cors_mw" where
  "cors_init cfg =
     (let methods = (if ''*'' \<in> set (allow_methods cfg) then ALL_METHODS else allow_methods cfg);
          all_origins = ''*'' \<in> set (allow_origins cfg);
          all_headers = ''*'' \<in> set (allow_headers cfg);
          explicit = (\<not> all_origins \<or> allow_credentials cfg);
          simple = (if all_origins then [(''Access-Control-Allow-Origin'', ''*'')] else [])
                   @ (if allow_credentials cfg then [(''Access-Control-Allow-Credentials'', ''true'')] else []);
          hdrs = sort (remdups (SAFELISTED_HEADERS @ allow_headers cfg));
          preflight = (if explicit then [(''Vary'', ''Origin'')] else [(''Access-Control-Allow-Origin'', ''*'')])
                      @ [(''Access-Control-Allow-Methods'', py_join '', '' methods),
                         (''Access-Control-Max-Age'', ''600'')]
                      @ (if hdrs \<noteq> [] \<and> \<not> all_headers
                         then [(''Access-Control-Allow-Headers'', py_join '', '' hdrs)] else [])
                      @ (if allow_credentials cfg then [(''Access-Control-Allow-Credentials'', ''true'')] else [])
      in \<lparr>mw_allow_origins = allow_origins cfg, mw_allow_methods = methods,
          mw_allow_headers = map py_lower hdrs, mw_allow_all_origins = all_origins,
          mw_allow_all_headers = all_headers, mw_explicit_origin = explicit,
          mw_simple_headers = simple, mw_preflight_headers = preflight\<rparr>)"

definition cors_allowed_origin :: "cors_mw \<Rightarrow> string \<Rightarrow> bool" where
  "cors_allowed_origin mw origin \<longleftrightarrow> mw_allow_all_origins mw \<or> origin \<in> set (mw_allow_origins mw)"

subsection \<open>Simple requests\<close>

text \<open>
  \<open>allow_explicit_origin\<close>: the origin is mirrored and \<open>Origin\<close> added to \<open>Vary\<close>
  (\<open>add_vary_header\<close> appends it to an existing value). The names are the lower-case
  keys \<open>MutableHeaders\<close> stores.
\<close>

definition allow_explicit_origin :: "string \<Rightarrow> (string \<times> string) list \<Rightarrow> (string \<times> string) list" where
  "allow_explicit_origin origin hs =
     (let hs' = headers_set ''access-control-allow-origin'' origin hs
      in headers_set ''vary''
           (case map_of hs' ''vary'' of None \<Rightarrow> ''Origin'' | Some ex \<Rightarrow> py_join '', '' [ex, ''Origin'']) hs')"

text \<open>
  \<open>CORSMiddleware.send\<close> on the response start: \<open>headers.update(self.simple_headers)\<close>,
  then the origin mirrored when every origin is allowed and the request carries a cookie,
  or when only some origins are allowed and this is one of them.
\<close>

definition cors_send :: "cors_mw \<Rightarrow> string \<Rightarrow> bool \<Rightarrow> (string \<times> string) list \<Rightarrow> (string \<times> string) list" where
  "cors_send mw origin has_cookie hs =
     (let hs1 = fold (\<lambda>(k, v). headers_set (py_lower k) v) (mw_simple_headers mw) hs
      in if mw_allow_all_origins mw \<and> has_cookie then allow_explicit_origin origin hs1
         else if \<not> mw_allow_all_origins mw \<and> cors_allowed_origin mw origin then allow_explicit_origin origin hs1
         else hs1)"

text \<open>The response sent to the client; a \<open>FileResponse\<close>'s headers are not modelled.\<close>

definition cors_simple_response :: "cors_mw \<Rightarrow> string \<Rightarrow> bool \<Rightarrow> http_result \<Rightarrow> http_result" where
  "cors_simple_response mw origin has_cookie r =
     (case r of
        HttpResponse resp \<Rightarrow> HttpResponse (resp\<lparr>raw_headers := cors_send mw origin has_cookie (raw_headers resp)\<rparr>)
      | HttpFile p \<Rightarrow> HttpFile p)"

subsection \<open>Preflight requests\<close>

text \<open>
  \<open>preflight_response\<close>: the requested origin, method and headers are checked in this
  order; the failures are listed in a 400 response, otherwise the answer is 200 \<open>OK\<close>.
  With every header allowed, the requested headers are mirrored back.
\<close>

definition cors_preflight_response :: "cors_mw \<Rightarrow> string \<Rightarrow> string \<Rightarrow> string option \<Rightarrow> response" where
  "cors_preflight_response mw origin req_method req_headers =
     (let h0 = mw_preflight_headers mw;
          (h1, f1) = (if cors_allowed_origin mw origin
                      then (if mw_explicit_origin mw
                            then AList.update ''Access-Control-Allow-Origin'' origin h0 else h0, [])
                      else (h0, [''origin'']));
          f2 = (if req_method \<in> set (mw_allow_methods mw) then [] else [''method'']);
          (h2, f3) = (case req_headers of
                        None \<Rightarrow> (h1, [])
                      | Some rh \<Rightarrow>
                          if mw_allow_all_headers mw
                          then (AList.update ''Access-Control-Allow-Headers'' rh h1, [])
                          else (h1, if (\<exists>h \<in> set (map py_lower (py_split CHR '','' rh)).
                                          py_strip h \<notin> set (mw_allow_headers mw))
                                    then [''headers''] else []));
          failures = f1 @ f2 @ f3
      in if failures \<noteq> []
         then Response (''Disallowed CORS '' @ py_join '', '' failures) 400 (Some h2) (Some ''text/plain'')
         else Response ''OK'' 200 (Some h2) (Some ''text/plain''))"

subsection \<open>The middleware and the assembled application\<close>

text \<open>
  \<open>CORSMiddleware.__call__\<close> around the inner application's outcome: a request without
  \<open>Origin\<close> passes through; \<open>OPTIONS\<close> with \<open>Access-Control-Request-Method\<close> is a
  preflight, answered without calling the application; otherwise the application's
  response gets the simple CORS headers, and its exception passes through. The request
  headers are the scope's lower-case pairs, looked up first match first.
\<close>

definition cors_layer ::
  "cors_mw \<Rightarrow> string \<Rightarrow> (string \<times> string) list \<Rightarrow> http_result pyres \<Rightarrow> http_result pyres" where
  "cors_layer mw method req_headers inner =
     (case map_of req_headers ''origin'' of
        None \<Rightarrow> inner
      | Some origin \<Rightarrow>
          if method = ''OPTIONS'' \<and> map_of req_headers ''access-control-request-method'' \<noteq> None
          then Inr (HttpResponse (cors_preflight_response mw origin
                      (the (map_of req_headers ''access-control-request-method''))
                      (map_of req_headers ''access-control-request-headers'')))
          else (case inner of
                  Inl e \<Rightarrow> Inl e
                | Inr r \<Rightarrow> Inr (cors_simple_response mw origin (''cookie'' \<in> fst ` set req_headers) r)))"

text \<open>
  The application the module builds: \<open>ServerErrorMiddleware\<close> around the CORS
  middleware added at lines 109 to 115, around the router with its exception middleware.
  The 500 answer to an exception is produced outside the CORS middleware.
\<close>

definition asgi_app ::
  "cors_config \<Rightarrow> app_kind \<Rightarrow> endpoint route list \<Rightarrow> ('req \<Rightarrow> 'loc \<Rightarrow> 'areq pyres) \<Rightarrow> ('api \<Rightarrow> 'loc)
   \<Rightarrow> (api_function \<Rightarrow> 'api \<Rightarrow> 'areq \<Rightarrow> string list \<Rightarrow> api_result pyres) \<Rightarrow> 'api
   \<Rightarrow> bool \<Rightarrow> pyval \<Rightarrow> string \<Rightarrow> string \<Rightarrow> (string \<times> string) list \<Rightarrow> 'req \<Rightarrow> http_result pyres" where
  "asgi_app cfg kind routes from_starlette locales api_call api import_ok static_folder
      method path req_headers request =
     server_errors HttpResponse
       (cors_layer (cors_init cfg) method req_headers
          (route_request kind routes from_starlette locales api_call api import_ok static_folder
             method path request))"

subsection \<open>Lemmas on the CORS middleware\<close>

lemma py_lower_cors_names [simp]:
  "py_lower ''Vary'' = ''vary''"
  "py_lower ''Access-Control-Allow-Origin'' = ''access-control-allow-origin''"
  "py_lower ''Access-Control-Allow-Credentials'' = ''access-control-allow-credentials''"
  "py_lower ''Access-Control-Allow-Methods'' = ''access-control-allow-methods''"
  "py_lower ''Access-Control-Allow-Headers'' = ''access-control-allow-headers''"
  "py_lower ''Access-Control-Max-Age'' = ''access-control-max-age''"
  "py_lower ''access-control-allow-origin'' = ''access-control-allow-origin''"
  "py_lower ''vary'' = ''vary''"
  by code_simp+

lemma cors_init_app_cors:
  "mw_allow_all_origins (cors_init app_cors)" "mw_explicit_origin (cors_init app_cors)"
  "mw_allow_all_headers (cors_init app_cors)" "mw_allow_methods (cors_init app_cors) = ALL_METHODS"
  "mw_simple_headers (cors_init app_cors)
     = [(''Access-Control-Allow-Origin'', ''*''), (''Access-Control-Allow-Credentials'', ''true'')]"
  "mw_preflight_headers (cors_init app_cors)
     = [(''Vary'', ''Origin''), (''Access-Control-Allow-Methods'', ''DELETE, GET, HEAD, OPTIONS, PATCH, POST, PUT''),
        (''Access-Control-Max-Age'', ''600''), (''Access-Control-Allow-Credentials'', ''true'')]"
  by (simp_all add: cors_init_def app_cors_def Let_def ALL_METHODS_def)

lemma cors_send_app_cors:
  "cors_send (cors_init app_cors) origin c hs
     = (let hs1 = headers_set ''access-control-allow-credentials'' ''true''
                    (headers_set ''access-control-allow-origin'' ''*'' hs)
        in if c then allow_explicit_origin origin hs1 else hs1)"
  by (cases c) (simp_all add: cors_send_def cors_init_app_cors)

lemma cors_preflight_app_cors:
  "cors_preflight_response (cors_init app_cors) origin m rh =
     (let h = mw_preflight_headers (cors_init app_cors) @ [(''Access-Control-Allow-Origin'', origin)]
              @ (case rh of None \<Rightarrow> [] | Some r \<Rightarrow> [(''Access-Control-Allow-Headers'', r)])
      in if m \<in> set ALL_METHODS then Response ''OK'' 200 (Some h) (Some ''text/plain'')
         else Response ''Disallowed CORS method'' 400 (Some h) (Some ''text/plain''))"
  by (simp add: cors_preflight_response_def cors_init_app_cors cors_allowed_origin_def Let_def
      split: option.split)

text \<open>
  C19. The module's CORS configuration approves the preflight of every origin for every
  standard method, whatever the path: the answer is 200, mirrors the origin and allows
  credentials, so any site may send credentialed cross-origin requests of any method.
\<close>

theorem cors_preflight_any_origin:
  assumes "map_of hs ''origin'' = Some origin" "map_of hs ''access-control-request-method'' = Some m"
    and "m \<in> set ALL_METHODS"
  shows "\<exists>r. asgi_app app_cors kind rs fs loc call api ok folder ''OPTIONS'' p hs req = Inr (HttpResponse r)
           \<and> status_code r = 200
           \<and> header_value r ''access-control-allow-origin'' = Some origin
           \<and> header_value r ''access-control-allow-credentials'' = Some ''true''"
  using assms
  by (simp add: asgi_app_def cors_layer_def server_errors_def cors_preflight_app_cors cors_init_app_cors
      header_value_def Response_def init_headers_def Let_def split: option.split)

theorem cors_preflight_any_origin_witness:
  "\<exists>r. asgi_app app_cors FastHTMLApp [] (\<lambda>(r::unit) (l::unit). Inr ()) (\<lambda>(a::unit). ())
          (\<lambda>f a r args. Inr ([], 200, PNone)) () True (PStr ''static'') ''OPTIONS'' ''/collections''
          [(''origin'', ''https://evil.example''), (''access-control-request-method'', ''DELETE'')] ()
        = Inr (HttpResponse r)
      \<and> status_code r = 200
      \<and> header_value r ''access-control-allow-origin'' = Some ''https://evil.example''
      \<and> header_value r ''access-control-allow-credentials'' = Some ''true''"
  by (rule cors_preflight_any_origin) (simp, simp, simp add: ALL_METHODS_def)

text \<open>
  An exception escaping the route function is answered 500 by the error middleware,
  outside the CORS middleware, so the answer carries no CORS header. This is Starlette's
  middleware order, whatever the CORS configuration.
\<close>

lemma cors_error_no_headers:
  assumes "route_request kind rs fs loc call api ok folder m p req = Inl e" "exc_is_Exception e"
    and "m \<noteq> ''OPTIONS''"
  shows "asgi_app cfg kind rs fs loc call api ok folder m p hs req = Inr (HttpResponse (server_error_response e))
         \<and> header_value (server_error_response e) ''access-control-allow-origin'' = None"
  using assms
  by (simp add: asgi_app_def cors_layer_def server_errors_def header_value_def server_error_response_def
      PlainTextResponse_def Response_def init_headers_def split: option.split)

end
