(* ===== verification/EnvCheck.thy ===== *)
theory EnvCheck
  imports PyValue
begin

text \<open>
  The environment check script \<open>src/test_env.py\<close>. It loads \<open>.env\<close> when python-dotenv
  is installed, reports each of the three required variables (and, for the two that name
  files, whether the file exists), tries to load the configuration when all of them are
  good, and finally tries two imports. Its output is a list of report lines, one
  constructor per \<open>print\<close> of the script (the emoji prefixes of the printed text are
  not modelled); what it only calls (the imports, \<open>get_config\<close>, \<open>os.path.exists\<close>)
  is a parameter. The process ends with status 0 unless an exception escapes, and the
  only \<open>except\<close> clauses catch \<open>ImportError\<close> or \<open>Exception\<close>.
\<close>

datatype report_line =
    DotenvLoaded
  | DotenvMissing
  | CheckHeader
  | Separator
  | VarSet string string
  | FileExists string
  | FileNotFound string
  | VarNotSet string
  | AllConfigured
  | ConfigImported
  | ConfigLoaded nat
  | ConfigFailed string
  | SomeMissing
  | FixHints
  | FixStep nat
  | ImportsHeader
  | ApiImported
  | ApiImportFailed string
  | UtilImported
  | UtilImportFailed string

record script_env =
  script_dotenv_installed :: bool
  script_dotenv_file :: "(string \<times> string) list"
  existing_paths :: "string list"
  config_import :: "unit pyres"
  config_sections :: "(string \<times> string) list \<Rightarrow> nat pyres"
  api_import :: "unit pyres"
  util_import :: "unit pyres"

definition required_vars :: "string list" where
  "required_vars = [''PYGEOAPI_CONFIG'', ''PYGEOAPI_OPENAPI'', ''PYGEOAPI_HOME'']"

definition file_vars :: "string list" where
  "file_vars = [''PYGEOAPI_CONFIG'', ''PYGEOAPI_OPENAPI'']"

text \<open>
  The loop of lines 30 to 44 with its accumulator \<open>all_good\<close>: \<open>os.environ.get(var)\<close>
  is \<open>None\<close> for an unset variable, and \<open>if value:\<close> treats the empty string as unset.
\<close>

fun check_vars ::
  "string list \<Rightarrow> (string \<times> string) list \<Rightarrow> string list \<Rightarrow> bool \<Rightarrow> report_line list
   \<Rightarrow> bool \<times> report_line list" where
  "check_vars exists env [] all_good out = (all_good, out)"
| "check_vars exists env (var # vs) all_good out =
     (case map_of env var of
        Some value \<Rightarrow>
          if value \<noteq> [] then
            (if var \<in> set file_vars then
               (if value \<in> set exists
                then check_vars exists env vs all_good (out @ [VarSet var value, FileExists value])
                else check_vars exists env vs False (out @ [VarSet var value, FileNotFound value]))
             else check_vars exists env vs all_good (out @ [VarSet var value]))
          else check_vars exists env vs False (out @ [VarNotSet var])
      | None \<Rightarrow> check_vars exists env vs False (out @ [VarNotSet var]))"

text \<open>
  \<open>try: ... except Exception as e:\<close> around a call: a raised \<open>Exception\<close> becomes the
  report of the handler, any other exception propagates.
\<close>

definition try_report :: "'a pyres \<Rightarrow> ('a \<Rightarrow> report_line) \<Rightarrow> (string \<Rightarrow> report_line) \<Rightarrow> report_line pyres" where
  "try_report r ok fail =
     (case r of
        Inr x \<Rightarrow> Inr (ok x)
      | Inl e \<Rightarrow> if exc_is_Exception e then Inr (fail (exc_str e)) else Inl e)"

text \<open>Lines 48 to 67: the configuration check when every variable is good.\<close>

definition config_check :: "script_env \<Rightarrow> (string \<times> string) list \<Rightarrow> bool \<Rightarrow> exc option \<times> report_line list" where
  "config_check S env all_good =
     (if all_good then
        (case config_import S of
           Inl e \<Rightarrow>
             if exc_is_Exception e then (None, [AllConfigured, ConfigFailed (exc_str e)])
             else (Some e, [AllConfigured])
         | Inr () \<Rightarrow>
             (case config_sections S env of
                Inl e \<Rightarrow>
                  if exc_is_Exception e
                  then (None, [AllConfigured, ConfigImported, ConfigFailed (exc_str e)])
                  else (Some e, [AllConfigured, ConfigImported])
              | Inr n \<Rightarrow> (None, [AllConfigured, ConfigImported, ConfigLoaded n])))
      else (None, [SomeMissing, FixHints, FixStep 1, FixStep 2, FixStep 3]))"

text \<open>Lines 12 to 18: the environment after the optional \<open>load_dotenv()\<close>.\<close>

definition script_environ :: "script_env \<Rightarrow> (string \<times> string) list \<Rightarrow> (string \<times> string) list" where
  "script_environ S penv =
     (if script_dotenv_installed S then load_dotenv (script_dotenv_file S) penv else penv)"

text \<open>The whole script: the final error (if one escaped) and the printed lines.\<close>

definition run_env_check :: "script_env \<Rightarrow> (string \<times> string) list \<Rightarrow> exc option \<times> report_line list" where
  "run_env_check S penv =
     (let env = script_environ S penv;
          out1 = [if script_dotenv_installed S then DotenvLoaded else DotenvMissing, CheckHeader, Separator];
          (all_good, out2) = check_vars (existing_paths S) env required_vars True out1;
          (err, cfg) = config_check S env all_good;
          out3 = out2 @ [Separator] @ cfg
      in case err of
           Some e \<Rightarrow> (Some e, out3)
         | None \<Rightarrow>
             (case try_report (api_import S) (\<lambda>_. ApiImported) ApiImportFailed of
                Inl e \<Rightarrow> (Some e, out3 @ [ImportsHeader])
              | Inr l1 \<Rightarrow>
                  (case try_report (util_import S) (\<lambda>_. UtilImported) UtilImportFailed of
                     Inl e \<Rightarrow> (Some e, out3 @ [ImportsHeader, l1])
                   | Inr l2 \<Rightarrow> (None, out3 @ [ImportsHeader, l1, l2]))))"

text \<open>The status the interpreter exits with: 0 after the last line, 1 after an uncaught exception.\<close>

definition exit_status :: "exc option \<Rightarrow> int" where
  "exit_status err = (case err of None \<Rightarrow> 0 | Some _ \<Rightarrow> 1)"

text \<open>
  What the script should establish of one required variable: it is set to a non-empty
  value and, for a file variable, that file exists.
\<close>

definition var_good :: "string list \<Rightarrow> (string \<times> string) list \<Rightarrow> string \<Rightarrow> bool" where
  "var_good exists env v =
     (case map_of env v of
        Some x \<Rightarrow> x \<noteq> [] \<and> (v \<in> set file_vars \<longrightarrow> x \<in> set exists)
      | None \<Rightarrow> False)"

text \<open>The lines the loop prints for one variable.\<close>

definition var_report :: "string list \<Rightarrow> (string \<times> string) list \<Rightarrow> string \<Rightarrow> report_line list" where
  "var_report exists env v =
     (case map_of env v of
        Some x \<Rightarrow>
          if x \<noteq> [] then VarSet v x # (if v \<in> set file_vars then [if x \<in> set exists then FileExists x else FileNotFound x] else [])
          else [VarNotSet v]
      | None \<Rightarrow> [VarNotSet v])"

definition import_lines :: "report_line set" where
  "import_lines = {ImportsHeader, ApiImported, UtilImported} \<union> range ApiImportFailed \<union> range UtilImportFailed"

text \<open>A run of the script for the witnesses: no \<open>.env\<close>, the configuration file present,
  the OpenAPI file missing and \<open>PYGEOAPI_HOME\<close> set to the empty string.\<close>

abbreviation demo_script :: script_env where
  "demo_script \<equiv>
     \<lparr>script_dotenv_installed = False, script_dotenv_file = [],
      existing_paths = [''/srv/pygeoapi-config.yml''], config_import = Inr (),
      config_sections = (\<lambda>env. Inr 5), api_import = Inr (), util_import = Inr ()\<rparr>"

abbreviation demo_environ :: "(string \<times> string) list" where
  "demo_environ \<equiv>
     [(''PYGEOAPI_CONFIG'', ''/srv/pygeoapi-config.yml''), (''PYGEOAPI_OPENAPI'', ''/srv/openapi.yml''),
      (''PYGEOAPI_HOME'', [])]"

subsection \<open>Lemmas on the script\<close>

lemma try_report_Inr: "try_report r f g = Inr l \<Longrightarrow> l \<in> range f \<union> range g"
  by (auto simp: try_report_def split: sum.splits if_splits)

lemma check_vars_all_good:
  "fst (check_vars ex env vs ok out) \<longleftrightarrow> ok \<and> (\<forall>v \<in> set vs. var_good ex env v)"
  by (induction ex env vs ok out rule: check_vars.induct)
     (auto simp: var_good_def split: option.split)

lemma check_vars_lines:
  "set (snd (check_vars ex env vs ok out)) = set out \<union> (\<Union>v \<in> set vs. set (var_report ex env v))"
  by (induction ex env vs ok out rule: check_vars.induct)
     (auto simp: var_report_def split: option.split)

lemma run_env_check_output:
  "\<exists>imp. snd (run_env_check S penv)
     = snd (check_vars (existing_paths S) (script_environ S penv) required_vars True
             [if script_dotenv_installed S then DotenvLoaded else DotenvMissing, CheckHeader, Separator])
       @ Separator # snd (config_check S (script_environ S penv)
             (fst (check_vars (existing_paths S) (script_environ S penv) required_vars True
                [if script_dotenv_installed S then DotenvLoaded else DotenvMissing, CheckHeader, Separator])))
       @ imp
     \<and> set imp \<subseteq> import_lines"
  by (auto simp: run_env_check_def Let_def import_lines_def split: prod.splits option.splits sum.splits
           dest!: try_report_Inr)

lemma run_env_check_lines:
  obtains imp where
    "set (snd (run_env_check S penv))
       = {if script_dotenv_installed S then DotenvLoaded else DotenvMissing, CheckHeader, Separator}
         \<union> (\<Union>v \<in> set required_vars. set (var_report (existing_paths S) (script_environ S penv) v))
         \<union> set (snd (config_check S (script_environ S penv)
               (\<forall>v \<in> set required_vars. var_good (existing_paths S) (script_environ S penv) v)))
         \<union> set imp"
    and "set imp \<subseteq> import_lines"
proof -
  obtain imp where o: "snd (run_env_check S penv)
     = snd (check_vars (existing_paths S) (script_environ S penv) required_vars True
             [if script_dotenv_installed S then DotenvLoaded else DotenvMissing, CheckHeader, Separator])
       @ Separator # snd (config_check S (script_environ S penv)
             (fst (check_vars (existing_paths S) (script_environ S penv) required_vars True
                [if script_dotenv_installed S then DotenvLoaded else DotenvMissing, CheckHeader, Separator])))
       @ imp" and i: "set imp \<subseteq> import_lines"
    using run_env_check_output [of S penv] by blast
  show thesis by (rule that [OF _ i]) (auto simp: o check_vars_lines check_vars_all_good)
qed

lemma config_check_lines:
  "AllConfigured \<in> set (snd (config_check S env g)) \<longleftrightarrow> g"
  by (auto simp: config_check_def split: sum.split unit.split)

lemma report_lines_not_config:
  "AllConfigured \<notin> set (var_report ex env v)" "AllConfigured \<notin> import_lines"
  by (auto simp: var_report_def import_lines_def split: option.split)

lemma var_lines_not_config:
  "VarSet v x \<notin> set (snd (config_check S env g))" "VarNotSet v \<notin> set (snd (config_check S env g))"
  "FileExists x \<notin> set (snd (config_check S env g))" "FileNotFound x \<notin> set (snd (config_check S env g))"
  "VarSet v x \<notin> import_lines" "VarNotSet v \<notin> import_lines"
  "FileExists x \<notin> import_lines" "FileNotFound x \<notin> import_lines"
  by (auto simp: config_check_def import_lines_def split: sum.split unit.split)

lemma var_report_mem:
  "VarNotSet v \<in> set (var_report ex env u) \<longleftrightarrow> u = v \<and> (map_of env v = None \<or> map_of env v = Some [])"
  "VarSet v x \<in> set (var_report ex env u) \<longleftrightarrow> u = v \<and> map_of env v = Some x \<and> x \<noteq> []"
  "FileExists x \<in> set (var_report ex env u)
     \<longleftrightarrow> u \<in> set file_vars \<and> map_of env u = Some x \<and> x \<noteq> [] \<and> x \<in> set ex"
  "FileNotFound x \<in> set (var_report ex env u)
     \<longleftrightarrow> u \<in> set file_vars \<and> map_of env u = Some x \<and> x \<noteq> [] \<and> x \<notin> set ex"
  by (auto simp: var_report_def split: option.splits)

section \<open>Properties of the environment check\<close>

text \<open>
  C30. The configuration is loaded (and \<open>All environment variables are properly
  configured!\<close> printed) exactly when every required variable is set to a non-empty value
  and both file variables name existing files.
\<close>

theorem env_check_config_iff:
  "AllConfigured \<in> set (snd (run_env_check S penv))
   \<longleftrightarrow> (\<forall>v \<in> set required_vars. var_good (existing_paths S) (script_environ S penv) v)"
proof -
  obtain imp where l: "set (snd (run_env_check S penv))
       = {if script_dotenv_installed S then DotenvLoaded else DotenvMissing, CheckHeader, Separator}
         \<union> (\<Union>v \<in> set required_vars. set (var_report (existing_paths S) (script_environ S penv) v))
         \<union> set (snd (config_check S (script_environ S penv)
               (\<forall>v \<in> set required_vars. var_good (existing_paths S) (script_environ S penv) v)))
         \<union> set imp" and i: "set imp \<subseteq> import_lines"
    by (rule run_env_check_lines)
  have "AllConfigured \<notin> set imp" using i report_lines_not_config(2) by blast
  then show ?thesis using l report_lines_not_config(1) config_check_lines by auto
qed

theorem env_check_config_iff_witness:
  "\<not> (\<forall>v \<in> set required_vars. var_good (existing_paths demo_script) (script_environ demo_script demo_environ) v)
   \<and> AllConfigured \<notin> set (snd (run_env_check demo_script demo_environ))"
proof -
  have "AllConfigured \<in> set (snd (run_env_check demo_script demo_environ))
     \<longleftrightarrow> (\<forall>v \<in> set required_vars. var_good (existing_paths demo_script) (script_environ demo_script demo_environ) v)"
    by (rule env_check_config_iff)
  moreover have "\<not> (\<forall>v \<in> set required_vars.
      var_good (existing_paths demo_script) (script_environ demo_script demo_environ) v)"
    by (simp add: required_vars_def file_vars_def var_good_def script_environ_def)
  ultimately show ?thesis by simp
qed

text \<open>
  C16. Each required variable is reported: as set with its value when it has a non-empty
  value, as not set otherwise (also when it is set to the empty string); for a file
  variable with a value, the file is reported as existing exactly when it exists.
\<close>

theorem env_check_reports:
  fixes S :: script_env and penv :: "(string \<times> string) list"
  assumes v: "v \<in> set required_vars"
  defines "out \<equiv> set (snd (run_env_check S penv))" and "env \<equiv> script_environ S penv"
  shows "(VarNotSet v \<in> out \<longleftrightarrow> map_of env v = None \<or> map_of env v = Some [])
         \<and> (\<forall>x. VarSet v x \<in> out \<longleftrightarrow> map_of env v = Some x \<and> x \<noteq> [])
         \<and> (\<forall>x. v \<in> set file_vars \<longrightarrow> map_of env v = Some x \<longrightarrow> x \<noteq> [] \<longrightarrow>
              (FileExists x \<in> out \<longleftrightarrow> x \<in> set (existing_paths S))
              \<and> (FileNotFound x \<in> out \<longleftrightarrow> x \<notin> set (existing_paths S)))"
proof -
  obtain imp where l: "out
       = {if script_dotenv_installed S then DotenvLoaded else DotenvMissing, CheckHeader, Separator}
         \<union> (\<Union>v \<in> set required_vars. set (var_report (existing_paths S) env v))
         \<union> set (snd (config_check S env
               (\<forall>v \<in> set required_vars. var_good (existing_paths S) env v)))
         \<union> set imp" and i: "set imp \<subseteq> import_lines"
    unfolding out_def env_def by (rule run_env_check_lines)
  have ni: "VarSet v x \<notin> set imp" "VarNotSet v \<notin> set imp" "FileExists x \<notin> set imp"
      "FileNotFound x \<notin> set imp" for v x
    using i var_lines_not_config(5-8) by blast+
  note mem = l ni var_lines_not_config(1-4) var_report_mem
  have "VarNotSet v \<in> out \<longleftrightarrow> map_of env v = None \<or> map_of env v = Some []"
    using v by (simp add: mem)
  moreover have "VarSet v x \<in> out \<longleftrightarrow> map_of env v = Some x \<and> x \<noteq> []" for x
    using v by (simp add: mem)
  moreover have "FileExists x \<in> out \<longleftrightarrow> x \<in> set (existing_paths S)"
    if "v \<in> set file_vars" "map_of env v = Some x" "x \<noteq> []" for x
    using v that by (auto simp: mem)
  moreover have "FileNotFound x \<in> out \<longleftrightarrow> x \<notin> set (existing_paths S)"
    if "v \<in> set file_vars" "map_of env v = Some x" "x \<noteq> []" for x
    using v that by (auto simp: mem)
  ultimately show ?thesis by blast
qed

theorem env_check_reports_witness:
  "VarNotSet ''PYGEOAPI_HOME'' \<in> set (snd (run_env_check demo_script demo_environ))
   \<and> FileNotFound ''/srv/openapi.yml'' \<in> set (snd (run_env_check demo_script demo_environ))"
proof -
  have e: "script_environ demo_script demo_environ = demo_environ" by (simp add: script_environ_def)
  have "VarNotSet ''PYGEOAPI_HOME'' \<in> set (snd (run_env_check demo_script demo_environ))"
    using env_check_reports [where v = "''PYGEOAPI_HOME''" and S = demo_script and penv = demo_environ]
    by (simp add: required_vars_def e)
  moreover have "FileNotFound ''/srv/openapi.yml'' \<in> set (snd (run_env_check demo_script demo_environ))"
    using env_check_reports [where v = "''PYGEOAPI_OPENAPI''" and S = demo_script and penv = demo_environ]
    by (simp add: required_vars_def file_vars_def e)
  ultimately show ?thesis by simp
qed

text \<open>
  C17. The script exits with status 0 whatever the environment, missing variables and
  missing files included, as long as its collaborators raise only \<open>Exception\<close>s: the
  exit status does not tell a good environment from a bad one.
\<close>

theorem env_check_exit_zero:
  assumes "\<forall>e. config_import S = Inl e \<longrightarrow> exc_is_Exception e"
    and "\<forall>e. config_sections S (script_environ S penv) = Inl e \<longrightarrow> exc_is_Exception e"
    and "\<forall>e. api_import S = Inl e \<longrightarrow> exc_is_Exception e"
    and "\<forall>e. util_import S = Inl e \<longrightarrow> exc_is_Exception e"
  shows "exit_status (fst (run_env_check S penv)) = 0"
  using assms
  by (auto simp: run_env_check_def Let_def config_check_def try_report_def exit_status_def
           split: prod.split option.split sum.split unit.split if_splits)

theorem env_check_exit_zero_witness:
  "exit_status (fst (run_env_check demo_script demo_environ)) = 0
   \<and> SomeMissing \<in> set (snd (run_env_check demo_script demo_environ))"
proof -
  have "exit_status (fst (run_env_check demo_script demo_environ)) = 0"
    by (rule env_check_exit_zero) simp_all
  moreover have "SomeMissing \<in> set (snd (run_env_check demo_script demo_environ))"
    by (simp add: run_env_check_def script_environ_def required_vars_def file_vars_def config_check_def
                  try_report_def)
  ultimately show ?thesis by simp
qed

end
