(* ===== verification/UrlPaths.thy ===== *)
theory UrlPaths
  imports Routing
begin

text \<open>
  Reversing the route table: Starlette's \<open>url_path_for\<close>, which builds the path of a
  named route from its parameters (the way FastHTML's \<open>uri\<close> and Starlette's
  \<open>url_for\<close> link to a route).
\<close>

subsection \<open>Path formats and \<open>str.replace\<close>\<close>

text \<open>The \<open>path_format\<close> of \<open>compile_path\<close>: each parameter written \<open>{name}\<close>.\<close>

fun seg_format :: "pseg \<Rightarrow> string" where
  "seg_format (SLit c) = [c]"
| "seg_format (SParam n cv) = ''{'' @ n @ ''}''"

definition path_format :: "string \<Rightarrow> string" where
  "path_format path = concat (map seg_format (path_segments path))"

text \<open>
  \<open>str.replace(old, new)\<close>: the non-overlapping occurrences of \<open>old\<close>, left to right;
  an empty \<open>old\<close> matches before every character and at the end.
\<close>

function py_replace :: "string \<Rightarrow> string \<Rightarrow> string \<Rightarrow> string" where
  "py_replace old new [] = (if old = [] then new else [])"
| "py_replace old new (c # cs) =
     (if old = [] then new @ c # py_replace old new cs
      else if startswith (c # cs) old then new @ py_replace old new (drop (length old) (c # cs))
      else c # py_replace old new cs)"
  by pat_completeness auto
termination
  by (relation "measure (\<lambda>(_, _, s). length s)") auto

subsection \<open>\<open>url_path_for\<close>\<close>

text \<open>
  The convertors' \<open>to_string\<close>: \<open>str\<close> rejects a slash and the empty string;
  \<open>path\<close> and \<open>uuid\<close> return the string. (\<open>int\<close> and \<open>float\<close> parse their value;
  the module declares no parameter of either.)
\<close>

definition conv_to_string :: "string \<Rightarrow> string \<Rightarrow> string pyres" where
  "conv_to_string cv v =
     (if cv = ''str'' then
        (if CHR ''/'' \<in> set v then Inl (py_error ''AssertionError'' ''May not contain path separators'')
         else if v = [] then Inl (py_error ''AssertionError'' ''Must not be empty'')
         else Inr v)
      else Inr v)"

text \<open>
  \<open>replace_params\<close>: for each parameter, in the order given, whose \<open>{name}\<close> still
  occurs in the path, the converted value replaces every occurrence and the parameter is
  consumed; the others are returned.
\<close>

fun replace_params ::
  "string \<Rightarrow> (string \<times> string) list \<Rightarrow> (string \<times> string) list \<Rightarrow> (string \<times> (string \<times> string) list) pyres" where
  "replace_params path convs [] = Inr (path, [])"
| "replace_params path convs ((k, v) # ps) =
     (if py_substr (''{'' @ k @ ''}'') path then
        (case map_of convs k of
           None \<Rightarrow> Inl (py_error ''KeyError'' (str_repr k))
         | Some cv \<Rightarrow>
             (case conv_to_string cv v of
                Inl e \<Rightarrow> Inl e
              | Inr s \<Rightarrow> replace_params (py_replace (''{'' @ k @ ''}'') s path) convs ps))
      else (case replace_params path convs ps of
              Inl e \<Rightarrow> Inl e
            | Inr (p, rest) \<Rightarrow> Inr (p, (k, v) # rest)))"

definition no_match_found :: "string \<Rightarrow> (string \<times> string) list \<Rightarrow> exc" where
  "no_match_found name ps =
     py_error ''NoMatchFound'' (''No route exists for name '' @ [CHR 0x22] @ name @ [CHR 0x22]
       @ '' and params '' @ [CHR 0x22] @ py_join '', '' (map fst ps) @ [CHR 0x22] @ ''.'')"

text \<open>
  \<open>Route.url_path_for\<close>: the route's name (its function's name) and the set of
  parameter names must match, then the path format is filled in.
\<close>

definition route_url_path_for :: "endpoint route \<Rightarrow> string \<Rightarrow> (string \<times> string) list \<Rightarrow> string pyres" where
  "route_url_path_for r name ps =
     (let convs = seg_params (path_segments (route_path r)) in
      if name \<noteq> endpoint_name (route_endpoint r) \<or> set (map fst ps) \<noteq> set (map fst convs)
      then Inl (no_match_found name ps)
      else case replace_params (path_format (route_path r)) convs ps of
             Inl e \<Rightarrow> Inl e
           | Inr (p, rest) \<Rightarrow> if rest = [] then Inr p else Inl (py_error ''AssertionError'' []))"

text \<open>\<open>Router.url_path_for\<close>: the first route that does not raise \<open>NoMatchFound\<close>.\<close>

fun router_url_path_for :: "endpoint route list \<Rightarrow> string \<Rightarrow> (string \<times> string) list \<Rightarrow> string pyres" where
  "router_url_path_for [] name ps = Inl (no_match_found name ps)"
| "router_url_path_for (r # rs) name ps =
     (case route_url_path_for r name ps of
        Inr p \<Rightarrow> Inr p
      | Inl e \<Rightarrow> if exc_type e = ''NoMatchFound'' then router_url_path_for rs name ps else Inl e)"

subsection \<open>Lemmas on reversing routes\<close>



lemma route_formats:
  "path_format ''/'' = ''/''" "seg_params (path_segments ''/'') = []"
  "path_format ''/openapi'' = ''/openapi''" "seg_params (path_segments ''/openapi'') = []"
  "path_format ''/conformance'' = ''/conformance''" "seg_params (path_segments ''/conformance'') = []"
  "path_format ''/collections'' = ''/collections''" "seg_params (path_segments ''/collections'') = []"
  "path_format ''/collections/{collection_id}'' = ''/collections/{collection_id}''"
  "seg_params (path_segments ''/collections/{collection_id}'') = [(''collection_id'', ''str'')]"
  "path_format ''/collections/{collection_id}/items'' = ''/collections/{collection_id}/items''"
  "seg_params (path_segments ''/collections/{collection_id}/items'') = [(''collection_id'', ''str'')]"
  "path_format ''/collections/{collection_id}/items/{item_id}'' = ''/collections/{collection_id}/items/{item_id}''"
  "seg_params (path_segments ''/collections/{collection_id}/items/{item_id}'')
     = [(''collection_id'', ''str''), (''item_id'', ''str'')]"
  "path_format ''/static/{filepath:path}'' = ''/static/{filepath}''"
  "seg_params (path_segments ''/static/{filepath:path}'') = [(''filepath'', ''path'')]"
  by code_simp+






text \<open>
  A value that contains the \<open>{name}\<close> of a later parameter is itself replaced:
  \<open>replace_params\<close> substitutes into the path it has already filled in.
\<close>

lemma url_path_for_brace_value:
  assumes rs: "register_routes [] route_decls = Inr rs"
  shows "router_url_path_for rs ''collection_item_by_id'' [(''collection_id'', ''{item_id}''), (''item_id'', ''7'')]
           = Inr ''/collections/7/items/7''"
  unfolding app_routes_eq [OF rs]
  by (simp add: route_url_path_for_def app_route_def route_formats conv_to_string_def startswith_def
      no_match_found_def del: path_segments.simps)



end
