(* ===== verification/Spec2Isabelle.thy ===== *)
theory Spec2Isabelle
  imports Cors EnvCheck UrlPaths
begin

text \<open>
  \<^bold>\<open>A verified model of pygeoapi's FastHTML adapter and environment check.\<close>

  The repository has two programs. \<open>src/pygeoapi/fasthtml_app.py\<close> binds the routes of
  the pygeoapi API library to HTTP. On import it loads \<open>.env\<close>, builds the
  configuration, the OpenAPI document and the \<open>API\<close> object, creates a FastHTML
  application (or a plain Starlette one when FastHTML's names are missing), adds CORS,
  and registers eight routes. Each route adapts the request, calls one API function
  (\<open>execute_from_fasthtml\<close>) and converts the \<open>(headers, status, content)\<close> triple
  into a response (\<open>get_response\<close>). The \<open>static_files\<close> route serves files from
  \<open>STATIC_FOLDER\<close>. \<open>src/test_env.py\<close> checks three environment variables and
  prints a report. The pygeoapi library, FastHTML and Starlette are called, never defined
  here. They enter the model as function parameters (\<open>from_starlette\<close>, the API
  functions, \<open>get_config\<close>, \<open>get_oas\<close>, the \<open>API\<close> constructor). Where their
  behaviour matters (Starlette's responses, routing and middleware; \<open>posixpath\<close>;
  \<open>json.dumps\<close>; python-dotenv) it is modelled from their documentation.

  \<^bold>\<open>Theories, by component.\<close>
  \<^item> \<open>Prelude\<close>: Python exceptions as values (\<open>exc\<close>, with whether the class derives
    from \<open>Exception\<close>) and the result type \<open>'a pyres = exc + 'a\<close>; string operations;
    \<open>load_dotenv\<close> on the environment as an association list; the first-match search
    of the regex matcher; dict lookups. Shared list and map lemmas.
  \<^item> \<open>PyValue\<close>: Python values (\<open>pyval\<close>), \<open>str\<close>/\<open>repr\<close>, the built-ins the
    code applies to the configuration (\<open>in\<close>, subscript, \<open>.get\<close>), and
    \<open>json.dumps\<close> with the separators and \<open>ensure_ascii\<close> of \<open>to_json\<close> and of
    Starlette's \<open>JSONResponse\<close>.
  \<^item> \<open>Responses\<close>: Starlette's \<open>Response\<close> (status, media type, body and the header
    list of \<open>init_headers\<close>) and \<open>get_response\<close> (lines 125 to 170) with its four
    branches.
  \<^item> \<open>Dispatch\<close>: \<open>execute_from_fasthtml\<close> (lines 172 to 201) and the route functions
    of lines 203 to 237. For each route, \<open>endpoint_api\<close> and \<open>endpoint_params\<close> give
    the API function it calls and its path parameters.
  \<^item> \<open>Routing\<close>: the fallback decorator \<open>RT\<close> (lines 102 to 106), the route table
    the decorators register, Starlette's \<open>compile_path\<close> and regex match (greedy with
    backtracking, \<open>$\<close> also before a final newline), and the router (dispatch, 405,
    trailing-slash redirect, 404). An abstract \<open>route_spec\<close> states which endpoint each
    path reaches, with which parameters. Routes are parameterised by their handler: the
    module's route functions (\<open>endpoint\<close>), or, for the application's table, also
    FastHTML's static-extension route (\<open>app_endpoint\<close>, \<open>fasthtml_static_route\<close>).
  \<^item> \<open>StaticFiles\<close>: \<open>static_files\<close> (lines 239 to 247) over \<open>posixpath.join\<close>,
    \<open>STATIC_FOLDER\<close> from the configuration (lines 117 to 120), and
    \<open>posixpath.normpath\<close> as the lexical resolution of the served path.
  \<^item> \<open>AppInit\<close>: the module body (lines 37 to 123, and route registration at import)
    as a list of statements \<open>init_stmt\<close>. \<open>init_step\<close> runs one statement over the
    module state \<open>module_state\<close>: the globals (\<open>None\<close> while unbound), \<open>os.environ\<close>,
    stdout, the error log, and the trace of \<open>API(...)\<close> calls. \<open>run_init\<close> stops at
    the first exception, which is the failure of the import.
  \<^item> \<open>Serve\<close>: one request through the loaded application. The router picks a route;
    the framework calls the route function (\<open>invoke_endpoint\<close>): FastHTML passes the
    path parameters by name, while a fallback Starlette \<open>Route\<close> passes only the
    request. \<open>app_table\<close> is the application's whole route table: with FastHTML,
    \<open>fast_app\<close> (line 90) has registered \<open>GET /{fname:path}.{ext:static}\<close> before the
    module's routes, and it serves \<open>./fname.ext\<close>; the fallback \<open>Starlette\<close> starts
    empty. \<open>route_request\<close> is the router over that table with Starlette's 404, 405 and redirect
    answers; \<open>server_errors\<close> is \<open>ServerErrorMiddleware\<close>, which answers exceptions;
    \<open>serve\<close> composes the two for a request without CORS.
  \<^item> \<open>Cors\<close>: Starlette's \<open>CORSMiddleware\<close> as the module configures it (lines 108 to
    115). \<open>cors_init\<close> is \<open>__init__\<close> (its attributes are the record \<open>cors_mw\<close>);
    \<open>cors_preflight_response\<close> answers preflights; \<open>cors_send\<close> sets the simple headers
    on a response through \<open>headers_set\<close> (\<open>MutableHeaders.__setitem__\<close>);
    \<open>cors_layer\<close> is \<open>__call__\<close>. \<open>asgi_app\<close> is the whole stack: error middleware,
    CORS, router.
  \<^item> \<open>UrlPaths\<close>: the route table read backwards. \<open>router_url_path_for\<close> is
    Starlette's \<open>url_path_for\<close> (route name and parameter names checked, then
    \<open>replace_params\<close> fills the \<open>path_format\<close> of \<open>compile_path\<close> through
    \<open>str.replace\<close>, here \<open>py_replace\<close>).
  \<^item> \<open>EnvCheck\<close>: \<open>src/test_env.py\<close> as a whole. The \<open>all_good\<close> loop is
    \<open>check_vars\<close>, the configuration check is \<open>config_check\<close>, and \<open>run_env_check\<close>
    gives the report lines and the escaped exception, with the exit status from
    \<open>exit_status\<close>.

  \<^bold>\<open>What is proved.\<close>
  \<^item> Responses: the content type \<open>get_response\<close> sends on each branch, with status and
    content-length; a dict under \<open>application/json\<close> is encoded twice and arrives as a
    JSON string literal.
  \<^item> Dispatch: every \<open>Exception\<close> becomes the 500 JSON error response and is logged,
    other exceptions propagate, and success returns \<open>get_response\<close> of the API's triple.
  \<^item> Routing: the compiled table refines \<open>route_spec\<close>; no path matches two routes;
    the router's 405/redirect/404 behaviour is given. As lemmas: dispatch does not depend
    on registration order, and relabelling handlers commutes with the router.
  \<^item> Static files: an absolute \<open>filepath\<close> or enough \<open>..\<close> components escape the
    static folder, while a relative path without \<open>..\<close> stays under it. Also proved:
    \<open>normpath\<close> is idempotent, its component loop keeps a normal form, and the static
    folder comes from the configuration.
  \<^item> Module initialisation: a successful import has \<open>OPENAPI\<close> from \<open>get_oas\<close>, so
    the fallback of lines 80 to 83 never gives a loaded module. It builds the API object
    twice. It succeeds with all globals bound when every collaborator returns, and exits
    with \<open>SystemExit(1)\<close> without FastHTML; a configuration without a \<open>server\<close>
    section stops it at line 119 with \<open>KeyError\<close>. Variables already set in the environment
    are never changed (an invariant of every step), and \<open>.env\<close> fills only the unset
    ones.
  \<^item> Serving (this theory): in the fallback mode every route with a path parameter
    answers 500. With FastHTML, API routes answer what \<open>execute_from_fasthtml\<close> builds
    unless FastHTML's static-extension route takes the path first, and
    \<open>/static//etc/passwd\<close> serves \<open>/etc/passwd\<close> (while \<open>/static//etc/hosts.txt\<close>
    is served by FastHTML's route as \<open>./static//etc/hosts.txt\<close>).
  \<^item> CORS: any origin's cookie-carrying request gets its origin mirrored with
    credentials allowed, and any origin's preflight for any standard method is approved.
    As a lemma: the 500 answer to an escaping exception carries no CORS header.
  \<^item> Reverse routing: for every route function and parameters its convertors accept,
    \<open>url_path_for\<close> builds a path that the router sends back to that function with
    those parameters (a value holding a later parameter's \<open>{name}\<close> is the exception,
    \<open>url_path_for_brace_value\<close>).
  \<^item> Environment check: each variable is reported as set or not set (an empty value
    counts as not set), file existence is reported accurately, and the configuration is
    loaded exactly when all variables are good. The exit status is 0 whatever the
    environment.

  \<^bold>\<open>Bounds and termination.\<close> All definitions are total functions. The recursions are
  structural (\<open>match_toks\<close> recurses on a shorter token list inside a search over the
  finitely many split points; \<open>path_segments\<close> on a strictly shorter suffix);
  \<open>py_replace\<close> is a \<open>function\<close> whose termination is proved by the length of the
  string still to scan. No fuel or bound is needed: the programs have no unbounded loops.
  Strings are lists of code
  points below 256; \<open>utf8_len\<close> counts the UTF-8 bytes of such a string.

  \<^bold>\<open>Not modelled.\<close>
  \<^item> The pygeoapi library (API functions, \<open>APIRequest\<close>, \<open>get_config\<close>,
    \<open>get_oas\<close>, \<open>get_api_rules\<close>): not part of the repository. It is a parameter of
    every definition that calls it, so every theorem holds for any implementation.
  \<^item> FastHTML's own app beyond its calling convention (parameters by name), the route
    its \<open>fast_app\<close> registers for static extensions, and its decorator appending the
    same Starlette routes as \<open>RT\<close>. Its \<open>live=True\<close> websocket route matches no HTTP
    request. FastHTML re-registers the \<open>path\<close> convertor as the lazy \<open>.*?\<close>; the
    matcher here is greedy, which changes how \<open>fname\<close> and \<open>ext\<close> split a path but
    not whether it matches nor the file \<open>./fname.ext\<close> served, and, for the module's
    routes, whose \<open>path\<close> parameter ends the pattern, nothing. The extension list is
    FastHTML's first one (later versions add more); the claims use it only through
    \<open>route_matches fasthtml_static_route\<close>.
  \<^item> The process side: \<open>sys.path\<close> manipulation (lines 47 and 10), logging
    configuration, the \<open>uvicorn.run\<close> entry point (lines 249 to 251), the emoji of the
    script's output, and the body of the debug traceback page (only its last line is
    kept).
  \<^item> The \<open>to_string\<close> of the \<open>int\<close> and \<open>float\<close> convertors, which no route of
    the module uses.
  \<^item> Middleware that FastHTML's \<open>fast_app\<close> adds itself (sessions, live reload), and
    the headers of a \<open>FileResponse\<close> (the file's path is what is modelled).
\<close>

section \<open>Properties of the assembled application\<close>

text \<open>
  C5. In the fallback mode (FastHTML's names missing, lines 95 to 106) every route with a
  path parameter fails: Starlette calls the route function with the request only, so the
  API routes raise \<open>TypeError\<close> for their missing positional arguments and
  \<open>static_files\<close> passes the request to \<open>os.path.join\<close>; the error middleware answers
  500 instead of the API's response.
\<close>

theorem fallback_param_routes_fail:
  assumes rs: "register_routes [] route_decls = Inr rs" and spec: "route_spec p = Some (ep, ps)"
    and params: "endpoint_params ep \<noteq> []" and m: "m \<in> set [''GET'', ''POST'', ''HEAD'']"
  shows "\<exists>e. serve StarletteApp rs fs loc call api True folder m p req
               = Inr (HttpResponse (server_error_response e)) \<and> exc_type e = ''TypeError''"
proof -
  have d: "router rs m p = Dispatch ep ps" using rs spec m by (rule app_router_dispatch)
  have "\<exists>e. invoke_endpoint StarletteApp fs loc call api True folder ep req ps = Inl e
            \<and> exc_is_Exception e \<and> exc_type e = ''TypeError''"
  proof (cases "endpoint_api ep")
    case None
    then show ?thesis
      by (cases folder) (auto simp: invoke_endpoint_def static_files_on_request_def type_error_def)
  next
    case (Some fn)
    then show ?thesis
      using params by (simp add: invoke_endpoint_def call_api_endpoint_none missing_args_error_def type_error_def)
  qed
  moreover have "serve StarletteApp rs fs loc call api True folder m p req
     = (case invoke_endpoint StarletteApp fs loc call api True folder ep req ps of
          Inr r \<Rightarrow> Inr r
        | Inl e \<Rightarrow> if exc_is_Exception e then Inr (HttpResponse (server_error_response e)) else Inl e)"
    by (rule serve_dispatch [OF d]) simp
  ultimately show ?thesis by auto
qed

theorem fallback_param_routes_fail_witness:
  "\<exists>rs. register_routes [] route_decls = Inr rs
     \<and> (\<exists>e. serve StarletteApp rs (\<lambda>(r::unit) (l::unit). Inr ()) (\<lambda>(a::unit). ())
              (\<lambda>f a r args. Inr ([], 200, PNone)) () True (PStr ''static'') ''GET''
              (''/collections/'' @ ''lakes'' @ ''/items/'' @ ''7'') ()
            = Inr (HttpResponse (server_error_response e)) \<and> exc_type e = ''TypeError'')"
proof -
  have sp: "route_spec (''/collections/'' @ ''lakes'' @ ''/items/'' @ ''7'')
          = Some (collection_item_by_id, [(''collection_id'', ''lakes''), (''item_id'', ''7'')])"
    by (rule route_spec_item) simp_all
  obtain rs where rs: "register_routes [] route_decls = Inr rs"
    using register_app_routes by blast
  have "\<exists>e. serve StarletteApp rs (\<lambda>(r::unit) (l::unit). Inr ()) (\<lambda>(a::unit). ())
              (\<lambda>f a r args. Inr ([], 200, PNone)) () True (PStr ''static'') ''GET''
              (''/collections/'' @ ''lakes'' @ ''/items/'' @ ''7'') ()
            = Inr (HttpResponse (server_error_response e)) \<and> exc_type e = ''TypeError''"
    by (rule fallback_param_routes_fail [OF rs sp]) simp_all
  with rs show ?thesis by blast
qed

text \<open>
  C11. With FastHTML, a request the routing specification sends to an API endpoint is
  answered with the response \<open>execute_from_fasthtml\<close> builds from that endpoint's API
  function and the path parameters in the order of the route function's signature,
  unless it is a \<open>GET\<close> or \<open>HEAD\<close> of a path that FastHTML's static-extension route,
  registered first by \<open>fast_app\<close>, takes (as \<open>/collections/lakes/items/r.html\<close>).
\<close>

theorem fasthtml_dispatch_api:
  assumes rs: "register_routes [] route_decls = Inr rs" and spec: "route_spec p = Some (ep, ps)"
    and fn: "endpoint_api ep = Some fn" and m: "m \<in> set [''GET'', ''POST'', ''HEAD'']"
    and nostatic: "route_matches fasthtml_static_route p = None \<or> m = ''POST''"
    and ex: "execute_from_fasthtml fs loc (call fn) api req (map snd ps) = Inr (r, logged)"
  shows "serve FastHTMLApp rs fs loc call api ok folder m p req = Inr (HttpResponse r)"
proof -
  have d: "router rs m p = Dispatch ep ps" using rs spec m by (rule app_router_dispatch)
  have "call_api_endpoint fs loc call api ep fn req ps
          = execute_from_fasthtml fs loc (call fn) api req (map snd ps)"
    using route_spec_params [OF spec] by (intro call_api_endpoint_all) auto
  then have "call_api_endpoint fs loc call api ep fn req ps = Inr (r, logged)" using ex by simp
  moreover have "route_matches fasthtml_static_route p = None \<or> m \<notin> set [''GET'', ''HEAD'']"
    using nostatic by auto
  ultimately show ?thesis using d fn by (simp add: serve_dispatch invoke_endpoint_def)
qed

theorem fasthtml_dispatch_api_witness:
  "\<exists>rs. register_routes [] route_decls = Inr rs
     \<and> serve FastHTMLApp rs (\<lambda>(r::unit) (l::unit). Inr ()) (\<lambda>(a::unit). ())
         (\<lambda>f a r args. Inr ([(''Content-Type'', ''text/plain'')], 200, PStr (concat args))) () True
         (PStr ''static'') ''GET'' (''/collections/'' @ ''lakes'' @ ''/items/'' @ ''7'') ()
       = Inr (HttpResponse (get_response (PStr ''lakes7'') ''text/plain'' 200))"
proof -
  have sp: "route_spec (''/collections/'' @ ''lakes'' @ ''/items/'' @ ''7'')
          = Some (collection_item_by_id, [(''collection_id'', ''lakes''), (''item_id'', ''7'')])"
    by (rule route_spec_item) simp_all
  have ex: "execute_from_fasthtml (\<lambda>(r::unit) (l::unit). Inr ()) (\<lambda>(a::unit). ())
      ((\<lambda>f a r args. Inr ([(''Content-Type'', ''text/plain'')], 200, PStr (concat args))) get_collection_item)
      () () (map snd [(''collection_id'', ''lakes''), (''item_id'', ''7'')])
      = Inr (get_response (PStr ''lakes7'') ''text/plain'' 200, [])"
    by (simp add: execute_from_fasthtml_def)
  have ns: "route_matches fasthtml_static_route ''/collections/lakes/items/7'' = None"
    by code_simp
  obtain rs where rs: "register_routes [] route_decls = Inr rs"
    using register_app_routes by blast
  have "serve FastHTMLApp rs (\<lambda>(r::unit) (l::unit). Inr ()) (\<lambda>(a::unit). ())
         (\<lambda>f a r args. Inr ([(''Content-Type'', ''text/plain'')], 200, PStr (concat args))) () True
         (PStr ''static'') ''GET'' (''/collections/'' @ ''lakes'' @ ''/items/'' @ ''7'') ()
       = Inr (HttpResponse (get_response (PStr ''lakes7'') ''text/plain'' 200))"
    by (rule fasthtml_dispatch_api [OF rs sp _ _ _ ex]) (simp_all add: ns)
  with rs show ?thesis by blast
qed

text \<open>
  C6. End to end, with FastHTML: the request path \<open>/static/\<close> followed by an absolute
  path \<open>fp\<close> (as \<open>/static//etc/passwd\<close>) is routed to \<open>static_files\<close> and serves
  that absolute file, whatever the static folder; only a \<open>GET\<close> or \<open>HEAD\<close> of a path
  ending in one of FastHTML's static extensions is taken first by \<open>fast_app\<close>'s route,
  which serves \<open>./static/fp\<close> from the working directory instead.
\<close>

theorem fasthtml_static_absolute:
  assumes rs: "register_routes [] route_decls = Inr rs" and abs: "startswith fp ''/''"
    and nl: "CHR 0x0A \<notin> set fp" and m: "m \<in> set [''GET'', ''POST'', ''HEAD'']"
  shows "serve FastHTMLApp rs fs loc call api True (PStr d) m (''/static/'' @ fp) req
           = Inr (HttpFile (if m \<noteq> ''POST'' \<and> route_matches fasthtml_static_route (''/static/'' @ fp) \<noteq> None
                            then ''./static/'' @ fp else fp))"
proof (cases "m \<noteq> ''POST'' \<and> route_matches fasthtml_static_route (''/static/'' @ fp) \<noteq> None")
  case True
  then obtain ps where ps: "route_matches fasthtml_static_route (''/static/'' @ fp) = Some ps" by auto
  from True m have m': "m \<in> set [''GET'', ''HEAD'']" by auto
  have "CHR 0x0A \<notin> set (''/static/'' @ fp)" using nl by simp
  from fasthtml_static_match [OF ps this]
  have "''./'' @ the (map_of ps ''fname'') @ ''.'' @ the (map_of ps ''ext'') = ''./static/'' @ fp" by simp
  with True show ?thesis
    unfolding serve_def route_request_def app_table_static_dispatch [OF ps m'] by (simp add: server_errors_def)
next
  case False
  have "route_spec (''/static/'' @ fp) = Some (static_files, [(''filepath'', fp)])"
    unfolding route_spec_static_prefix using nl by (simp add: static_spec_def)
  then have "router rs m (''/static/'' @ fp) = Dispatch static_files [(''filepath'', fp)]"
    using m by (intro app_router_dispatch [OF rs])
  moreover have "route_matches fasthtml_static_route (''/static/'' @ fp) = None \<or> m \<notin> set [''GET'', ''HEAD'']"
    using False m by auto
  ultimately show ?thesis
    using abs False by (simp add: serve_dispatch invoke_endpoint_def static_files_handler_file path_join_def
                                 static_result_http_def)
qed

theorem fasthtml_static_absolute_witness:
  "\<exists>rs. register_routes [] route_decls = Inr rs
     \<and> serve FastHTMLApp rs (\<lambda>(r::unit) (l::unit). Inr ()) (\<lambda>(a::unit). ())
         (\<lambda>f a r args. Inr ([], 200, PNone)) () True (PStr ''static'') ''GET'' (''/static/'' @ ''/etc/passwd'') ()
       = Inr (HttpFile ''/etc/passwd'')
     \<and> serve FastHTMLApp rs (\<lambda>(r::unit) (l::unit). Inr ()) (\<lambda>(a::unit). ())
         (\<lambda>f a r args. Inr ([], 200, PNone)) () True (PStr ''static'') ''GET'' (''/static/'' @ ''/etc/hosts.txt'') ()
       = Inr (HttpFile ''./static//etc/hosts.txt'')"
proof -
  obtain rs where rs: "register_routes [] route_decls = Inr rs"
    using register_app_routes by blast
  have n1: "route_matches fasthtml_static_route (''/static/'' @ ''/etc/passwd'') = None" by code_simp
  have n2: "route_matches fasthtml_static_route (''/static/'' @ ''/etc/hosts.txt'') \<noteq> None" by code_simp
  have "serve FastHTMLApp rs (\<lambda>(r::unit) (l::unit). Inr ()) (\<lambda>(a::unit). ())
         (\<lambda>f a r args. Inr ([], 200, PNone)) () True (PStr ''static'') ''GET'' (''/static/'' @ ''/etc/passwd'') ()
       = Inr (HttpFile (if ''GET'' \<noteq> ''POST'' \<and> route_matches fasthtml_static_route (''/static/'' @ ''/etc/passwd'') \<noteq> None
                        then ''./static/'' @ ''/etc/passwd'' else ''/etc/passwd''))"
    by (rule fasthtml_static_absolute [OF rs]) (simp_all add: startswith_def)
  moreover have "serve FastHTMLApp rs (\<lambda>(r::unit) (l::unit). Inr ()) (\<lambda>(a::unit). ())
         (\<lambda>f a r args. Inr ([], 200, PNone)) () True (PStr ''static'') ''GET'' (''/static/'' @ ''/etc/hosts.txt'') ()
       = Inr (HttpFile (if ''GET'' \<noteq> ''POST'' \<and> route_matches fasthtml_static_route (''/static/'' @ ''/etc/hosts.txt'') \<noteq> None
                        then ''./static/'' @ ''/etc/hosts.txt'' else ''/etc/hosts.txt''))"
    by (rule fasthtml_static_absolute [OF rs]) (simp_all add: startswith_def)
  ultimately show ?thesis using rs n1 n2 by auto
qed

text \<open>
  C18. The CORS middleware the module adds (every origin, credentials allowed) mirrors the
  origin of any request that carries a cookie and allows credentials on the application's
  response: every site may read the API's responses to its users' credentialed requests.
\<close>

theorem cors_credentials_any_origin:
  assumes "import_module E env = (None, s)"
    and "map_of hs ''origin'' = Some origin" "''cookie'' \<in> fst ` set hs" "m \<noteq> ''OPTIONS''"
    and "route_request kind rs fs loc call api ok folder m p req = Inr (HttpResponse r0)"
  shows "app_middleware s = [app_cors]
         \<and> (\<exists>r. asgi_app app_cors kind rs fs loc call api ok folder m p hs req = Inr (HttpResponse r)
              \<and> header_value r ''access-control-allow-origin'' = Some origin
              \<and> header_value r ''access-control-allow-credentials'' = Some ''true'')"
  using import_success_middleware [OF assms(1)] assms(2-5)
  by (simp add: asgi_app_def cors_layer_def server_errors_def cors_simple_response_def cors_send_app_cors
      header_value_def allow_explicit_origin_def Let_def)

theorem cors_credentials_any_origin_witness:
  "\<exists>s. import_module demo_env [] = (None, s)
     \<and> app_middleware s = [app_cors]
     \<and> (\<exists>r. asgi_app app_cors FastHTMLApp [] (\<lambda>(r::unit) (l::unit). Inr ()) (\<lambda>(a::unit). ())
              (\<lambda>f a r args. Inr ([], 200, PNone)) () True (PStr ''static'') ''GET'' ''/''
              [(''origin'', ''https://attacker.example''), (''cookie'', ''session=1'')] ()
            = Inr (HttpResponse r)
          \<and> header_value r ''access-control-allow-origin'' = Some ''https://attacker.example''
          \<and> header_value r ''access-control-allow-credentials'' = Some ''true'')"
proof -
  have "\<exists>s. import_module demo_env [] = (None, s)"
    by (simp add: import_simps static_folder_of_def)
  then obtain s where s: "import_module demo_env [] = (None, s)" by blast
  have rr: "route_request FastHTMLApp [] (\<lambda>(r::unit) (l::unit). Inr ()) (\<lambda>(a::unit). ())
              (\<lambda>f a r args. Inr ([], 200, PNone)) () True (PStr ''static'') ''GET'' ''/'' ()
            = Inr (HttpResponse not_found_response)"
    by (simp add: route_request_def app_table_def router_Cons fasthtml_static_route_def route_matches_def
        router_def toggle_slash_def)
  have "app_middleware s = [app_cors]
     \<and> (\<exists>r. asgi_app app_cors FastHTMLApp [] (\<lambda>(r::unit) (l::unit). Inr ()) (\<lambda>(a::unit). ())
              (\<lambda>f a r args. Inr ([], 200, PNone)) () True (PStr ''static'') ''GET'' ''/''
              [(''origin'', ''https://attacker.example''), (''cookie'', ''session=1'')] ()
            = Inr (HttpResponse r)
          \<and> header_value r ''access-control-allow-origin'' = Some ''https://attacker.example''
          \<and> header_value r ''access-control-allow-credentials'' = Some ''true'')"
    by (rule cors_credentials_any_origin [OF s _ _ _ rr]) simp_all
  with s show ?thesis by blast
qed

end
